(* ===== verification/XdndPrelude.thy ===== *)
theory XdndPrelude
  imports Main "HOL-Library.Word"
begin

text \<open>
  Shared vocabulary of the development: the machine types of the X protocol, the error
  values of \<^verbatim>\<open>src/phil_error.c\<close>, the result type every fallible operation returns, and
  the generic facts about lists, bytes and words that the component theories use.

  \<^item> \<open>Window\<close>, \<open>Atom\<close>, \<open>Time\<close> and the five slots of a client message are \<open>32 word\<close>:
    the width the X protocol transmits (CARD32 / INT32). The C types \<^verbatim>\<open>long\<close>,
    \<^verbatim>\<open>unsigned long\<close> and \<^verbatim>\<open>int\<close> are read at this width.
  \<^item> A byte is a \<open>char\<close>, a buffer a \<open>string\<close>; \<open>cstr\<close> is what \<^verbatim>\<open>strlen\<close> and
    \<^verbatim>\<open>strcpy\<close> see of a buffer (the bytes before the first NUL).
  \<^item> \<open>philError\<close> is the fatal exit of \<^verbatim>\<open>philError()\<close>; \<open>Undefined\<close> marks a step
    whose C behaviour is undefined (a read outside a buffer); \<open>XError\<close> is the exit
    through the default error handler of Xlib after a request the server refused.
  \<^item> \<open>faults\<close> is the environment's choice of which library calls fail.
\<close>

unbundle bit_operations_syntax

section \<open>Collections\<close>

named_theorems xdnd_atoms "unfolding rules for the interned atom names"
named_theorems xdnd_send "unfolding rules for the message builders"
named_theorems xdnd_ops "unfolding rules for the sequencing combinators"
named_theorems xdnd_frame "fields an operation leaves unchanged"

section \<open>Machine types\<close>

type_synonym Window = "32 word"
type_synonym Atom = "32 word"
type_synonym Time = "32 word"
type_synonym Pixel = "32 word"
type_synonym slot = "32 word"

text \<open>The X11 constant \<^verbatim>\<open>None\<close> (no window, no atom) is 0.\<close>

abbreviation XNone :: "32 word" where
  "XNone \<equiv> 0"

section \<open>Errors as values\<close>

datatype error =
    PhilError string
  | Undefined string
  | XError string

type_synonym 'a result = "error + 'a"

type_synonym faults = "string \<Rightarrow> bool"

definition philError :: "string \<Rightarrow> 'a result" where
  "philError str = Inl (PhilError str)"

definition bindR :: "'a result \<Rightarrow> ('a \<Rightarrow> 'b result) \<Rightarrow> 'b result" where
  "bindR m f = (case m of Inl e \<Rightarrow> Inl e | Inr x \<Rightarrow> f x)"

definition thenR :: "('s \<Rightarrow> 's result) \<Rightarrow> ('s \<Rightarrow> 's result) \<Rightarrow> 's \<Rightarrow> 's result" where
  "thenR f g s = bindR (f s) g"

definition whenR :: "bool \<Rightarrow> ('s \<Rightarrow> 's result) \<Rightarrow> 's \<Rightarrow> 's result" where
  "whenR b f s = (if b then f s else Inr s)"

definition pureR :: "('s \<Rightarrow> 's) \<Rightarrow> 's \<Rightarrow> 's result" where
  "pureR f s = Inr (f s)"

definition isOK :: "'a result \<Rightarrow> bool" where
  "isOK r = (case r of Inl _ \<Rightarrow> False | Inr _ \<Rightarrow> True)"

definition no_faults :: faults where
  "no_faults = (\<lambda>_. False)"

section \<open>C strings\<close>

abbreviation NUL :: char where "NUL \<equiv> CHR 0x00"
abbreviation CR :: char where "CR \<equiv> CHR 0x0D"
abbreviation LF :: char where "LF \<equiv> CHR 0x0A"

definition cstr :: "string \<Rightarrow> string" where
  "cstr buf = takeWhile (\<lambda>c. c \<noteq> NUL) buf"

definition nul_free :: "string \<Rightarrow> bool" where
  "nul_free s = (NUL \<notin> set s)"

fun is_infix :: "string \<Rightarrow> string \<Rightarrow> bool" where
  "is_infix pat [] = (pat = [])"
| "is_infix pat (c # cs) = (take (length pat) (c # cs) = pat \<or> is_infix pat cs)"

section \<open>Little-endian words in a byte buffer\<close>

fun le_word :: "string \<Rightarrow> 32 word" where
  "le_word [] = 0"
| "le_word (b # bs) = of_char b OR push_bit 8 (le_word bs)"

definition le_bytes :: "32 word \<Rightarrow> string" where
  "le_bytes w = map (\<lambda>i. char_of (unat (drop_bit (8 * i) w))) [0..<4]"

section \<open>Facts about the result type\<close>

lemma bindR_Inl [simp]: "bindR (Inl e) f = Inl e"
  by (simp add: bindR_def)

lemma bindR_Inr [simp]: "bindR (Inr x) f = f x"
  by (simp add: bindR_def)

lemma bindR_philError [simp]: "bindR (philError s) f = philError s"
  by (simp add: philError_def)

lemma bindR_eq_Inr_iff: "bindR m f = Inr y \<longleftrightarrow> (\<exists>x. m = Inr x \<and> f x = Inr y)"
  by (cases m) simp_all

lemma bindR_assoc: "bindR (bindR m f) g = bindR m (\<lambda>x. bindR (f x) g)"
  by (cases m) simp_all

lemma philError_not_Inr [simp]: "philError s \<noteq> Inr x"
  by (simp add: philError_def)

lemma ex_option_conv: "(\<exists>r. P r) \<longleftrightarrow> P None \<or> (\<exists>x. P (Some x))"
  by (metis option.exhaust)

lemma isOK_simps [simp]: "isOK (Inr x)" "\<not> isOK (Inl e)" "\<not> isOK (philError s)"
  by (simp_all add: isOK_def philError_def)

lemma isOK_iff: "isOK r \<longleftrightarrow> (\<exists>x. r = Inr x)"
  by (cases r) simp_all

lemma thenR_Inr [simp]: "f s = Inr t \<Longrightarrow> thenR f g s = g t"
  by (simp add: thenR_def)

lemma thenR_Inl [simp]: "f s = Inl e \<Longrightarrow> thenR f g s = Inl e"
  by (simp add: thenR_def)

lemma thenR_eq_Inr_iff: "thenR f g s = Inr u \<longleftrightarrow> (\<exists>t. f s = Inr t \<and> g t = Inr u)"
  by (simp add: thenR_def bindR_eq_Inr_iff)

lemma whenR_True [simp]: "whenR True f = f"
  by (rule ext) (simp add: whenR_def)

lemma whenR_False [simp]: "whenR False f = Inr"
  by (rule ext) (simp add: whenR_def)

lemma pureR_apply [simp]: "pureR f s = Inr (f s)"
  by (simp add: pureR_def)

lemma no_faults_apply [simp]: "\<not> no_faults s"
  by (simp add: no_faults_def)

declare thenR_def [xdnd_ops] whenR_def [xdnd_ops] pureR_def [xdnd_ops]

section \<open>Facts about C strings\<close>

lemma cstr_nul_free [simp]: "nul_free (cstr buf)"
  by (auto simp: nul_free_def cstr_def dest: set_takeWhileD)

lemma cstr_id [simp]: "nul_free s \<Longrightarrow> cstr s = s"
  by (auto simp: nul_free_def cstr_def)

lemma cstr_append_NUL [simp]: "nul_free s \<Longrightarrow> cstr (s @ NUL # t) = s"
  unfolding nul_free_def cstr_def by (induction s) auto

lemma cstr_Nil [simp]: "cstr [] = []"
  by (simp add: cstr_def)

lemma cstr_length_le: "length (cstr buf) \<le> length buf"
  by (simp add: cstr_def length_takeWhile_le)

lemma cstr_prefix: "cstr buf = take (length (cstr buf)) buf"
  unfolding cstr_def by (induction buf) auto

lemma nul_free_append [simp]: "nul_free (s @ t) \<longleftrightarrow> nul_free s \<and> nul_free t"
  by (auto simp: nul_free_def)

lemma nul_free_Cons [simp]: "nul_free (c # s) \<longleftrightarrow> c \<noteq> NUL \<and> nul_free s"
  by (auto simp: nul_free_def)

lemma nul_free_Nil [simp]: "nul_free []"
  by (simp add: nul_free_def)

lemma nul_free_drop: "nul_free s \<Longrightarrow> nul_free (drop n s)"
  by (auto simp: nul_free_def dest: in_set_dropD)

lemma nul_free_take: "nul_free s \<Longrightarrow> nul_free (take n s)"
  by (auto simp: nul_free_def dest: in_set_takeD)

lemma drop_last_two: "length s = n + 2 \<Longrightarrow> drop n s = [s ! n, s ! (n + 1)]"
  by (auto simp: list_eq_iff_nth_eq less_Suc_eq numeral_2_eq_2)

lemma is_infix_iff: "is_infix pat s \<longleftrightarrow> (\<exists>u v. s = u @ pat @ v)"
proof (induction s)
  case Nil
  then show ?case by auto
next
  case (Cons c cs)
  show ?case
  proof
    assume "is_infix pat (c # cs)"
    then consider "take (length pat) (c # cs) = pat" | "is_infix pat cs"
      by auto
    then show "\<exists>u v. c # cs = u @ pat @ v"
    proof cases
      case 1
      then have "c # cs = [] @ pat @ drop (length pat) (c # cs)"
        by (metis append_Nil append_take_drop_id)
      then show ?thesis by blast
    next
      case 2
      with Cons.IH obtain u v where "cs = u @ pat @ v" by blast
      then have "c # cs = (c # u) @ pat @ v" by simp
      then show ?thesis by blast
    qed
  next
    assume "\<exists>u v. c # cs = u @ pat @ v"
    then obtain u v where eq: "c # cs = u @ pat @ v" by blast
    show "is_infix pat (c # cs)"
    proof (cases u)
      case Nil
      with eq have "take (length pat) (c # cs) = pat"
        by (metis append_Nil append_eq_conv_conj)
      then show ?thesis by simp
    next
      case (Cons d u')
      with eq have "cs = u' @ pat @ v" by simp
      with Cons.IH show ?thesis by auto
    qed
  qed
qed

lemma is_infix_append_left [simp]: "is_infix pat (pat @ s)"
  unfolding is_infix_iff by (metis append_Nil)

section \<open>Facts about words\<close>

lemma of_char_char_of_word:
  "(of_char (char_of (unat (w :: 32 word))) :: 32 word) = take_bit 8 w"
proof -
  have "(of_char (char_of (unat w)) :: 32 word) = of_nat (of_char (char_of (unat w)))"
    by (simp only: of_nat_of_char)
  also have "\<dots> = of_nat (unat w mod 256)"
    by (simp add: of_char_of)
  also have "\<dots> = take_bit 8 w"
    by (simp add: take_bit_eq_mod word_arith_nat_mod)
  finally show ?thesis .
qed

lemma of_char_int_nonneg [simp]: "(0 :: int) \<le> of_char c"
  by (metis of_nat_0_le_iff of_nat_of_char)

lemma of_char_int_less [simp]: "(of_char c :: int) < 256"
  by (metis of_char_mod_256 pos_mod_bound zero_less_numeral)

lemma length_le_bytes [simp]: "length (le_bytes w) = 4"
  by (simp add: le_bytes_def)

lemma le_word_le_bytes [simp]: "le_word (le_bytes w) = w"
proof (rule bit_word_eqI)
  fix n assume "n < LENGTH(32)"
  then show "bit (le_word (le_bytes w)) n = bit w n"
    by (cases "n < 8"; cases "n < 16"; cases "n < 24")
      (auto simp: le_bytes_def upt_rec of_char_char_of_word bit_simps)
qed

lemma le_bytes_inject [simp]: "le_bytes v = le_bytes w \<longleftrightarrow> v = w"
  by (metis le_word_le_bytes)

lemma and_0xFFFF: "(w :: 32 word) AND 0xFFFF = take_bit 16 w"
  by (simp add: take_bit_eq_mask mask_eq_exp_minus_1)

lemma and_1_eq: "(w :: 32 word) AND 1 = (if bit w 0 then 1 else 0)"
  by (simp add: and_one_eq bit_0 mod_2_eq_odd)

lemma sint_word_of_int_32:
  assumes "- (2 ^ 31) \<le> k" and "k < 2 ^ 31"
  shows "sint (word_of_int k :: 32 word) = k"
proof -
  have "sint (word_of_int k :: 32 word) = signed_take_bit (LENGTH(32) - 1) k"
    by (rule sint_sbintrunc')
  also have "\<dots> = k"
    using assms by (simp add: signed_take_bit_int_eq_self)
  finally show ?thesis .
qed

lemma uint_word_of_int_32:
  assumes "0 \<le> k" and "k < 2 ^ 32"
  shows "uint (word_of_int k :: 32 word) = k"
  using assms by (simp add: uint_word_of_int_eq take_bit_int_eq_self)

end
