(* ===== verification/XEventType.thy ===== *)
theory XEventType
  imports XdndPrelude
begin

text \<open>
  \<^verbatim>\<open>src/xevent_type.c\<close>: \<open>getEventType\<close> turns the type code of an X event into its
  name, for the log lines of the event loop. The definition follows the \<^verbatim>\<open>switch\<close> case
  by case; \<open>event_names\<close> is the same table as a list, and the lemmas show that the
  switch is a lookup in it, that exactly the codes 2..35 have a name, and that no two
  codes share one.
\<close>

section \<open>The switch\<close>

definition getEventType :: "int \<Rightarrow> string" where
  "getEventType t =
    (if t = 2 then ''KeyPress''
     else if t = 3 then ''KeyRelease''
     else if t = 4 then ''ButtonPress''
     else if t = 5 then ''ButtonRelease''
     else if t = 6 then ''MotionNotify''
     else if t = 7 then ''EnterNotify''
     else if t = 8 then ''LeaveNotify''
     else if t = 9 then ''FocusIn''
     else if t = 10 then ''FocusOut''
     else if t = 11 then ''KeymapNotify''
     else if t = 12 then ''Expose''
     else if t = 13 then ''GraphicsExpose''
     else if t = 14 then ''NoExpose''
     else if t = 15 then ''VisibilityNotify''
     else if t = 16 then ''CreateNotify''
     else if t = 17 then ''DestroyNotify''
     else if t = 18 then ''UnmapNotify''
     else if t = 19 then ''MapNotify''
     else if t = 20 then ''MapRequest''
     else if t = 21 then ''ReparentNotify''
     else if t = 22 then ''ConfigureNotify''
     else if t = 23 then ''ConfigureRequest''
     else if t = 24 then ''GravityNotify''
     else if t = 25 then ''ResizeRequest''
     else if t = 26 then ''CirculateNotify''
     else if t = 27 then ''CirculateRequest''
     else if t = 28 then ''PropertyNotify''
     else if t = 29 then ''SelectionClear''
     else if t = 30 then ''SelectionRequest''
     else if t = 31 then ''SelectionNotify''
     else if t = 32 then ''ColormapNotify''
     else if t = 33 then ''ClientMessage''
     else if t = 34 then ''MappingNotify''
     else if t = 35 then ''GenericEvent''
     else ''Unknown'')"

section \<open>The table\<close>

definition event_names :: "string list" where
  "event_names =
    [''KeyPress'', ''KeyRelease'', ''ButtonPress'', ''ButtonRelease'', ''MotionNotify'',
     ''EnterNotify'', ''LeaveNotify'', ''FocusIn'', ''FocusOut'', ''KeymapNotify'',
     ''Expose'', ''GraphicsExpose'', ''NoExpose'', ''VisibilityNotify'', ''CreateNotify'',
     ''DestroyNotify'', ''UnmapNotify'', ''MapNotify'', ''MapRequest'', ''ReparentNotify'',
     ''ConfigureNotify'', ''ConfigureRequest'', ''GravityNotify'', ''ResizeRequest'',
     ''CirculateNotify'', ''CirculateRequest'', ''PropertyNotify'', ''SelectionClear'',
     ''SelectionRequest'', ''SelectionNotify'', ''ColormapNotify'', ''ClientMessage'',
     ''MappingNotify'', ''GenericEvent'']"

definition known_event :: "int \<Rightarrow> bool" where
  "known_event t = (2 \<le> t \<and> t \<le> 35)"

section \<open>Lemmas\<close>

lemma length_event_names [simp]: "length event_names = 34"
  by (simp add: event_names_def)

lemma known_event_cases:
  assumes "known_event t"
  shows "t = 2 \<or> t = 3 \<or> t = 4 \<or> t = 5 \<or> t = 6 \<or> t = 7 \<or> t = 8 \<or> t = 9 \<or> t = 10
    \<or> t = 11 \<or> t = 12 \<or> t = 13 \<or> t = 14 \<or> t = 15 \<or> t = 16 \<or> t = 17 \<or> t = 18
    \<or> t = 19 \<or> t = 20 \<or> t = 21 \<or> t = 22 \<or> t = 23 \<or> t = 24 \<or> t = 25 \<or> t = 26
    \<or> t = 27 \<or> t = 28 \<or> t = 29 \<or> t = 30 \<or> t = 31 \<or> t = 32 \<or> t = 33 \<or> t = 34
    \<or> t = 35"
  using assms unfolding known_event_def by arith

lemma getEventType_unknown: "\<not> known_event t \<Longrightarrow> getEventType t = ''Unknown''"
  by (auto simp: known_event_def getEventType_def)

lemma getEventType_table: "known_event t \<Longrightarrow> getEventType t = event_names ! nat (t - 2)"
  by (drule known_event_cases) (auto simp: getEventType_def event_names_def)

lemma distinct_event_names: "distinct event_names"
  by (simp add: event_names_def)

lemma Unknown_not_event_name: "''Unknown'' \<notin> set event_names"
  by (simp add: event_names_def)

text \<open>
  \<^verbatim>\<open>getEventType\<close> is a lookup in the table of the 34 core event names: a code from
  2 to 35 gets the name at its position, every other code gets \<^verbatim>\<open>"Unknown"\<close>.
\<close>

lemma getEventType_lookup:
  "getEventType t = (if known_event t then event_names ! nat (t - 2) else ''Unknown'')"
  by (simp add: getEventType_table getEventType_unknown)

text \<open>
  No two event codes with a name share it, so a log line identifies the event type.
\<close>

lemma getEventType_inj:
  assumes "known_event s" and "known_event t" and "getEventType s = getEventType t"
  shows "s = t"
proof -
  from assms have "event_names ! nat (s - 2) = event_names ! nat (t - 2)"
    by (simp add: getEventType_table)
  moreover from assms(1,2) have "nat (s - 2) < length event_names" "nat (t - 2) < length event_names"
    by (auto simp: known_event_def)
  ultimately have "nat (s - 2) = nat (t - 2)"
    using distinct_event_names by (simp add: nth_eq_iff_index_eq)
  with assms(1,2) show ?thesis
    by (auto simp: known_event_def)
qed

lemma getEventType_inj_witness:
  "known_event 33 \<and> known_event 33 \<and> getEventType 33 = ''ClientMessage''"
  using getEventType_inj [of 33 33] by (simp add: known_event_def getEventType_def)

end
