(* ===== verification/SquareState.thy ===== *)
theory SquareState
  imports XdndPrelude
begin

text \<open>
  \<^verbatim>\<open>src/square_state.h\<close> and \<^verbatim>\<open>src/square_state.c\<close>: the dragged object and its
  serialisation to the temporary file.

  \<^item> \<open>Square\<close> is the C struct; its \<^verbatim>\<open>int\<close> fields are \<open>int\<close> (the lemmas of the state
    machine show they stay within 0..150 and the 16-bit event coordinates, far from the
    32-bit limits). The fields \<^verbatim>\<open>x\<close>, \<^verbatim>\<open>y\<close> and \<^verbatim>\<open>size\<close> are named \<open>square_x\<close>,
    \<open>square_y\<close> and \<open>square_size\<close>.
  \<^item> \<open>SquareColour\<close> is the enum at the width it is stored with (\<^verbatim>\<open>sizeof(SquareColour)\<close>
    = 4): \<^verbatim>\<open>fread\<close> fills the field with whatever four bytes the file holds, so the field
    can hold values that are no enumerator. \<open>colour_ok\<close> says that it holds one.
  \<^item> The file system is a map from path names to contents. \<^verbatim>\<open>fwrite\<close> stores the four
    bytes of the field in host order, which is little-endian (the byte order
    \<^verbatim>\<open>src/spawn_window.c\<close> assumes).
  \<^item> Every \<^verbatim>\<open>philError\<close> exit is a branch: a library call fails when the environment
    says so (\<open>faults\<close>), \<^verbatim>\<open>fopen(path, "rb")\<close> also when the file is missing and
    \<^verbatim>\<open>fread\<close> also when it is shorter than four bytes.
  \<^item> \<open>saveSquareState_files\<close> is the file system \<^verbatim>\<open>saveSquareState\<close> leaves behind, also
    when it ends the process: \<^verbatim>\<open>fopen(path, "wb")\<close> in line 14 has created or truncated
    the file before \<^verbatim>\<open>fwrite\<close> or \<^verbatim>\<open>fclose\<close> can fail, so a failure of either leaves the
    file empty (the four bytes are in the buffer of the stream until \<^verbatim>\<open>fclose\<close> writes
    them). \<open>file_ok\<close> also admits a file of one to three bytes, which a partial write
    would leave; \<^verbatim>\<open>fread\<close> fails on it as on the empty file.
\<close>

section \<open>The square\<close>

type_synonym SquareColour = "32 word"

definition RedSquare :: SquareColour where
  "RedSquare = 0"

definition BlueSquare :: SquareColour where
  "BlueSquare = 1"

record Square =
  square_x :: int
  square_y :: int
  mouse_x :: int
  mouse_y :: int
  square_size :: int
  visible :: bool
  selected :: bool
  colour :: SquareColour

definition colour_ok :: "Square \<Rightarrow> bool" where
  "colour_ok sq = (colour sq = RedSquare \<or> colour sq = BlueSquare)"

section \<open>The file\<close>

type_synonym files = "string \<rightharpoonup> string"

definition SQUARE_FILE_PATH :: string where
  "SQUARE_FILE_PATH = ''/tmp/square.state''"

definition saveSquareState :: "faults \<Rightarrow> Square \<Rightarrow> files \<Rightarrow> (string \<times> files) result" where
  "saveSquareState flt sq fs =
    (if flt ''fopen'' then philError ''fopen''
     else if flt ''fwrite'' then philError ''fwrite''
     else if flt ''fclose'' then philError ''fclose''
     else Inr (SQUARE_FILE_PATH, fs(SQUARE_FILE_PATH \<mapsto> le_bytes (colour sq))))"

definition saveSquareState_files :: "faults \<Rightarrow> Square \<Rightarrow> files \<Rightarrow> files" where
  "saveSquareState_files flt sq fs =
    (if flt ''fopen'' then fs
     else if flt ''fwrite'' \<or> flt ''fclose'' then fs(SQUARE_FILE_PATH \<mapsto> [])
     else fs(SQUARE_FILE_PATH \<mapsto> le_bytes (colour sq)))"

definition restoreSquareState :: "faults \<Rightarrow> files \<Rightarrow> string \<Rightarrow> Square \<Rightarrow> Square result" where
  "restoreSquareState flt fs pathStr sq =
    (case fs pathStr of
       None \<Rightarrow> philError ''fopen''
     | Some bytes \<Rightarrow>
         if flt ''fopen'' then philError ''fopen''
         else if flt ''fread'' \<or> length bytes < 4 then philError ''fread''
         else if flt ''fclose'' then philError ''fclose''
         else Inr (sq\<lparr>colour := le_word (take 4 bytes)\<rparr>))"

definition file_ok :: "files \<Rightarrow> bool" where
  "file_ok fs =
    (case fs SQUARE_FILE_PATH of None \<Rightarrow> True
     | Some bytes \<Rightarrow>
         length bytes < 4 \<or> bytes = le_bytes RedSquare \<or> bytes = le_bytes BlueSquare)"

section \<open>Lemmas\<close>

lemma RedSquare_neq_BlueSquare [simp]: "RedSquare \<noteq> BlueSquare" "BlueSquare \<noteq> RedSquare"
  by (simp_all add: RedSquare_def BlueSquare_def)

lemma nul_free_SQUARE_FILE_PATH [simp]: "nul_free SQUARE_FILE_PATH"
  by (simp add: SQUARE_FILE_PATH_def)

lemma length_SQUARE_FILE_PATH [simp]: "length SQUARE_FILE_PATH = 17"
  by (simp add: SQUARE_FILE_PATH_def)

lemma saveSquareState_ok:
  "saveSquareState no_faults sq fs
     = Inr (SQUARE_FILE_PATH, fs(SQUARE_FILE_PATH \<mapsto> le_bytes (colour sq)))"
  by (simp add: saveSquareState_def)

lemma saveSquareState_Inr_iff:
  "saveSquareState flt sq fs = Inr r \<longleftrightarrow>
     \<not> flt ''fopen'' \<and> \<not> flt ''fwrite'' \<and> \<not> flt ''fclose'' \<and>
     r = (SQUARE_FILE_PATH, fs(SQUARE_FILE_PATH \<mapsto> le_bytes (colour sq)))"
  by (auto simp: saveSquareState_def)

lemma saveSquareState_files_Inr:
  "saveSquareState flt sq fs = Inr (p, fs') \<Longrightarrow> fs' = saveSquareState_files flt sq fs"
  by (auto simp: saveSquareState_Inr_iff saveSquareState_files_def)

lemma saveSquareState_files_failed:
  assumes "\<not> flt ''fopen''" and "flt ''fwrite'' \<or> flt ''fclose''"
  shows "saveSquareState_files flt sq fs SQUARE_FILE_PATH = Some []"
  using assms by (simp add: saveSquareState_files_def)

lemma file_ok_saveSquareState_files:
  "file_ok fs \<Longrightarrow> colour_ok sq \<Longrightarrow> file_ok (saveSquareState_files flt sq fs)"
  by (auto simp: file_ok_def saveSquareState_files_def colour_ok_def)

lemma file_ok_update:
  "colour_ok sq \<Longrightarrow> file_ok (fs(SQUARE_FILE_PATH \<mapsto> le_bytes (colour sq)))"
  by (auto simp: file_ok_def colour_ok_def)

lemma file_ok_empty [simp]: "file_ok Map.empty"
  by (simp add: file_ok_def)

lemma saveSquareState_frame:
  "saveSquareState flt sq fs = Inr (p, fs') \<Longrightarrow> q \<noteq> SQUARE_FILE_PATH \<Longrightarrow> fs' q = fs q"
  by (auto simp: saveSquareState_Inr_iff)

lemma restoreSquareState_Inr_iff:
  "restoreSquareState flt fs pathStr sq = Inr sq' \<longleftrightarrow>
     (\<exists>bytes. fs pathStr = Some bytes \<and> 4 \<le> length bytes \<and>
        \<not> flt ''fopen'' \<and> \<not> flt ''fread'' \<and> \<not> flt ''fclose'' \<and>
        sq' = sq\<lparr>colour := le_word (take 4 bytes)\<rparr>)"
  by (auto simp: restoreSquareState_def split: option.splits)

lemma restoreSquareState_file_ok:
  assumes "restoreSquareState flt fs SQUARE_FILE_PATH sq = Inr sq'" and "file_ok fs"
  shows "colour_ok sq'"
  using assms
  by (auto simp: restoreSquareState_Inr_iff file_ok_def colour_ok_def le_word_le_bytes)

lemma restoreSquareState_missing:
  "fs pathStr = None \<Longrightarrow> restoreSquareState flt fs pathStr sq = philError ''fopen''"
  by (simp add: restoreSquareState_def)

lemma restoreSquareState_short:
  "fs pathStr = Some bytes \<Longrightarrow> length bytes < 4 \<Longrightarrow> \<not> flt ''fopen'' \<Longrightarrow>
     restoreSquareState flt fs pathStr sq = philError ''fread''"
  by (simp add: restoreSquareState_def)

lemma restoreSquareState_only_colour:
  "restoreSquareState flt fs pathStr sq = Inr sq' \<Longrightarrow> sq'\<lparr>colour := colour sq\<rparr> = sq"
  by (auto simp: restoreSquareState_Inr_iff)

text \<open>
  C25: what one process saves the other restores: after \<^verbatim>\<open>saveSquareState\<close> of a square,
  \<^verbatim>\<open>restoreSquareState\<close> from the returned path gives the receiving square the saved
  colour and changes no other field, whenever the library calls of the reader do not
  fail.
\<close>

theorem save_restore_roundtrip:
  assumes "saveSquareState flt src fs = Inr (pathStr, fs')"
    and "\<not> flt' ''fopen''" and "\<not> flt' ''fread''" and "\<not> flt' ''fclose''"
  shows "restoreSquareState flt' fs' pathStr dst = Inr (dst\<lparr>colour := colour src\<rparr>)"
  using assms by (auto simp: saveSquareState_Inr_iff restoreSquareState_def)

theorem save_restore_roundtrip_witness:
  "restoreSquareState no_faults
     (Map.empty(SQUARE_FILE_PATH \<mapsto> le_bytes BlueSquare)) SQUARE_FILE_PATH
     \<lparr>square_x = 0, square_y = 0, mouse_x = 0, mouse_y = 0, square_size = 50,
      visible = False, selected = False, colour = RedSquare\<rparr>
   = Inr \<lparr>square_x = 0, square_y = 0, mouse_x = 0, mouse_y = 0, square_size = 50,
      visible = False, selected = False, colour = BlueSquare\<rparr>"
  using save_restore_roundtrip [of no_faults
      "\<lparr>square_x = 7, square_y = 9, mouse_x = 0, mouse_y = 0, square_size = 50,
        visible = True, selected = True, colour = BlueSquare\<rparr>"
      Map.empty SQUARE_FILE_PATH "Map.empty(SQUARE_FILE_PATH \<mapsto> le_bytes BlueSquare)"
      no_faults
      "\<lparr>square_x = 0, square_y = 0, mouse_x = 0, mouse_y = 0, square_size = 50,
        visible = False, selected = False, colour = RedSquare\<rparr>"]
  by (simp add: saveSquareState_ok)

text \<open>
  C26: \<^verbatim>\<open>restoreSquareState\<close> does not validate what it reads: from a file whose first four
  bytes are not an enumerator the square's colour becomes a value that is neither
  \<^verbatim>\<open>RedSquare\<close> nor \<^verbatim>\<open>BlueSquare\<close>.
\<close>

theorem restoreSquareState_unchecked:
  "\<exists>fs sq sq'. colour_ok sq \<and> restoreSquareState no_faults fs SQUARE_FILE_PATH sq = Inr sq'
     \<and> \<not> colour_ok sq'"
proof -
  let ?sq = "\<lparr>square_x = 0, square_y = 0, mouse_x = 0, mouse_y = 0, square_size = 50,
      visible = False, selected = False, colour = RedSquare\<rparr>"
  let ?fs = "Map.empty(SQUARE_FILE_PATH \<mapsto> le_bytes 2)"
  have "restoreSquareState no_faults ?fs SQUARE_FILE_PATH ?sq = Inr (?sq\<lparr>colour := 2\<rparr>)"
    by (simp add: restoreSquareState_def)
  moreover have "colour_ok ?sq" "\<not> colour_ok (?sq\<lparr>colour := 2\<rparr>)"
    by (simp_all add: colour_ok_def RedSquare_def BlueSquare_def)
  ultimately show ?thesis by blast
qed

end
