(* ===== verification/XTypes.thy ===== *)
theory XTypes
  imports XdndPrelude
begin

text \<open>
  The data the program exchanges with the X server, as \<^verbatim>\<open>src/spawn_window.c\<close> uses it.

  \<^item> \<open>AtomTable\<close> is \<^verbatim>\<open>XInternAtom\<close> of the display both processes are connected to; the
    static atoms of lines 34-35, assigned in lines 464-485, are read from it.
    \<open>atoms_wf\<close> is what the server guarantees: different names have different atoms and
    none is \<^verbatim>\<open>None\<close>. \<open>server_atoms\<close> is one such table, used where an instance is needed.
  \<^item> \<open>XClientMessageEvent\<close> is the envelope of format 32: target window, message type and
    the five slots \<^verbatim>\<open>data.l[0..4]\<close>. \<open>XSelection\<close> carries the fields that
    \<^verbatim>\<open>XSelectionRequestEvent\<close> and \<^verbatim>\<open>XSelectionEvent\<close> share. \<open>XEvent\<close> has one
    constructor per \<^verbatim>\<open>case\<close> of the event loop and \<open>OtherEvent\<close> for every other type.
  \<^item> \<open>XRequest\<close> is a call that changes something outside the process; a process appends
    the requests it issues to its log, in program order. \<open>XCreateSimpleWindow\<close> carries
    the id the server gave the new window and its position and size.
  \<^item> \<open>XProperty\<close> is what \<^verbatim>\<open>XGetWindowProperty\<close> hands back: type, format, item count
    and the client-side buffer (Xlib's terminating NUL not included). \<open>XView\<close> is what the
    process can read from its environment while it handles one event: the window tree
    with geometry, the properties, the pointer position and which library calls fail.
  \<^item> \<open>WTree\<close> is a window with its geometry and its children in the order
    \<^verbatim>\<open>XQueryTree\<close> lists them (bottom-most first).
\<close>

section \<open>Atoms\<close>

type_synonym AtomTable = "string \<Rightarrow> Atom"

definition XdndAware :: "AtomTable \<Rightarrow> Atom" where
  "XdndAware ia = ia ''XdndAware''"

definition XA_ATOM :: "AtomTable \<Rightarrow> Atom" where
  "XA_ATOM ia = ia ''XA_ATOM''"

definition XdndEnter :: "AtomTable \<Rightarrow> Atom" where
  "XdndEnter ia = ia ''XdndEnter''"

definition XdndPosition :: "AtomTable \<Rightarrow> Atom" where
  "XdndPosition ia = ia ''XdndPosition''"

definition XdndActionCopy :: "AtomTable \<Rightarrow> Atom" where
  "XdndActionCopy ia = ia ''XdndActionCopy''"

definition XdndLeave :: "AtomTable \<Rightarrow> Atom" where
  "XdndLeave ia = ia ''XdndLeave''"

definition XdndStatus :: "AtomTable \<Rightarrow> Atom" where
  "XdndStatus ia = ia ''XdndStatus''"

definition XdndDrop :: "AtomTable \<Rightarrow> Atom" where
  "XdndDrop ia = ia ''XdndDrop''"

definition XdndSelection :: "AtomTable \<Rightarrow> Atom" where
  "XdndSelection ia = ia ''XdndSelection''"

definition XDND_DATA :: "AtomTable \<Rightarrow> Atom" where
  "XDND_DATA ia = ia ''XDND_DATA''"

definition XdndTypeList :: "AtomTable \<Rightarrow> Atom" where
  "XdndTypeList ia = ia ''XdndTypeList''"

definition XdndFinished :: "AtomTable \<Rightarrow> Atom" where
  "XdndFinished ia = ia ''XdndFinished''"

definition WM_PROTOCOLS :: "AtomTable \<Rightarrow> Atom" where
  "WM_PROTOCOLS ia = ia ''WM_PROTOCOLS''"

definition WM_DELETE_WINDOW :: "AtomTable \<Rightarrow> Atom" where
  "WM_DELETE_WINDOW ia = ia ''WM_DELETE_WINDOW''"

definition type_names :: "string list" where
  "type_names = [''text/uri-list'', ''UTF8_STRING'', ''TEXT'', ''STRING'',
     ''text/plain;charset=utf-8'', ''text/plain'']"

definition typesWeAccept :: "AtomTable \<Rightarrow> Atom list" where
  "typesWeAccept ia = map ia type_names"

definition atom_names :: "string list" where
  "atom_names = [''XdndAware'', ''XA_ATOM'', ''XdndEnter'', ''XdndPosition'',
     ''XdndActionCopy'', ''XdndLeave'', ''XdndStatus'', ''XdndDrop'', ''XdndSelection'',
     ''XDND_DATA'', ''XdndTypeList'', ''XdndFinished'', ''WM_PROTOCOLS'',
     ''WM_DELETE_WINDOW''] @ type_names"

definition atoms_wf :: "AtomTable \<Rightarrow> bool" where
  "atoms_wf ia = (distinct (map ia atom_names) \<and> XNone \<notin> set (map ia atom_names))"

fun intern_in :: "string list \<Rightarrow> string \<Rightarrow> nat" where
  "intern_in [] s = 0"
| "intern_in (n # ns) s = (if s = n then Suc (length ns) else intern_in ns s)"

definition server_atoms :: AtomTable where
  "server_atoms s = of_nat (intern_in atom_names s)"

section \<open>Events\<close>

record XClientMessageEvent =
  window :: Window
  message_type :: Atom
  format :: int
  l0 :: slot
  l1 :: slot
  l2 :: slot
  l3 :: slot
  l4 :: slot

record XSelection =
  requestor :: Window
  selection :: Atom
  target :: Atom
  property :: Atom
  time :: Time

record XMotionEvent =
  mx :: int
  my :: int
  x_root :: int
  y_root :: int
  mtime :: Time

datatype XEvent =
    SelectionRequest XSelection
  | SelectionNotify XSelection
  | MotionNotify XMotionEvent
  | KeyRelease int
  | ButtonPress int int
  | ButtonRelease
  | Expose
  | EnterNotify
  | LeaveNotify
  | ClientMessage XClientMessageEvent
  | OtherEvent int

section \<open>Requests\<close>

datatype XRequest =
    XSendEvent Window XEvent
  | XSetSelectionOwner Atom Window Time
  | XConvertSelection Atom Atom Atom Window Time
  | XChangeProperty Window Atom Atom nat string
  | XDeleteProperty Window Atom
  | XSetForeground Pixel
  | XClearWindow Window
  | XFillRectangle Window int int int int
  | XFlush
  | XCreateSimpleWindow Window int int int int
  | XStoreName Window string
  | XSelectInput Window
  | XSetWMProtocols Window Atom
  | XMapWindow Window
  | XCreateGC Window
  | XSetBackground Pixel
  | XFreeGC
  | XDestroyWindow Window
  | XCloseDisplay

section \<open>What the process reads\<close>

record XProperty =
  actualType :: Atom
  actualFormat :: nat
  numOfItems :: nat
  data :: string

datatype WTree = WNode Window int int int int "WTree list"

record XView =
  fault :: faults
  tree :: WTree
  getProperty :: "Window \<Rightarrow> Atom \<Rightarrow> XProperty option"
  pointer :: "int \<times> int"

definition absent :: XProperty where
  "absent = \<lparr>actualType = XNone, actualFormat = 0, numOfItems = 0, data = []\<rparr>"

fun wid :: "WTree \<Rightarrow> Window" where
  "wid (WNode w x y wd ht cs) = w"

fun windows :: "WTree \<Rightarrow> Window list" where
  "windows (WNode w x y wd ht cs) = w # concat (map windows cs)"

section \<open>Lemmas about atoms\<close>

lemmas atom_defs [xdnd_atoms] =
  XdndAware_def XA_ATOM_def XdndEnter_def XdndPosition_def XdndActionCopy_def XdndLeave_def
  XdndStatus_def XdndDrop_def XdndSelection_def XDND_DATA_def XdndTypeList_def
  XdndFinished_def WM_PROTOCOLS_def WM_DELETE_WINDOW_def

lemma length_typesWeAccept [simp]: "length (typesWeAccept ia) = 6"
  by (simp add: typesWeAccept_def type_names_def)

lemma atoms_wf_eq_iff:
  assumes "atoms_wf ia" and "a \<in> set atom_names" and "b \<in> set atom_names"
  shows "ia a = ia b \<longleftrightarrow> a = b"
proof -
  from assms(1) have "inj_on ia (set atom_names)"
    by (simp add: atoms_wf_def distinct_map)
  with assms(2,3) show ?thesis
    by (auto dest: inj_onD)
qed

lemma atoms_wf_nonzero:
  assumes "atoms_wf ia" and "a \<in> set atom_names"
  shows "ia a \<noteq> XNone"
  using assms by (auto simp: atoms_wf_def)

lemma distinct_atom_names: "distinct atom_names"
  by (simp add: atom_names_def type_names_def)

lemma atoms_wf_types:
  assumes "atoms_wf ia"
  shows "distinct (typesWeAccept ia)" and "XNone \<notin> set (typesWeAccept ia)"
  using assms by (auto simp: atoms_wf_def typesWeAccept_def atom_names_def)

lemma atoms_wf_messages:
  assumes "atoms_wf ia"
  shows "distinct [XdndEnter ia, XdndPosition ia, XdndLeave ia, XdndStatus ia, XdndDrop ia,
    XdndFinished ia, WM_PROTOCOLS ia]"
  using assms by (simp add: atoms_wf_def atom_names_def atom_defs)

text \<open>
  With these rules the simplifier decides equations between the static atoms of a
  well-formed table by comparing their names.
\<close>

lemmas atoms_wf_simps = atom_defs atoms_wf_eq_iff atom_names_def

lemma intern_in_le: "intern_in ns s \<le> length ns"
  by (induction ns) auto

lemma intern_in_pos: "s \<in> set ns \<Longrightarrow> 0 < intern_in ns s"
  by (induction ns) auto

lemma intern_in_inj:
  "distinct ns \<Longrightarrow> s \<in> set ns \<Longrightarrow> t \<in> set ns \<Longrightarrow> intern_in ns s = intern_in ns t \<Longrightarrow> s = t"
proof (induction ns)
  case Nil
  then show ?case by simp
next
  case (Cons n ns)
  have le: "\<And>u. intern_in ns u \<le> length ns" by (rule intern_in_le)
  show ?case
  proof (cases "s = n \<or> t = n")
    case True
    with Cons.prems le [of s] le [of t] show ?thesis
      by (auto split: if_splits)
  next
    case False
    with Cons show ?thesis by auto
  qed
qed

lemma length_atom_names [simp]: "length atom_names = 20"
  by (simp add: atom_names_def type_names_def)

lemma unat_server_atoms: "unat (server_atoms s) = intern_in atom_names s"
proof -
  have "intern_in atom_names s \<le> 20"
    using intern_in_le [of atom_names] by simp
  then show ?thesis
    unfolding server_atoms_def by (simp add: unat_of_nat)
qed

lemma server_atoms_inj_on: "inj_on server_atoms (set atom_names)"
proof (rule inj_onI)
  fix s t assume s: "s \<in> set atom_names" and t: "t \<in> set atom_names"
    and eq: "server_atoms s = server_atoms t"
  from eq have "unat (server_atoms s) = unat (server_atoms t)" by simp
  then have "intern_in atom_names s = intern_in atom_names t"
    by (simp only: unat_server_atoms)
  with s t show "s = t"
    by (rule intern_in_inj [OF distinct_atom_names])
qed

lemma atoms_wf_server_atoms [simp]: "atoms_wf server_atoms"
proof -
  have "server_atoms s \<noteq> 0" if "s \<in> set atom_names" for s
  proof
    assume "server_atoms s = 0"
    then have "unat (server_atoms s) = 0" by simp
    with intern_in_pos [OF that] show False
      by (simp only: unat_server_atoms)
  qed
  then show ?thesis
    using server_atoms_inj_on distinct_atom_names
    by (auto simp: atoms_wf_def distinct_map)
qed

end
