(* ===== verification/XServer.thy ===== *)
theory XServer
  imports XTypes
begin

text \<open>
  What the X server does with the requests of \<^verbatim>\<open>src/spawn_window.c\<close>, as the Xlib manual
  specifies it; the server is not part of the sources.

  \<^item> \<open>properties\<close> is the property store: what \<^verbatim>\<open>XGetWindowProperty\<close> returns for a window
    and an atom, \<open>absent\<close> where there is no such property.
  \<^item> \<open>apply_request\<close> is the effect of one request: \<^verbatim>\<open>XChangeProperty\<close> with
    \<^verbatim>\<open>PropModeReplace\<close> (the only mode the program uses) stores type, format and data,
    the number of items being the number of bytes for format 8 and a quarter of it for
    format 32; \<^verbatim>\<open>XDeleteProperty\<close> removes the property; no other request touches a
    property.
  \<^item> \<open>properties_after\<close> runs a log of requests in order. \<open>XGetWindowProperty\<close> is the
    reply to the call as the program makes it in lines 106, 359 and 388, with offset 0
    and \<open>long_length\<close> 1024: at most 4096 bytes of the stored data. \<open>serves ps v\<close> says
    that the environment \<open>v\<close> of a process shows the store \<open>ps\<close> through this call.
  \<^item> \<open>Server\<close> is the state of the server the two processes share: the property store,
    the owner of each selection, and for each window the events that wait for the client
    that created it. \<open>serve\<close> is the effect of one request on it. \<^verbatim>\<open>XSendEvent\<close> with an
    empty event mask (the only form the program uses) appends the event to the queue of
    the destination window. \<^verbatim>\<open>XSetSelectionOwner\<close> records the owner and sends
    \<^verbatim>\<open>SelectionClear\<close> (event type 29) to a different previous owner; the time stamp is
    taken as current. \<^verbatim>\<open>XConvertSelection\<close> sends \<^verbatim>\<open>SelectionRequest\<close> to the owner, or
    \<^verbatim>\<open>SelectionNotify\<close> with property \<^verbatim>\<open>None\<close> to the requestor when there is no owner.
    \<^verbatim>\<open>XDestroyWindow\<close> removes the window's properties, its ownership of selections and
    its queue; \<open>disconnect\<close> is what the server does when the client's connection
    closes.
\<close>

type_synonym properties = "Window \<Rightarrow> Atom \<Rightarrow> XProperty"

definition no_properties :: properties where
  "no_properties = (\<lambda>w a. absent)"

fun apply_request :: "XRequest \<Rightarrow> properties \<Rightarrow> properties" where
  "apply_request (XChangeProperty w a ty fmt bytes) ps =
    ps(w := (ps w)(a := \<lparr>actualType = ty, actualFormat = fmt,
                          numOfItems = (8 * length bytes) div fmt, data = bytes\<rparr>))"
| "apply_request (XDeleteProperty w a) ps = ps(w := (ps w)(a := absent))"
| "apply_request _ ps = ps"

definition properties_after :: "XRequest list \<Rightarrow> properties \<Rightarrow> properties" where
  "properties_after rs ps = fold apply_request rs ps"

definition long_length :: nat where
  "long_length = 1024"

definition XGetWindowProperty :: "XProperty \<Rightarrow> XProperty" where
  "XGetWindowProperty pr =
    (if length (data pr) \<le> 4 * long_length then pr
     else pr\<lparr>numOfItems := (8 * (4 * long_length)) div actualFormat pr,
             data := take (4 * long_length) (data pr)\<rparr>)"

definition serves :: "properties \<Rightarrow> XView \<Rightarrow> bool" where
  "serves ps v = (getProperty v = (\<lambda>w a. Some (XGetWindowProperty (ps w a))))"

section \<open>The server state\<close>

record Server =
  props :: properties
  owner :: "Atom \<Rightarrow> Window"
  queue :: "Window \<Rightarrow> XEvent list"

definition server0 :: Server where
  "server0 = \<lparr>props = no_properties, owner = (\<lambda>a. XNone), queue = (\<lambda>w. [])\<rparr>"

definition post :: "Window \<Rightarrow> XEvent \<Rightarrow> Server \<Rightarrow> Server" where
  "post w e sv = sv\<lparr>queue := (queue sv)(w := queue sv w @ [e])\<rparr>"

definition SelectionClear :: XEvent where
  "SelectionClear = OtherEvent 29"

fun serve :: "XRequest \<Rightarrow> Server \<Rightarrow> Server" where
  "serve (XSendEvent w e) sv = post w e sv"
| "serve (XSetSelectionOwner sel w t) sv =
    (let sv1 = sv\<lparr>owner := (owner sv)(sel := w)\<rparr>
     in if owner sv sel \<noteq> XNone \<and> owner sv sel \<noteq> w
        then post (owner sv sel) SelectionClear sv1 else sv1)"
| "serve (XConvertSelection sel tgt prop req t) sv =
    (if owner sv sel = XNone
     then post req (SelectionNotify \<lparr>requestor = req, selection = sel, target = tgt,
            property = XNone, time = t\<rparr>) sv
     else post (owner sv sel) (SelectionRequest \<lparr>requestor = req, selection = sel,
            target = tgt, property = prop, time = t\<rparr>) sv)"
| "serve (XDestroyWindow w) sv =
    sv\<lparr>props := (props sv)(w := (\<lambda>a. absent)),
       owner := (\<lambda>a. if owner sv a = w then XNone else owner sv a),
       queue := (queue sv)(w := [])\<rparr>"
| "serve r sv = sv\<lparr>props := apply_request r (props sv)\<rparr>"

definition serve_all :: "XRequest list \<Rightarrow> Server \<Rightarrow> Server" where
  "serve_all rs sv = fold serve rs sv"

definition disconnect :: "Window \<Rightarrow> Server \<Rightarrow> Server" where
  "disconnect w sv = serve (XDestroyWindow w) sv"

definition view :: "Server \<Rightarrow> XView \<Rightarrow> XView" where
  "view sv v = v\<lparr>getProperty := (\<lambda>w a. Some (XGetWindowProperty (props sv w a)))\<rparr>"

lemma properties_after_simps [simp]:
  "properties_after [] ps = ps"
  "properties_after (r # rs) ps = properties_after rs (apply_request r ps)"
  "properties_after (rs @ rs') ps = properties_after rs' (properties_after rs ps)"
  by (simp_all add: properties_after_def)

lemma XGetWindowProperty_short:
  "length (data pr) \<le> 4096 \<Longrightarrow> XGetWindowProperty pr = pr"
  by (simp add: XGetWindowProperty_def long_length_def)

lemma XGetWindowProperty_absent [simp]: "XGetWindowProperty absent = absent"
  by (simp add: XGetWindowProperty_short absent_def)

lemma XGetWindowProperty_long:
  assumes "4096 < length (data pr)"
  shows "data (XGetWindowProperty pr) = take 4096 (data pr)"
    and "numOfItems (XGetWindowProperty pr) = 32768 div actualFormat pr"
  using assms by (simp_all add: XGetWindowProperty_def long_length_def)

lemma servesD: "serves ps v \<Longrightarrow> getProperty v w a = Some (XGetWindowProperty (ps w a))"
  by (simp add: serves_def)

lemma serve_all_simps [simp]:
  "serve_all [] sv = sv"
  "serve_all (r # rs) sv = serve_all rs (serve r sv)"
  "serve_all (rs @ rs') sv = serve_all rs' (serve_all rs sv)"
  by (simp_all add: serve_all_def)

lemma post_simps [simp]:
  "props (post w e sv) = props sv" "owner (post w e sv) = owner sv"
  "queue (post w e sv) w' = (if w' = w then queue sv w @ [e] else queue sv w')"
  by (simp_all add: post_def)

lemma view_simps [simp]:
  "fault (view sv v) = fault v" "tree (view sv v) = tree v" "pointer (view sv v) = pointer v"
  "getProperty (view sv v) w a = Some (XGetWindowProperty (props sv w a))"
  by (simp_all add: view_def)

lemma serves_view [simp]: "serves (props sv) (view sv v)"
  by (simp add: serves_def view_def)

text \<open>The property store of the server is the store of the two property requests.\<close>

lemma props_serve:
  "props (serve r sv) =
    (case r of XDestroyWindow w \<Rightarrow> (props sv)(w := (\<lambda>a. absent))
     | _ \<Rightarrow> apply_request r (props sv))"
  by (cases r) (simp_all add: Let_def)

text \<open>
  The channel between two clients: events sent to a window wait for its client in the
  order in which they were sent, each once, and the queues of other windows are not
  touched.
\<close>

lemma queue_send_in_order:
  "queue (serve_all (map (XSendEvent w) es) sv) w' = (if w' = w then queue sv w @ es else queue sv w')"
  by (induction es arbitrary: sv) simp_all

end
