(* ===== verification/TypeNegotiator.thy ===== *)
theory TypeNegotiator
  imports XTypes
begin

text \<open>
  The type negotiation of \<^verbatim>\<open>src/spawn_window.c\<close>: \<^verbatim>\<open>doWeAcceptAtom\<close> (lines 337-347),
  \<^verbatim>\<open>getSupportedType\<close> (lines 349-375) and the choice the \<^verbatim>\<open>XdndEnter\<close> handler makes
  between the type list property and the three inline slots (lines 748-763).

  \<^item> \<open>accept_loop\<close> is the \<^verbatim>\<open>for\<close> loop of \<^verbatim>\<open>doWeAcceptAtom\<close> over the six accepted types.
  \<^item> \<open>first_accepted\<close> is the loop "take the first advertised type we accept, else
    \<^verbatim>\<open>None\<close>" that the handler runs over the slots 2..4.
  \<^item> \<open>supported_loop\<close> is the same loop inside \<^verbatim>\<open>getSupportedType\<close>, over the client
    buffer read as an array of \<^verbatim>\<open>Atom\<close>: item \<open>i\<close> is the four bytes at offset \<open>4 * i\<close>.
    The buffer is the property data and Xlib's terminating NUL; an item that does not
    lie within it is a read outside the buffer, the value \<open>Undefined\<close>.
  \<^item> \<open>negotiate\<close> is the specification: the first advertised type, in the order the peer
    gave, that is among the accepted ones.
  The lemmas show that the loops compute \<open>negotiate\<close>, that a property of format 32 is
  read completely and without a read outside the buffer, and that the result is
  \<^verbatim>\<open>None\<close> exactly when no advertised type is accepted.
\<close>

section \<open>The loops\<close>

fun accept_loop :: "Atom list \<Rightarrow> Atom \<Rightarrow> bool" where
  "accept_loop [] a = False"
| "accept_loop (t # ts) a = (if a = t then True else accept_loop ts a)"

definition doWeAcceptAtom :: "AtomTable \<Rightarrow> Atom \<Rightarrow> bool" where
  "doWeAcceptAtom ia a = accept_loop (typesWeAccept ia) a"

fun first_accepted :: "AtomTable \<Rightarrow> Atom list \<Rightarrow> Atom" where
  "first_accepted ia [] = XNone"
| "first_accepted ia (a # as) = (if doWeAcceptAtom ia a then a else first_accepted ia as)"

definition supportedAtoms :: "string \<Rightarrow> nat \<Rightarrow> Atom" where
  "supportedAtoms buf i = le_word (take 4 (drop (4 * i) buf))"

fun supported_loop :: "AtomTable \<Rightarrow> string \<Rightarrow> nat \<Rightarrow> nat \<Rightarrow> Atom result" where
  "supported_loop ia buf i 0 = Inr XNone"
| "supported_loop ia buf i (Suc n) =
    (if length buf < 4 * i + 4 then Inl (Undefined ''supportedAtoms'')
     else if doWeAcceptAtom ia (supportedAtoms buf i) then Inr (supportedAtoms buf i)
     else supported_loop ia buf (Suc i) n)"

definition getSupportedType :: "AtomTable \<Rightarrow> XView \<Rightarrow> Window \<Rightarrow> Atom result" where
  "getSupportedType ia v source =
    (case getProperty v source (XdndTypeList ia) of
       None \<Rightarrow> Inr XNone
     | Some p \<Rightarrow>
         if actualType p \<noteq> XNone
         then supported_loop ia (data p @ [NUL]) 0 (numOfItems p)
         else Inr XNone)"

definition proposeType ::
  "AtomTable \<Rightarrow> XView \<Rightarrow> Window \<Rightarrow> XClientMessageEvent \<Rightarrow> Atom result" where
  "proposeType ia v other m =
    (if l1 m AND 1 \<noteq> 0 then getSupportedType ia v other
     else Inr (first_accepted ia [l2 m, l3 m, l4 m]))"

section \<open>The specification\<close>

definition negotiate :: "Atom list \<Rightarrow> Atom list \<Rightarrow> Atom option" where
  "negotiate accepted advertised = find (\<lambda>a. a \<in> set accepted) advertised"

definition atom_array :: "Atom list \<Rightarrow> string" where
  "atom_array as = concat (map le_bytes as)"

definition type_list_property :: "AtomTable \<Rightarrow> Atom list \<Rightarrow> XProperty" where
  "type_list_property ia as =
    \<lparr>actualType = XA_ATOM ia, actualFormat = 32, numOfItems = length as,
     data = atom_array as\<rparr>"

section \<open>Lemmas\<close>

lemma accept_loop_iff: "accept_loop ts a \<longleftrightarrow> a \<in> set ts"
  by (induction ts) auto

lemma doWeAcceptAtom_iff: "doWeAcceptAtom ia a \<longleftrightarrow> a \<in> set (typesWeAccept ia)"
  by (simp add: doWeAcceptAtom_def accept_loop_iff)

lemma first_accepted_negotiate:
  "first_accepted ia as = (case negotiate (typesWeAccept ia) as of None \<Rightarrow> XNone | Some a \<Rightarrow> a)"
  by (induction as) (auto simp: negotiate_def doWeAcceptAtom_iff)

lemma negotiate_Some_iff:
  "negotiate acc as = Some a \<longleftrightarrow>
     (\<exists>ys zs. as = ys @ a # zs \<and> a \<in> set acc \<and> (\<forall>y \<in> set ys. y \<notin> set acc))"
  unfolding negotiate_def find_Some_iff
proof
  assume "\<exists>i<length as. as ! i \<in> set acc \<and> a = as ! i \<and> (\<forall>j<i. as ! j \<notin> set acc)"
  then obtain i where i: "i < length as" "as ! i \<in> set acc" "a = as ! i"
    "\<forall>j<i. as ! j \<notin> set acc" by blast
  then have "as = take i as @ a # drop (Suc i) as"
    by (simp add: id_take_nth_drop)
  moreover have "\<forall>y \<in> set (take i as). y \<notin> set acc"
  proof
    fix y assume "y \<in> set (take i as)"
    then obtain j where "j < i" "y = as ! j"
      by (auto simp: in_set_conv_nth [of y "take i as"])
    with i(4) show "y \<notin> set acc" by simp
  qed
  ultimately show "\<exists>ys zs. as = ys @ a # zs \<and> a \<in> set acc \<and> (\<forall>y \<in> set ys. y \<notin> set acc)"
    using i(2,3) by blast
next
  assume "\<exists>ys zs. as = ys @ a # zs \<and> a \<in> set acc \<and> (\<forall>y \<in> set ys. y \<notin> set acc)"
  then obtain ys zs where "as = ys @ a # zs" "a \<in> set acc" "\<forall>y \<in> set ys. y \<notin> set acc"
    by blast
  then show "\<exists>i<length as. as ! i \<in> set acc \<and> a = as ! i \<and> (\<forall>j<i. as ! j \<notin> set acc)"
    by (intro exI [of _ "length ys"]) (auto simp: nth_append)
qed

lemma negotiate_None_iff: "negotiate acc as = None \<longleftrightarrow> set as \<inter> set acc = {}"
  by (auto simp: negotiate_def find_None_iff)

lemma first_accepted_in: "first_accepted ia as \<noteq> XNone \<Longrightarrow> first_accepted ia as \<in> set as"
  by (induction as) auto

lemma first_accepted_accepted:
  "first_accepted ia as \<noteq> XNone \<Longrightarrow> doWeAcceptAtom ia (first_accepted ia as)"
  by (induction as) auto

lemma first_accepted_None_iff:
  assumes "XNone \<notin> set (typesWeAccept ia)"
  shows "first_accepted ia as = XNone \<longleftrightarrow> set as \<inter> set (typesWeAccept ia) = {}"
  using assms by (induction as) (auto simp: doWeAcceptAtom_iff)

lemma length_atom_array [simp]: "length (atom_array as) = 4 * length as"
  by (induction as) (simp_all add: atom_array_def)

lemma supportedAtoms_atom_array:
  "i < length as \<Longrightarrow> supportedAtoms (atom_array as @ rest) i = as ! i"
proof (induction as arbitrary: i)
  case Nil
  then show ?case by simp
next
  case (Cons a as)
  show ?case
  proof (cases i)
    case 0
    then show ?thesis
      by (simp add: supportedAtoms_def atom_array_def)
  next
    case (Suc j)
    with Cons.prems have "j < length as" by simp
    then have "supportedAtoms (atom_array as @ rest) j = as ! j"
      by (rule Cons.IH)
    with Suc show ?thesis
      by (simp add: supportedAtoms_def atom_array_def)
  qed
qed

lemma supported_loop_atom_array:
  "i + n = length as \<Longrightarrow>
     supported_loop ia (atom_array as @ rest) i n = Inr (first_accepted ia (drop i as))"
proof (induction n arbitrary: i)
  case 0
  then show ?case by simp
next
  case (Suc n)
  then have i: "i < length as" and rec: "Suc i + n = length as"
    by simp_all
  from i have d: "drop i as = as ! i # drop (Suc i) as"
    by (simp add: Cons_nth_drop_Suc)
  from i have "\<not> length (atom_array as @ rest) < 4 * i + 4"
    by simp
  then show ?case
    using Suc.IH [OF rec] i by (simp add: supportedAtoms_atom_array d)
qed

lemma getSupportedType_absent:
  "getProperty v source (XdndTypeList ia) = Some absent \<Longrightarrow>
     getSupportedType ia v source = Inr XNone"
  by (simp add: getSupportedType_def absent_def)

lemma getSupportedType_failed:
  "getProperty v source (XdndTypeList ia) = None \<Longrightarrow>
     getSupportedType ia v source = Inr XNone"
  by (simp add: getSupportedType_def)

lemma getSupportedType_type_list:
  assumes "getProperty v source (XdndTypeList ia) = Some (type_list_property ia as)"
    and "XA_ATOM ia \<noteq> XNone"
  shows "getSupportedType ia v source = Inr (first_accepted ia as)"
  using assms supported_loop_atom_array [of 0 "length as" as ia "[NUL]"]
  by (simp add: getSupportedType_def type_list_property_def)

lemma proposeType_inline:
  "l1 m AND 1 = 0 \<Longrightarrow> proposeType ia v other m = Inr (first_accepted ia [l2 m, l3 m, l4 m])"
  by (simp add: proposeType_def)

lemma proposeType_list:
  "l1 m AND 1 \<noteq> 0 \<Longrightarrow> proposeType ia v other m = getSupportedType ia v other"
  by (simp add: proposeType_def)

text \<open>
  C32: \<^verbatim>\<open>getSupportedType\<close> does not look at the format of the property: when the type
  list property has format 8, the number of items is the number of bytes, and with one
  or two bytes of data already the first \<^verbatim>\<open>Atom\<close> is read beyond the end of the buffer.
\<close>

theorem getSupportedType_overread:
  assumes "getProperty v w (XdndTypeList ia) =
      Some \<lparr>actualType = ty, actualFormat = 8, numOfItems = length bytes, data = bytes\<rparr>"
    and "ty \<noteq> XNone" and "0 < length bytes" and "length bytes < 3"
  shows "getSupportedType ia v w = Inl (Undefined ''supportedAtoms'')"
  using assms
  by (cases "length bytes") (simp_all add: getSupportedType_def)

theorem getSupportedType_overread_witness:
  "getSupportedType server_atoms
     \<lparr>fault = no_faults, tree = WNode 1 0 0 10 10 [],
      getProperty = (\<lambda>w a. Some \<lparr>actualType = 31, actualFormat = 8, numOfItems = 2,
        data = ''ab''\<rparr>),
      pointer = (0, 0)\<rparr> 9 = Inl (Undefined ''supportedAtoms'')"
  using getSupportedType_overread [of
      "\<lparr>fault = no_faults, tree = WNode 1 0 0 10 10 [],
      getProperty = (\<lambda>w a. Some \<lparr>actualType = 31, actualFormat = 8, numOfItems = 2,
        data = ''ab''\<rparr>),
      pointer = (0, 0)\<rparr>" 9 server_atoms 31 "''ab''"]
  by simp

text \<open>
  C11: The type a target proposes is the first type the source advertises, in the
  source's order, that is among the six accepted ones, and \<^verbatim>\<open>None\<close> if there is no
  such type. The advertised types are the three inline slots of the enter message when
  bit 0 of slot 1 is clear, and otherwise the atoms of the \<^verbatim>\<open>XdndTypeList\<close> property of
  the source window, which is read item by item and never beyond its end.
\<close>

theorem proposeType_negotiate:
  assumes "XA_ATOM ia \<noteq> XNone"
    and "l1 m AND 1 = 0 \<longrightarrow> as = [l2 m, l3 m, l4 m]"
    and "l1 m AND 1 \<noteq> 0 \<longrightarrow>
      getProperty v other (XdndTypeList ia) = Some (type_list_property ia as)"
  shows "proposeType ia v other m =
    Inr (case negotiate (typesWeAccept ia) as of None \<Rightarrow> XNone | Some a \<Rightarrow> a)"
proof (cases "l1 m AND 1 = 0")
  case True
  with assms(2) show ?thesis
    by (simp add: proposeType_inline first_accepted_negotiate)
next
  case False
  with assms(1,3) show ?thesis
    by (simp add: proposeType_list getSupportedType_type_list first_accepted_negotiate)
qed

theorem proposeType_negotiate_witness:
  "proposeType server_atoms
     \<lparr>fault = no_faults, tree = WNode 1 0 0 10 10 [],
      getProperty = (\<lambda>w a. Some (type_list_property server_atoms [1000, 3, 6, 2000])),
      pointer = (0, 0)\<rparr>
     9 \<lparr>window = 7, message_type = XdndEnter server_atoms, format = 32,
        l0 = 9, l1 = 1, l2 = 0, l3 = 0, l4 = 0\<rparr> = Inr 3"
  using proposeType_negotiate [of server_atoms
      "\<lparr>window = 7, message_type = XdndEnter server_atoms, format = 32,
        l0 = 9, l1 = 1, l2 = 0, l3 = 0, l4 = 0\<rparr>" "[1000, 3, 6, 2000]"
      "\<lparr>fault = no_faults, tree = WNode 1 0 0 10 10 [],
      getProperty = (\<lambda>w a. Some (type_list_property server_atoms [1000, 3, 6, 2000])),
      pointer = (0, 0)\<rparr>" 9]
    atoms_wf_nonzero [OF atoms_wf_server_atoms, of "''XA_ATOM''"]
  by (simp add: XA_ATOM_def atom_names_def negotiate_def typesWeAccept_def type_names_def
      server_atoms_def)

end
