(* ===== verification/PayloadTransfer.thy ===== *)
theory PayloadTransfer
  imports XTypes
begin

text \<open>
  The framing of the payload in \<^verbatim>\<open>src/spawn_window.c\<close>: the buffer
  \<^verbatim>\<open>sendSelectionNotify\<close> stores on the requestor's window (lines 300-315) and
  \<^verbatim>\<open>getCopiedData\<close>, which reads it back (lines 377-427).

  \<^item> \<open>propertyData\<close> is the buffer the source writes: \<^verbatim>\<open>"file://"\<close>, the path, CR, LF
    (the final NUL is not stored).
  \<^item> \<open>stripCopied\<close> is the string work of \<^verbatim>\<open>getCopiedData\<close> on \<^verbatim>\<open>tempBuffer\<close>. The C
    string functions see the buffer up to its first NUL. \<^verbatim>\<open>strstr\<close> finds
    \<^verbatim>\<open>"file://"\<close> anywhere in it, and the code then skips the first seven bytes. The test
    for the line end reads the last two bytes of the string; on a string shorter than two
    bytes that is a read before the start of the string, which is inside the buffer
    only when the seven bytes were skipped. The index \<^verbatim>\<open>strlen(tempPtr)-2\<close> is then a
    \<^verbatim>\<open>size_t\<close> that has wrapped around; the model takes the address the flat address
    arithmetic of the compilers gives and marks the read \<open>Undefined\<close> only when it leaves
    the buffer, although the C standard leaves the pointer arithmetic itself
    undefined.
  \<^item> \<open>getCopiedData\<close> is the whole function: \<open>None\<close> is its \<^verbatim>\<open>NULL\<close> result. Its two calls
    of \<^verbatim>\<open>malloc\<close> (lines 391 and 415) end the process with the same message and no
    request lies between them, so one fault stands for both. The property it reads is
    what \<^verbatim>\<open>XGetWindowProperty\<close> returns with \<^verbatim>\<open>long_length\<close> 1024 (theory \<open>XServer\<close>).
  \<^item> \<open>unframe\<close> is the specification (strip a leading \<^verbatim>\<open>"file://"\<close>, strip a trailing
    CR LF).
\<close>

section \<open>Framing\<close>

definition file_scheme :: string where
  "file_scheme = ''file://''"

definition propertyData :: "string \<Rightarrow> string" where
  "propertyData pathStr = file_scheme @ cstr pathStr @ [CR, LF]"

section \<open>Unframing\<close>

definition stripCopied :: "string \<Rightarrow> string result" where
  "stripCopied tempBuffer =
    (let s = cstr tempBuffer;
         skip = (if is_infix file_scheme s then 7 else 0);
         tempPtr = drop skip s
     in if skip + length tempPtr < 2 then Inl (Undefined ''tempPtr[strlen(tempPtr)-2]'')
        else if s ! (skip + length tempPtr - 2) = CR \<and> s ! (skip + length tempPtr - 1) = LF
        then Inr (if 2 \<le> length tempPtr then take (length tempPtr - 2) tempPtr else tempPtr)
        else Inr tempPtr)"

definition getCopiedData :: "AtomTable \<Rightarrow> XView \<Rightarrow> Window \<Rightarrow> string option result" where
  "getCopiedData ia v source =
    (case getProperty v source (XDND_DATA ia) of
       None \<Rightarrow> Inr None
     | Some p \<Rightarrow>
         if fault v ''malloc'' then philError ''malloc''
         else bindR (stripCopied (take (numOfItems p) (data p) @ [NUL])) (\<lambda>r. Inr (Some r)))"

section \<open>The specification\<close>

definition strip_prefix :: "string \<Rightarrow> string \<Rightarrow> string" where
  "strip_prefix pre s = (if take (length pre) s = pre then drop (length pre) s else s)"

definition strip_suffix :: "string \<Rightarrow> string \<Rightarrow> string" where
  "strip_suffix suf s =
    (if length suf \<le> length s \<and> drop (length s - length suf) s = suf
     then take (length s - length suf) s else s)"

definition unframe :: "string \<Rightarrow> string" where
  "unframe s = strip_suffix [CR, LF] (strip_prefix file_scheme s)"

definition data_property :: "AtomTable \<Rightarrow> string \<Rightarrow> XProperty" where
  "data_property ia bytes =
    \<lparr>actualType = hd (typesWeAccept ia), actualFormat = 8, numOfItems = length bytes,
     data = bytes\<rparr>"

section \<open>Lemmas\<close>

lemma length_file_scheme [simp]: "length file_scheme = 7"
  by (simp add: file_scheme_def)

lemma nul_free_file_scheme [simp]: "nul_free file_scheme"
  by (simp add: file_scheme_def)

lemma nul_free_propertyData [simp]: "nul_free (propertyData pathStr)"
  by (simp add: propertyData_def)

lemma length_propertyData: "length (propertyData pathStr) = length (cstr pathStr) + 9"
  by (simp add: propertyData_def)

lemma stripCopied_framed:
  assumes "nul_free p"
  shows "stripCopied ((file_scheme @ p @ [CR, LF]) @ NUL # junk) = Inr p"
proof -
  let ?s = "file_scheme @ p @ [CR, LF]"
  have s: "cstr (?s @ NUL # junk) = ?s"
    using assms by (intro cstr_append_NUL) simp
  have "?s ! (7 + length p) = CR" "?s ! (8 + length p) = LF"
    by (simp_all add: nth_append)
  then show ?thesis
    unfolding stripCopied_def s Let_def by simp
qed

lemma stripCopied_short:
  assumes "length (cstr buf) < 2"
  shows "stripCopied buf = Inl (Undefined ''tempPtr[strlen(tempPtr)-2]'')"
proof -
  from assms have "\<not> is_infix file_scheme (cstr buf)"
    by (auto simp: is_infix_iff)
  with assms show ?thesis
    by (simp add: stripCopied_def Let_def)
qed

lemma stripCopied_plain:
  assumes "\<not> is_infix file_scheme (cstr buf)" and "2 \<le> length (cstr buf)"
  shows "stripCopied buf = Inr (strip_suffix [CR, LF] (cstr buf))"
proof -
  define s where "s = cstr buf"
  define n where "n = length s - 2"
  from assms(2) have len: "length s = n + 2"
    by (simp add: n_def s_def)
  then have d: "drop n s = [s ! n, s ! (n + 1)]"
    by (rule drop_last_two)
  have "stripCopied buf = (if s ! n = CR \<and> s ! (n + 1) = LF then Inr (take n s) else Inr s)"
    using assms(1) len by (simp add: stripCopied_def Let_def flip: s_def)
  also have "\<dots> = Inr (strip_suffix [CR, LF] s)"
    using len d by (simp add: strip_suffix_def)
  finally show ?thesis by (simp add: s_def)
qed

lemma strip_prefix_append [simp]: "strip_prefix pre (pre @ s) = s"
  by (simp add: strip_prefix_def)

lemma strip_suffix_append [simp]: "strip_suffix suf (s @ suf) = s"
  by (simp add: strip_suffix_def)

lemma unframe_propertyData [simp]: "unframe (propertyData pathStr) = cstr pathStr"
  by (simp add: unframe_def propertyData_def)

lemma getCopiedData_failed:
  "getProperty v w (XDND_DATA ia) = None \<Longrightarrow> getCopiedData ia v w = Inr None"
  by (simp add: getCopiedData_def)

lemma getCopiedData_absent:
  "getProperty v w (XDND_DATA ia) = Some absent \<Longrightarrow> \<not> fault v ''malloc'' \<Longrightarrow>
     getCopiedData ia v w = Inl (Undefined ''tempPtr[strlen(tempPtr)-2]'')"
  by (simp add: getCopiedData_def absent_def stripCopied_short cstr_def)

lemma getCopiedData_framed:
  assumes "getProperty v w (XDND_DATA ia) = Some (data_property ia (propertyData pathStr))"
    and "\<not> fault v ''malloc''"
  shows "getCopiedData ia v w = Inr (Some (cstr pathStr))"
  using assms stripCopied_framed [of "cstr pathStr" "[]"]
  by (simp add: getCopiedData_def data_property_def propertyData_def)

section \<open>The code and the specification\<close>

lemma stripCopied_skip:
  assumes "is_infix file_scheme (cstr buf)"
  shows "stripCopied buf = Inr (strip_suffix [CR, LF] (drop 7 (cstr buf)))"
proof -
  define s where "s = cstr buf"
  define r where "r = drop 7 s"
  from assms have len: "7 \<le> length s"
    by (auto simp: is_infix_iff s_def)
  then have lr: "7 + length r = length s"
    by (simp add: r_def)
  show ?thesis
  proof (cases "2 \<le> length r")
    case True
    define n where "n = length r - 2"
    from True have n: "length r = n + 2"
      by (simp add: n_def)
    then have d: "drop n r = [r ! n, r ! (n + 1)]"
      by (rule drop_last_two)
    from n lr have "s ! (7 + n) = r ! n" "s ! (8 + n) = r ! (n + 1)"
      by (simp_all add: r_def add.commute)
    with n assms have "stripCopied buf
        = (if r ! n = CR \<and> r ! (n + 1) = LF then Inr (take n r) else Inr r)"
      by (simp add: stripCopied_def Let_def flip: s_def r_def)
    also have "\<dots> = Inr (strip_suffix [CR, LF] r)"
      using n d by (simp add: strip_suffix_def)
    finally show ?thesis by (simp add: r_def s_def)
  next
    case False
    with assms len show ?thesis
      by (simp add: stripCopied_def Let_def strip_suffix_def flip: s_def r_def)
  qed
qed

lemma stripCopied_scheme:
  assumes "cstr buf = file_scheme @ r"
  shows "stripCopied buf = Inr (strip_suffix [CR, LF] r)"
  using stripCopied_skip [of buf] by (simp add: assms)

lemma scheme_prefix_infix: "take 7 s = file_scheme \<Longrightarrow> is_infix file_scheme s"
  by (metis append_take_drop_id is_infix_append_left)

text \<open>
  C30: On a buffer whose string starts with \<^verbatim>\<open>"file://"\<close>, and on a buffer of at least two
  characters that does not contain \<^verbatim>\<open>"file://"\<close> at all, the string work of
  \<^verbatim>\<open>getCopiedData\<close> is the specification: the scheme prefix is stripped if present and a
  trailing CR LF is stripped if present, and no byte outside the buffer is read.
\<close>

theorem stripCopied_unframe:
  assumes "take 7 (cstr buf) = file_scheme \<or>
    \<not> is_infix file_scheme (cstr buf) \<and> 2 \<le> length (cstr buf)"
  shows "stripCopied buf = Inr (unframe (cstr buf))"
  using assms
proof
  assume p: "take 7 (cstr buf) = file_scheme"
  then have "cstr buf = file_scheme @ drop 7 (cstr buf)"
    by (metis append_take_drop_id)
  from stripCopied_scheme [OF this] p show ?thesis
    by (simp add: unframe_def strip_prefix_def)
next
  assume n: "\<not> is_infix file_scheme (cstr buf) \<and> 2 \<le> length (cstr buf)"
  then have "take 7 (cstr buf) \<noteq> file_scheme"
    by (auto dest: scheme_prefix_infix)
  with n show ?thesis
    by (simp add: stripCopied_plain unframe_def strip_prefix_def)
qed

theorem stripCopied_unframe_witness:
  "stripCopied (''file:///tmp/square.state'' @ [CR, LF, NUL]) = Inr ''/tmp/square.state''"
  using stripCopied_unframe [of "''file:///tmp/square.state'' @ [CR, LF, NUL]"]
  by (simp add: cstr_def file_scheme_def unframe_def strip_prefix_def strip_suffix_def)

lemma infix_not_prefix_length:
  assumes "is_infix file_scheme s" and "take 7 s \<noteq> file_scheme"
  shows "8 \<le> length s"
proof -
  from assms(1) obtain u v where s: "s = u @ file_scheme @ v"
    by (auto simp: is_infix_iff)
  with assms(2) have "u \<noteq> []" by auto
  with s show ?thesis by (cases u) simp_all
qed

lemma strip_suffix_drop_scheme:
  assumes "is_infix file_scheme s" and "take 7 s \<noteq> file_scheme"
  shows "strip_suffix [CR, LF] (drop 7 s) = drop 7 (strip_suffix [CR, LF] s)"
proof (cases "9 \<le> length s")
  case True
  define n where "n = length s - 9"
  with True have n: "length s = n + 9"
    by simp
  show ?thesis
    by (simp add: strip_suffix_def n drop_take add.commute)
next
  case False
  from assms(1) obtain u v where s: "s = u @ file_scheme @ v"
    by (auto simp: is_infix_iff)
  with assms(2) have "u \<noteq> []" by auto
  moreover from s False have "length u + length v \<le> 1"
    by simp
  ultimately have "length u = 1" and "v = []"
    by (cases u; simp)+
  with s obtain c where "s = c # file_scheme"
    by (cases u) auto
  then show ?thesis
    by (simp add: strip_suffix_def file_scheme_def)
qed

text \<open>
  C31: When \<^verbatim>\<open>"file://"\<close> occurs in the string but not at its start, \<^verbatim>\<open>getCopiedData\<close>
  still skips the first seven bytes of the buffer: its result is the result of the
  specification with the first seven bytes missing, for every such buffer, and so never
  the result of the specification.
\<close>

theorem stripCopied_infix:
  assumes "is_infix file_scheme (cstr buf)" and "take 7 (cstr buf) \<noteq> file_scheme"
  shows "stripCopied buf = Inr (drop 7 (unframe (cstr buf))) \<and>
    stripCopied buf \<noteq> Inr (unframe (cstr buf))"
proof -
  from assms have u: "unframe (cstr buf) = strip_suffix [CR, LF] (cstr buf)"
    by (simp add: unframe_def strip_prefix_def)
  from assms have "8 \<le> length (cstr buf)"
    by (rule infix_not_prefix_length)
  then have "6 \<le> length (unframe (cstr buf))"
    unfolding u by (auto simp: strip_suffix_def)
  then have "drop 7 (unframe (cstr buf)) \<noteq> unframe (cstr buf)"
    by (auto dest: arg_cong [where f = length])
  with assms show ?thesis
    by (simp add: stripCopied_skip strip_suffix_drop_scheme u)
qed

theorem stripCopied_infix_witness:
  "stripCopied (''/tmp/file://a'' @ [CR, LF, NUL]) = Inr ''le://a'' \<and>
   stripCopied (''/tmp/file://a'' @ [CR, LF, NUL]) \<noteq> Inr ''/tmp/file://a''"
  using stripCopied_infix [of "''/tmp/file://a'' @ [CR, LF, NUL]"]
  by (simp add: cstr_def file_scheme_def unframe_def strip_prefix_def strip_suffix_def)

end
