(* ===== verification/HitTest.thy ===== *)
theory HitTest
  imports XTypes SquareState
begin

text \<open>
  The geometric queries of \<^verbatim>\<open>src/spawn_window.c\<close>: \<^verbatim>\<open>isPointerInsideSquare\<close> (lines
  51-57), \<^verbatim>\<open>getWindowPointerIsOver\<close> (lines 59-96) and
  \<^verbatim>\<open>hasCorrectXdndAwareProperty\<close> (lines 98-120).

  \<^item> \<open>getWindowPointerIsOver\<close> recurses over the window tree. \<open>searchChildren\<close> is its
    \<^verbatim>\<open>for\<close> loop, which runs from the last child of \<^verbatim>\<open>XQueryTree\<close>'s list (the top-most)
    to the first and stops at the first child that contains the pointer: of a list
    \<open>c # cs\<close> the later children \<open>cs\<close> are tried before \<open>c\<close>. Its result is \<open>None\<close>
    when the loop ends without a hit and the result of the recursive call otherwise;
    the function then falls back to the starting window if the variable still holds the
    X constant \<^verbatim>\<open>None\<close>. \<^verbatim>\<open>XQueryTree\<close> succeeds on every window of the tree.
    Coordinates are \<open>int\<close>: window positions are 16-bit quantities in the X protocol, so
    the sums along a path stay within \<^verbatim>\<open>int\<close> for every tree less than 32768 deep.
  \<^item> \<open>hasCorrectXdndAwareProperty\<close> reads the first byte of the property buffer, which is
    Xlib's terminating NUL when the property is empty.
  \<^item> \<open>under t px py ox oy w\<close> is the specification of the search: \<open>w\<close> ends a path from
    the root of \<open>t\<close> in which each window is a child of the one before and contains
    the pointer, and no child of \<open>w\<close> contains it.
  \<^item> The lemmas about the search say that the result is a window of the tree, that at
    each level the top-most child containing the pointer is chosen, and that the result
    satisfies \<open>under\<close>.
\<close>

section \<open>The square\<close>

definition isPointerInsideSquare :: "int \<Rightarrow> int \<Rightarrow> Square \<Rightarrow> bool" where
  "isPointerInsideSquare px py sq =
    (px \<ge> square_x sq \<and> px < square_x sq + square_size sq \<and>
     py \<ge> square_y sq \<and> py < square_y sq + square_size sq)"

section \<open>The window under the pointer\<close>

fun inside :: "WTree \<Rightarrow> int \<Rightarrow> int \<Rightarrow> int \<Rightarrow> int \<Rightarrow> bool" where
  "inside (WNode w cx cy cw ch cs) p_rootX p_rootY originX originY =
    (p_rootX \<ge> originX + cx \<and> p_rootX < originX + cx + cw \<and>
     p_rootY \<ge> originY + cy \<and> p_rootY < originY + cy + ch)"

fun getWindowPointerIsOver :: "WTree \<Rightarrow> int \<Rightarrow> int \<Rightarrow> int \<Rightarrow> int \<Rightarrow> Window"
  and searchChildren :: "WTree list \<Rightarrow> int \<Rightarrow> int \<Rightarrow> int \<Rightarrow> int \<Rightarrow> Window option"
  and descend :: "WTree \<Rightarrow> int \<Rightarrow> int \<Rightarrow> int \<Rightarrow> int \<Rightarrow> Window"
where
  "getWindowPointerIsOver (WNode w cx cy cw ch cs) p_rootX p_rootY originX originY =
    (case searchChildren cs p_rootX p_rootY originX originY of
       None \<Rightarrow> w
     | Some returnWindow \<Rightarrow> if returnWindow = XNone then w else returnWindow)"
| "searchChildren [] p_rootX p_rootY originX originY = None"
| "searchChildren (c # cs) p_rootX p_rootY originX originY =
    (case searchChildren cs p_rootX p_rootY originX originY of
       Some r \<Rightarrow> Some r
     | None \<Rightarrow>
         if inside c p_rootX p_rootY originX originY
         then Some (descend c p_rootX p_rootY originX originY)
         else None)"
| "descend (WNode w cx cy cw ch cs) p_rootX p_rootY originX originY =
    getWindowPointerIsOver (WNode w cx cy cw ch cs) p_rootX p_rootY (originX + cx) (originY + cy)"

text \<open>
  The specification of the search: \<open>under t px py ox oy w\<close> says that \<open>w\<close> is reached from
  the root of \<open>t\<close> along children that contain the pointer, each measured from the origin
  of its parent, and that no child of \<open>w\<close> contains the pointer.
\<close>

inductive under :: "WTree \<Rightarrow> int \<Rightarrow> int \<Rightarrow> int \<Rightarrow> int \<Rightarrow> Window \<Rightarrow> bool" where
  here: "\<forall>c \<in> set cs. \<not> inside c px py ox oy \<Longrightarrow>
    under (WNode w x y wd ht cs) px py ox oy w"
| below: "c \<in> set cs \<Longrightarrow> c = WNode w' x' y' wd' ht' cs' \<Longrightarrow> inside c px py ox oy \<Longrightarrow>
    under c px py (ox + x') (oy + y') r \<Longrightarrow>
    under (WNode w x y wd ht cs) px py ox oy r"

section \<open>The XdndAware property\<close>

definition XDND_PROTOCOL_VERSION :: int where
  "XDND_PROTOCOL_VERSION = 5"

definition hasCorrectXdndAwareProperty :: "AtomTable \<Rightarrow> XView \<Rightarrow> Window \<Rightarrow> int" where
  "hasCorrectXdndAwareProperty ia v wind =
    (case getProperty v wind (XdndAware ia) of
       None \<Rightarrow> 0
     | Some p \<Rightarrow>
         if actualType p \<noteq> XNone
         then (if of_char (hd (data p @ [NUL])) \<le> XDND_PROTOCOL_VERSION
               then of_char (hd (data p @ [NUL])) else 0)
         else 0)"

definition aware_property :: "AtomTable \<Rightarrow> 32 word \<Rightarrow> XProperty" where
  "aware_property ia version =
    \<lparr>actualType = XA_ATOM ia, actualFormat = 32, numOfItems = 1, data = le_bytes version\<rparr>"

section \<open>Lemmas about the square\<close>

lemma isPointerInsideSquare_iff:
  "isPointerInsideSquare px py sq \<longleftrightarrow>
     px \<in> {square_x sq ..< square_x sq + square_size sq} \<and>
     py \<in> {square_y sq ..< square_y sq + square_size sq}"
  by (auto simp: isPointerInsideSquare_def)

lemma isPointerInsideSquare_empty:
  "square_size sq \<le> 0 \<Longrightarrow> \<not> isPointerInsideSquare px py sq"
  by (auto simp: isPointerInsideSquare_def)

section \<open>Lemmas about the XdndAware property\<close>

lemma hasCorrectXdndAwareProperty_range:
  "0 \<le> hasCorrectXdndAwareProperty ia v w \<and>
   hasCorrectXdndAwareProperty ia v w \<le> XDND_PROTOCOL_VERSION"
  by (auto simp: hasCorrectXdndAwareProperty_def XDND_PROTOCOL_VERSION_def
      of_char_int_nonneg split: option.splits)

lemma hasCorrectXdndAwareProperty_absent:
  "getProperty v w (XdndAware ia) = Some absent \<Longrightarrow> hasCorrectXdndAwareProperty ia v w = 0"
  by (simp add: hasCorrectXdndAwareProperty_def absent_def)

lemma hasCorrectXdndAwareProperty_failed:
  "getProperty v w (XdndAware ia) = None \<Longrightarrow> hasCorrectXdndAwareProperty ia v w = 0"
  by (simp add: hasCorrectXdndAwareProperty_def)

lemma hd_le_bytes: "(of_char (hd (le_bytes w @ [NUL])) :: int) = uint (take_bit 8 w)"
proof -
  have "hd (le_bytes w @ [NUL]) = char_of (unat w)"
    by (simp add: le_bytes_def upt_rec)
  then have "(of_char (hd (le_bytes w @ [NUL])) :: int) = int (of_char (char_of (unat w)))"
    by (simp only: of_nat_of_char)
  also have "\<dots> = int (unat w mod 256)"
    by (simp add: of_char_of)
  also have "\<dots> = uint (take_bit 8 w)"
    by (simp add: unsigned_take_bit_eq take_bit_eq_mod zmod_int uint_mod_distrib)
  finally show ?thesis .
qed

lemma hasCorrectXdndAwareProperty_aware:
  assumes "getProperty v w (XdndAware ia) = Some (aware_property ia version)"
    and "XA_ATOM ia \<noteq> XNone"
  shows "hasCorrectXdndAwareProperty ia v w =
     (if uint (take_bit 8 version) \<le> 5 then uint (take_bit 8 version) else 0)"
  using assms
  by (simp add: hasCorrectXdndAwareProperty_def aware_property_def hd_le_bytes
      XDND_PROTOCOL_VERSION_def)

section \<open>Lemmas about the search\<close>

lemma searchChildren_None_iff:
  "searchChildren cs px py ox oy = None \<longleftrightarrow> (\<forall>c \<in> set cs. \<not> inside c px py ox oy)"
  by (induction cs) (auto split: option.splits)

lemma searchChildren_append:
  "searchChildren (bs @ c # as) px py ox oy =
    (case searchChildren as px py ox oy of
       Some r \<Rightarrow> Some r
     | None \<Rightarrow> if inside c px py ox oy then Some (descend c px py ox oy)
               else searchChildren bs px py ox oy)"
  by (induction bs) (auto split: option.splits)

lemma getWindowPointerIsOver_none:
  assumes "\<forall>c \<in> set cs. \<not> inside c px py ox oy"
  shows "getWindowPointerIsOver (WNode w x y wd ht cs) px py ox oy = w"
  using assms searchChildren_None_iff [of cs px py ox oy] by simp

lemma hit_in_tree:
  "getWindowPointerIsOver t px py ox oy \<in> set (windows t)"
  "searchChildren cs px py ox oy = Some r \<Longrightarrow> r \<in> set (concat (map windows cs))"
  "descend t px py ox oy \<in> set (windows t)"
proof (induction t px py ox oy and cs px py ox oy and t px py ox oy
    arbitrary: and r and rule: getWindowPointerIsOver_searchChildren_descend.induct)
  case (1 w cx cy cw ch cs p_rootX p_rootY originX originY)
  then show ?case by (auto split: option.splits)
next
  case (2 p_rootX p_rootY originX originY)
  then show ?case by simp
next
  case (3 c cs p_rootX p_rootY originX originY)
  then show ?case by (auto split: option.splits if_splits)
next
  case (4 w cx cy cw ch cs p_rootX p_rootY originX originY)
  then show ?case by simp
qed

lemma under_search:
  "XNone \<notin> set (windows t) \<Longrightarrow> under t px py ox oy (getWindowPointerIsOver t px py ox oy)"
  "XNone \<notin> set (concat (map windows cs)) \<Longrightarrow> searchChildren cs px py ox oy = Some r \<Longrightarrow>
     \<exists>c w' x' y' wd' ht' cs'. c \<in> set cs \<and> c = WNode w' x' y' wd' ht' cs' \<and>
       inside c px py ox oy \<and> under c px py (ox + x') (oy + y') r"
  "XNone \<notin> set (windows t) \<Longrightarrow> t = WNode w' x' y' wd' ht' cs' \<Longrightarrow>
     under t px py (ox + x') (oy + y') (descend t px py ox oy)"
proof (induction t px py ox oy and cs px py ox oy and t px py ox oy
    arbitrary: and r and w' x' y' wd' ht' cs'
    rule: getWindowPointerIsOver_searchChildren_descend.induct)
  case (1 w cx cy cw ch cs p_rootX p_rootY originX originY)
  show ?case
  proof (cases "searchChildren cs p_rootX p_rootY originX originY")
    case None
    then have "\<forall>c \<in> set cs. \<not> inside c p_rootX p_rootY originX originY"
      by (simp add: searchChildren_None_iff)
    with None show ?thesis
      by (simp add: under.here)
  next
    case (Some r)
    with 1 obtain c w' x' y' wd' ht' cs' where c: "c \<in> set cs" "c = WNode w' x' y' wd' ht' cs'"
      "inside c p_rootX p_rootY originX originY"
      "under c p_rootX p_rootY (originX + x') (originY + y') r"
      by fastforce
    from Some hit_in_tree(2) [OF Some] "1.prems" have "r \<noteq> XNone"
      by auto
    with Some c show ?thesis
      by (auto intro: under.below)
  qed
next
  case (2 p_rootX p_rootY originX originY)
  then show ?case by simp
next
  case (3 c cs p_rootX p_rootY originX originY)
  show ?case
  proof (cases "searchChildren cs p_rootX p_rootY originX originY")
    case None
    with 3 show ?thesis
      by (cases c) (auto split: if_splits)
  next
    case (Some r')
    with 3 show ?thesis
      by fastforce
  qed
next
  case (4 w cx cy cw ch cs p_rootX p_rootY originX originY)
  then show ?case by simp
qed

text \<open>
  C29: The window \<^verbatim>\<open>getWindowPointerIsOver\<close> returns is a window of the tree it was
  started on, whatever the geometry and the pointer position.
\<close>

theorem getWindowPointerIsOver_in_tree:
  "getWindowPointerIsOver t px py ox oy \<in> set (windows t)"
  by (rule hit_in_tree)

text \<open>
  C28: Among the children of a window, the search descends into the top-most one that
  contains the pointer, that is the last such child in the order of \<^verbatim>\<open>XQueryTree\<close>,
  with the origin moved to that child; the result is what the search finds there, and
  the starting window only if that is the id \<^verbatim>\<open>None\<close>.
\<close>

theorem getWindowPointerIsOver_topmost:
  assumes "cs = bs @ c # as" and "inside c px py ox oy"
    and "\<forall>a \<in> set as. \<not> inside a px py ox oy"
  shows "getWindowPointerIsOver (WNode w x y wd ht cs) px py ox oy =
    (if descend c px py ox oy = XNone then w else descend c px py ox oy)"
  using assms searchChildren_None_iff [of as px py ox oy]
  by (simp add: searchChildren_append)

theorem getWindowPointerIsOver_topmost_witness:
  "getWindowPointerIsOver
     (WNode 1 0 0 1000 1000 [WNode 7 0 0 200 200 [], WNode 9 100 0 200 200 []]) 150 30 0 0 = 9"
  using getWindowPointerIsOver_topmost [of "[WNode 7 0 0 200 200 [], WNode 9 100 0 200 200 []]"
      "[WNode 7 0 0 200 200 []]" "WNode 9 100 0 200 200 []" "[]" 150 30 0 0 1 0 0 1000 1000]
  by simp

text \<open>
  C27: The search meets its specification. When no window of the tree has the id
  \<^verbatim>\<open>None\<close>, the window \<^verbatim>\<open>getWindowPointerIsOver\<close> returns is reached from the starting window
  through children that geometrically contain the pointer, and none of its own children
  contains the pointer: it is a deepest window under the pointer.
\<close>

theorem getWindowPointerIsOver_deepest:
  assumes "XNone \<notin> set (windows t)"
  shows "under t px py ox oy (getWindowPointerIsOver t px py ox oy)"
  using assms by (rule under_search)

theorem getWindowPointerIsOver_deepest_witness:
  "under (WNode 1 0 0 1000 1000 [WNode 7 0 0 200 200 [], WNode 9 100 0 200 200 []]) 150 30 0 0 9"
  using getWindowPointerIsOver_deepest
    [of "WNode 1 0 0 1000 1000 [WNode 7 0 0 200 200 [], WNode 9 100 0 200 200 []]" 150 30 0 0]
  by simp

end
