(* ===== verification/MessageCodec.thy ===== *)
theory MessageCodec
  imports XTypes SquareState PayloadTransfer
begin

text \<open>
  The state of one process and the message builders of \<^verbatim>\<open>src/spawn_window.c\<close>.

  \<^item> \<open>XDNDStateMachine\<close> is the struct of lines 16-31; \<open>xdndState_zero\<close> is its value after
    \<^verbatim>\<open>memset(&xdndState, 0, sizeof(xdndState))\<close> and at program start (line 38).
  \<^item> \<open>Peer\<close> is everything one process holds while its event loop runs: the global
    \<^verbatim>\<open>xdndState\<close>, the locals \<^verbatim>\<open>square\<close>, \<^verbatim>\<open>clickedStillInWindow\<close>,
    \<^verbatim>\<open>continueEventLoop\<close> and \<^verbatim>\<open>wind\<close> of \<^verbatim>\<open>spawnWindow\<close>, the files it reads and
    writes, and \<open>out\<close>, the requests it has issued so far, oldest first.
  \<^item> Each \<^verbatim>\<open>sendXdnd...\<close> function (lines 153-294) and \<^verbatim>\<open>sendSelectionNotify\<close> (lines
    296-335) is one definition: its guard on \<^verbatim>\<open>xdndState\<close>, the message it fills in
    after \<^verbatim>\<open>memset\<close> (\<open>clientMessage\<close>, unset slots are 0), \<^verbatim>\<open>XSendEvent\<close> and the exit
    through \<^verbatim>\<open>philError\<close> when that call fails (\<open>xSendEvent\<close>).
  \<^item> \<open>pack_xy\<close> is \<^verbatim>\<open>p_rootX << 16 | p_rootY\<close> on \<^verbatim>\<open>int\<close>; \<open>unpack_x\<close> and \<open>unpack_y\<close>
    are \<^verbatim>\<open>data.l[2] >> 16\<close> (an arithmetic shift of a signed value) and
    \<^verbatim>\<open>data.l[2] & 0xFFFF\<close> of the receiving handler (lines 804-805).
  \<^item> \<open>XdndMessage\<close> is the specification's view of the six messages as a tagged union,
    \<open>decode\<close> reads an envelope as one; the lemmas show that every builder produces the
    envelope that decodes to the intended message.
\<close>

section \<open>State\<close>

record XDNDStateMachine =
  xdndExchangeStarted :: bool
  xdndPositionReceived :: bool
  xdndStatusReceived :: bool
  xdndStatusSent :: bool
  xdndDropReceived :: bool
  xdndDropTimestamp :: Time
  xdndLastPositionTimestamp :: Time
  amISource :: bool
  p_rootX :: int
  p_rootY :: int
  otherWindow :: Window
  proposedAction :: Atom
  proposedType :: Atom

definition xdndState_zero :: XDNDStateMachine where
  "xdndState_zero =
    \<lparr>xdndExchangeStarted = False, xdndPositionReceived = False, xdndStatusReceived = False,
     xdndStatusSent = False, xdndDropReceived = False, xdndDropTimestamp = 0,
     xdndLastPositionTimestamp = 0, amISource = False, p_rootX = 0, p_rootY = 0,
     otherWindow = XNone, proposedAction = XNone, proposedType = XNone\<rparr>"

record Peer =
  xdndState :: XDNDStateMachine
  square :: Square
  clickedStillInWindow :: bool
  continueEventLoop :: bool
  wind :: Window
  files :: files
  out :: "XRequest list"

definition emit :: "XRequest \<Rightarrow> Peer \<Rightarrow> Peer" where
  "emit r p = p\<lparr>out := out p @ [r]\<rparr>"

definition memset_xdndState :: "Peer \<Rightarrow> Peer" where
  "memset_xdndState p = p\<lparr>xdndState := xdndState_zero\<rparr>"

abbreviation started :: "Peer \<Rightarrow> bool" where
  "started p \<equiv> xdndExchangeStarted (xdndState p)"

abbreviation source :: "Peer \<Rightarrow> bool" where
  "source p \<equiv> amISource (xdndState p)"

section \<open>Envelopes\<close>

definition clientMessage ::
  "Window \<Rightarrow> Atom \<Rightarrow> slot \<Rightarrow> slot \<Rightarrow> slot \<Rightarrow> slot \<Rightarrow> slot \<Rightarrow> XClientMessageEvent" where
  "clientMessage tgt mtype d0 d1 d2 d3 d4 =
    \<lparr>window = tgt, message_type = mtype, format = 32,
     l0 = d0, l1 = d1, l2 = d2, l3 = d3, l4 = d4\<rparr>"

definition xSendEvent :: "XView \<Rightarrow> Window \<Rightarrow> XEvent \<Rightarrow> Peer \<Rightarrow> Peer result" where
  "xSendEvent v tgt ev p =
    (if fault v ''XSendEvent'' then philError ''XSendEvent''
     else Inr (emit (XSendEvent tgt ev) p))"

definition pack_xy :: "int \<Rightarrow> int \<Rightarrow> slot" where
  "pack_xy px py = push_bit 16 (word_of_int px) OR word_of_int py"

definition unpack_x :: "slot \<Rightarrow> int" where
  "unpack_x d = sint (signed_drop_bit 16 d)"

definition unpack_y :: "slot \<Rightarrow> int" where
  "unpack_y d = uint (d AND 0xFFFF)"

section \<open>The builders\<close>

definition sendXdndEnter ::
  "AtomTable \<Rightarrow> XView \<Rightarrow> int \<Rightarrow> Window \<Rightarrow> Window \<Rightarrow> Peer \<Rightarrow> Peer result" where
  "sendXdndEnter ia v xdndVersion src tgt p =
    (if \<not> started p
     then xSendEvent v tgt (ClientMessage (clientMessage tgt (XdndEnter ia)
            src (push_bit 24 (word_of_int xdndVersion)) (typesWeAccept ia ! 0) XNone XNone)) p
     else Inr p)"

definition sendXdndPosition ::
  "AtomTable \<Rightarrow> XView \<Rightarrow> Window \<Rightarrow> Window \<Rightarrow> Time \<Rightarrow> int \<Rightarrow> int \<Rightarrow> Peer \<Rightarrow> Peer result" where
  "sendXdndPosition ia v src tgt tm px py p =
    (if started p \<and> source p
     then xSendEvent v tgt (ClientMessage (clientMessage tgt (XdndPosition ia)
            src 0 (pack_xy px py) tm (XdndActionCopy ia))) p
     else Inr p)"

definition sendXdndLeave :: "AtomTable \<Rightarrow> XView \<Rightarrow> Window \<Rightarrow> Window \<Rightarrow> Peer \<Rightarrow> Peer result" where
  "sendXdndLeave ia v src tgt p =
    (if started p \<and> source p
     then xSendEvent v tgt (ClientMessage (clientMessage tgt (XdndLeave ia) src 0 0 0 0)) p
     else Inr p)"

definition sendXdndFinished ::
  "AtomTable \<Rightarrow> XView \<Rightarrow> Window \<Rightarrow> Window \<Rightarrow> Peer \<Rightarrow> Peer result" where
  "sendXdndFinished ia v src tgt p =
    (if started p \<and> \<not> source p
     then xSendEvent v tgt (ClientMessage (clientMessage tgt (XdndFinished ia)
            src 1 (XdndActionCopy ia) 0 0)) p
     else Inr p)"

definition sendXdndStatus ::
  "AtomTable \<Rightarrow> XView \<Rightarrow> Window \<Rightarrow> Window \<Rightarrow> Atom \<Rightarrow> Peer \<Rightarrow> Peer result" where
  "sendXdndStatus ia v src tgt action p =
    (if started p \<and> \<not> source p
     then xSendEvent v tgt (ClientMessage (clientMessage tgt (XdndStatus ia)
            src 1 0 0 action)) p
     else Inr p)"

definition sendXdndDrop :: "AtomTable \<Rightarrow> XView \<Rightarrow> Window \<Rightarrow> Window \<Rightarrow> Peer \<Rightarrow> Peer result" where
  "sendXdndDrop ia v src tgt p =
    (if started p \<and> source p
     then xSendEvent v tgt (ClientMessage (clientMessage tgt (XdndDrop ia)
            src 0 (xdndLastPositionTimestamp (xdndState p)) 0 0)) p
     else Inr p)"

definition sendSelectionNotify ::
  "AtomTable \<Rightarrow> XView \<Rightarrow> XSelection \<Rightarrow> string \<Rightarrow> Peer \<Rightarrow> Peer result" where
  "sendSelectionNotify ia v selectionRequest pathStr p =
    (if started p \<and> source p
     then if fault v ''malloc'' then philError ''malloc''
          else xSendEvent v (requestor selectionRequest)
                 (SelectionNotify
                    \<lparr>requestor = requestor selectionRequest,
                     selection = selection selectionRequest,
                     target = target selectionRequest,
                     property = property selectionRequest,
                     time = time selectionRequest\<rparr>)
                 (emit (XChangeProperty (requestor selectionRequest)
                          (property selectionRequest) (typesWeAccept ia ! 0) 8
                          (propertyData pathStr)) p)
     else Inr p)"

section \<open>The messages as a tagged union\<close>

datatype XdndMessage =
    Enter Window slot Atom Atom Atom
  | Position Window int int Time Atom
  | Leave Window
  | Status Window bool Atom
  | Drop Window Time
  | Finished Window bool Atom

definition decode :: "AtomTable \<Rightarrow> XClientMessageEvent \<Rightarrow> XdndMessage option" where
  "decode ia m =
    (if message_type m = XdndEnter ia then Some (Enter (l0 m) (l1 m) (l2 m) (l3 m) (l4 m))
     else if message_type m = XdndPosition ia
       then Some (Position (l0 m) (unpack_x (l2 m)) (unpack_y (l2 m)) (l3 m) (l4 m))
     else if message_type m = XdndLeave ia then Some (Leave (l0 m))
     else if message_type m = XdndStatus ia then Some (Status (l0 m) (l1 m AND 1 = 1) (l4 m))
     else if message_type m = XdndDrop ia then Some (Drop (l0 m) (l2 m))
     else if message_type m = XdndFinished ia
       then Some (Finished (l0 m) (l1 m AND 1 = 1) (l2 m))
     else None)"

fun sender :: "XdndMessage \<Rightarrow> Window" where
  "sender (Enter w _ _ _ _) = w"
| "sender (Position w _ _ _ _) = w"
| "sender (Leave w) = w"
| "sender (Status w _ _) = w"
| "sender (Drop w _) = w"
| "sender (Finished w _ _) = w"

text \<open>
  The specification of the builders: \<open>encode\<close> writes a message into the five slots,
  \<open>may_send\<close> is the state in which the process may send it, \<open>guarded_send\<close> sends it in
  that state and does nothing otherwise. \<open>wf_message\<close> is the range of coordinates the
  slot of a position can hold.
\<close>

fun encode :: "AtomTable \<Rightarrow> Window \<Rightarrow> XdndMessage \<Rightarrow> XClientMessageEvent" where
  "encode ia t (Enter s ver a b c) = clientMessage t (XdndEnter ia) s ver a b c"
| "encode ia t (Position s px py tm act) =
    clientMessage t (XdndPosition ia) s 0 (pack_xy px py) tm act"
| "encode ia t (Leave s) = clientMessage t (XdndLeave ia) s 0 0 0 0"
| "encode ia t (Status s acc act) =
    clientMessage t (XdndStatus ia) s (if acc then 1 else 0) 0 0 act"
| "encode ia t (Drop s tm) = clientMessage t (XdndDrop ia) s 0 tm 0 0"
| "encode ia t (Finished s ok act) =
    clientMessage t (XdndFinished ia) s (if ok then 1 else 0) act 0 0"

fun wf_message :: "XdndMessage \<Rightarrow> bool" where
  "wf_message (Position s px py tm act) =
    (- 32768 \<le> px \<and> px < 32768 \<and> 0 \<le> py \<and> py < 65536)"
| "wf_message _ = True"

fun may_send :: "XdndMessage \<Rightarrow> Peer \<Rightarrow> bool" where
  "may_send (Enter _ _ _ _ _) p = (\<not> started p)"
| "may_send (Position _ _ _ _ _) p = (started p \<and> source p)"
| "may_send (Leave _) p = (started p \<and> source p)"
| "may_send (Drop _ _) p = (started p \<and> source p)"
| "may_send (Status _ _ _) p = (started p \<and> \<not> source p)"
| "may_send (Finished _ _ _) p = (started p \<and> \<not> source p)"

definition guarded_send ::
  "AtomTable \<Rightarrow> XView \<Rightarrow> Window \<Rightarrow> XdndMessage \<Rightarrow> Peer \<Rightarrow> Peer result" where
  "guarded_send ia v t msg p =
    (if may_send msg p then xSendEvent v t (ClientMessage (encode ia t msg)) p else Inr p)"

section \<open>Lemmas about the state\<close>

lemma xdndState_zero_simps [simp]:
  "\<not> xdndExchangeStarted xdndState_zero" "\<not> xdndPositionReceived xdndState_zero"
  "\<not> xdndStatusReceived xdndState_zero" "\<not> xdndStatusSent xdndState_zero"
  "\<not> xdndDropReceived xdndState_zero" "\<not> amISource xdndState_zero"
  "xdndDropTimestamp xdndState_zero = 0" "xdndLastPositionTimestamp xdndState_zero = 0"
  "otherWindow xdndState_zero = XNone" "proposedAction xdndState_zero = XNone"
  "proposedType xdndState_zero = XNone" "p_rootX xdndState_zero = 0"
  "p_rootY xdndState_zero = 0"
  by (simp_all add: xdndState_zero_def)

lemma emit_simps [simp]:
  "out (emit r p) = out p @ [r]" "xdndState (emit r p) = xdndState p"
  "square (emit r p) = square p" "wind (emit r p) = wind p" "files (emit r p) = files p"
  "clickedStillInWindow (emit r p) = clickedStillInWindow p"
  "continueEventLoop (emit r p) = continueEventLoop p"
  by (simp_all add: emit_def)

lemma memset_xdndState_simps [simp]:
  "xdndState (memset_xdndState p) = xdndState_zero" "out (memset_xdndState p) = out p"
  "square (memset_xdndState p) = square p" "wind (memset_xdndState p) = wind p"
  "files (memset_xdndState p) = files p"
  "clickedStillInWindow (memset_xdndState p) = clickedStillInWindow p"
  "continueEventLoop (memset_xdndState p) = continueEventLoop p"
  by (simp_all add: memset_xdndState_def)

lemma clientMessage_simps [simp]:
  "window (clientMessage t a d0 d1 d2 d3 d4) = t"
  "message_type (clientMessage t a d0 d1 d2 d3 d4) = a"
  "format (clientMessage t a d0 d1 d2 d3 d4) = 32"
  "l0 (clientMessage t a d0 d1 d2 d3 d4) = d0" "l1 (clientMessage t a d0 d1 d2 d3 d4) = d1"
  "l2 (clientMessage t a d0 d1 d2 d3 d4) = d2" "l3 (clientMessage t a d0 d1 d2 d3 d4) = d3"
  "l4 (clientMessage t a d0 d1 d2 d3 d4) = d4"
  by (simp_all add: clientMessage_def)

section \<open>Lemmas about the builders\<close>

lemmas send_defs [xdnd_send] =
  sendXdndEnter_def sendXdndPosition_def sendXdndLeave_def sendXdndFinished_def
  sendXdndStatus_def sendXdndDrop_def sendSelectionNotify_def

lemma xSendEvent_simps [simp]:
  "fault v ''XSendEvent'' \<Longrightarrow> xSendEvent v t ev p = philError ''XSendEvent''"
  "\<not> fault v ''XSendEvent'' \<Longrightarrow> xSendEvent v t ev p = Inr (emit (XSendEvent t ev) p)"
  by (simp_all add: xSendEvent_def)

lemma xSendEvent_Inr_iff:
  "xSendEvent v t ev p = Inr q \<longleftrightarrow> \<not> fault v ''XSendEvent'' \<and> q = emit (XSendEvent t ev) p"
  by (auto simp: xSendEvent_def)

text \<open>A builder either leaves the process as it is or appends to its log.\<close>

definition only_out :: "Peer \<Rightarrow> Peer \<Rightarrow> bool" where
  "only_out p q = (\<exists>rs. q = p\<lparr>out := out p @ rs\<rparr>)"

lemma only_out_refl [simp]: "only_out p p"
  unfolding only_out_def by (rule exI [of _ "[]"]) simp

lemma only_out_emit [simp]: "only_out p (emit r p)"
  unfolding only_out_def emit_def by blast

lemma only_out_trans: "only_out p q \<Longrightarrow> only_out q r \<Longrightarrow> only_out p r"
  unfolding only_out_def by (metis (no_types, lifting) Peer.simps(7) Peer.surjective
      Peer.update_convs(7) append.assoc)

lemma only_outD:
  assumes "only_out p q"
  shows "xdndState q = xdndState p" "square q = square p" "wind q = wind p"
    "files q = files p" "clickedStillInWindow q = clickedStillInWindow p"
    "continueEventLoop q = continueEventLoop p" "\<exists>rs. out q = out p @ rs"
  using assms by (auto simp: only_out_def)

lemma send_only_out:
  "sendXdndEnter ia v ver s t p = Inr q \<Longrightarrow> only_out p q"
  "sendXdndPosition ia v s t tm px py p = Inr q \<Longrightarrow> only_out p q"
  "sendXdndLeave ia v s t p = Inr q \<Longrightarrow> only_out p q"
  "sendXdndFinished ia v s t p = Inr q \<Longrightarrow> only_out p q"
  "sendXdndStatus ia v s t a p = Inr q \<Longrightarrow> only_out p q"
  "sendXdndDrop ia v s t p = Inr q \<Longrightarrow> only_out p q"
  by (auto simp: xdnd_send xSendEvent_Inr_iff split: if_splits)

lemma sendSelectionNotify_only_out:
  assumes "sendSelectionNotify ia v req path p = Inr q"
  shows "only_out p q"
proof (cases "started p \<and> source p")
  case True
  with assms have "q = emit (XSendEvent (requestor req) (SelectionNotify
      \<lparr>requestor = requestor req, selection = selection req, target = target req,
       property = property req, time = time req\<rparr>))
      (emit (XChangeProperty (requestor req) (property req) (typesWeAccept ia ! 0) 8
        (propertyData path)) p)"
    by (auto simp: sendSelectionNotify_def xSendEvent_Inr_iff split: if_splits)
  then show ?thesis
    by (metis only_out_emit only_out_trans)
next
  case False
  with assms show ?thesis
    by (auto simp: sendSelectionNotify_def)
qed

section \<open>Lemmas about the coordinates\<close>

lemma take_bit_pack_xy: "take_bit 16 (pack_xy px py) = take_bit 16 (word_of_int py)"
  by (simp add: pack_xy_def take_bit_push_bit)

lemma pack_xy_arith:
  assumes "0 \<le> py" and "py < 65536"
  shows "pack_xy px py = word_of_int (px * 65536 + py)"
proof -
  have py: "word_of_int py = (take_bit 16 (word_of_int py) :: 32 word)"
    using assms by (simp add: take_bit_int_eq_self flip: of_int_take_bit)
  have "push_bit 16 (word_of_int px :: 32 word) + word_of_int py
      = push_bit 16 (word_of_int px) OR word_of_int py"
    by (rule disjunctive_add, subst py) (simp add: bit_simps)
  then show ?thesis
    by (simp add: pack_xy_def push_bit_eq_mult)
qed

lemma unpack_y_pack_xy:
  assumes "0 \<le> py" and "py < 65536"
  shows "unpack_y (pack_xy px py) = py"
proof -
  have "unpack_y (pack_xy px py) = take_bit 16 (take_bit 32 py)"
    by (simp add: unpack_y_def and_0xFFFF take_bit_pack_xy unsigned_take_bit_eq
        uint_word_of_int_eq)
  also have "\<dots> = py"
    using assms by (simp add: take_bit_int_eq_self)
  finally show ?thesis .
qed

lemma unpack_x_pack_xy:
  assumes "0 \<le> py" and "py < 65536" and "- 32768 \<le> px" and "px < 32768"
  shows "unpack_x (pack_xy px py) = px"
proof -
  from assms have "sint (word_of_int (px * 65536 + py) :: 32 word) = px * 65536 + py"
    by (intro sint_word_of_int_32) simp_all
  with assms(1,2) have "sint (pack_xy px py) = px * 65536 + py"
    by (simp only: pack_xy_arith)
  then have "unpack_x (pack_xy px py) = (px * 65536 + py) div 65536"
    by (simp add: unpack_x_def sint_signed_drop_bit_eq drop_bit_eq_div)
  also have "\<dots> = px"
    using assms(1,2) by simp
  finally show ?thesis .
qed

lemma bit_negative_int:
  assumes "- (2 ^ k) \<le> (i :: int)" and "i < 0" and "k \<le> n"
  shows "bit i n"
proof -
  have "(2 :: int) ^ k \<le> 2 ^ n"
    using assms(3) by (simp add: power_increasing)
  with assms(1,2) have "0 \<le> i + 2 ^ n" "i + 2 ^ n < 2 ^ n"
    by linarith+
  then have "i div 2 ^ n = - 1"
    by (intro int_div_pos_eq [where r = "i + 2 ^ n"]) simp_all
  then show ?thesis
    by (simp add: bit_iff_odd)
qed

lemma pack_xy_negative:
  assumes "- 65536 \<le> py" and "py < 0"
  shows "pack_xy px py = word_of_int py"
proof (rule bit_word_eqI)
  fix n assume "n < LENGTH(32)"
  with assms bit_negative_int [of 16 py n] show "bit (pack_xy px py) n = bit (word_of_int py :: 32 word) n"
    by (cases "16 \<le> n") (auto simp: pack_xy_def bit_simps)
qed

section \<open>The builders and the tagged union\<close>

text \<open>
  Each of the six builders is the guarded send of one message of the tagged union:
  it sends the encoding of that message to the target window when the state of the
  exchange allows the message, and does nothing otherwise. Enter carries the version in
  the top byte of slot 1 and the first accepted type, position the packed coordinates,
  the time and \<^verbatim>\<open>XdndActionCopy\<close>, status and finished a set accept bit, drop the recorded
  time stamp. The status carries the value 1 in slot 1, which is the accept bit alone;
  the comment in line 259 says that it sets the accept and the want-position flag.
\<close>

lemma builders_encode:
  "sendXdndEnter ia v ver s t p =
     guarded_send ia v t (Enter s (push_bit 24 (word_of_int ver)) (typesWeAccept ia ! 0) 0 0) p \<and>
   sendXdndPosition ia v s t tm px py p =
     guarded_send ia v t (Position s px py tm (XdndActionCopy ia)) p \<and>
   sendXdndLeave ia v s t p = guarded_send ia v t (Leave s) p \<and>
   sendXdndStatus ia v s t action p = guarded_send ia v t (Status s True action) p \<and>
   sendXdndDrop ia v s t p =
     guarded_send ia v t (Drop s (xdndLastPositionTimestamp (xdndState p))) p \<and>
   sendXdndFinished ia v s t p =
     guarded_send ia v t (Finished s True (XdndActionCopy ia)) p"
  by (simp add: xdnd_send guarded_send_def)

text \<open>
  C23: Decoding inverts encoding: with distinct atoms, the slots written for a message
  are read back as the same message, for every message whose coordinates fit their
  sixteen bits (x signed, y unsigned).
\<close>

theorem decode_encode:
  assumes "atoms_wf ia" and "wf_message msg"
  shows "decode ia (encode ia t msg) = Some msg"
  using assms
  by (cases msg)
    (simp_all add: decode_def unpack_x_pack_xy unpack_y_pack_xy and_1_eq atoms_wf_simps)

theorem decode_encode_witness:
  "decode server_atoms (encode server_atoms 9 (Position 7 450 30 2000 3)) =
     Some (Position 7 450 30 2000 3)"
  using decode_encode [of server_atoms "Position 7 450 30 2000 3" 9]
  by simp

text \<open>
  C24: The packing of the coordinates does not mask its operands
  (\<^verbatim>\<open>p_rootX << 16 | p_rootY\<close>, line 193): for a negative y the sign bits of y cover the upper
  half of the slot, so the target reads x as -1 whatever x was, and y increased by
  65536.
\<close>

theorem negative_y_overwrites_x:
  assumes "- 32768 \<le> py" and "py < 0"
  shows "unpack_x (pack_xy px py) = - 1 \<and> unpack_y (pack_xy px py) = py + 65536"
proof -
  from assms have p: "pack_xy px py = word_of_int py"
    by (intro pack_xy_negative) simp_all
  from assms have "sint (word_of_int py :: 32 word) = py"
    by (intro sint_word_of_int_32) simp_all
  then have "unpack_x (word_of_int py) = py div 65536"
    by (simp add: unpack_x_def sint_signed_drop_bit_eq drop_bit_eq_div)
  moreover have "unpack_y (word_of_int py) = take_bit 16 (take_bit 32 py)"
    by (simp add: unpack_y_def and_0xFFFF unsigned_take_bit_eq uint_word_of_int_eq)
  moreover from assms have "py div 65536 = - 1"
    by (intro int_div_pos_eq [where r = "py + 65536"]) simp_all
  moreover from assms have "py mod 65536 = py + 65536"
    by (intro int_mod_pos_eq [where q = "- 1"]) simp_all
  then have "take_bit 16 (take_bit 32 py) = py + 65536"
    by (simp add: take_bit_eq_mod mod_mod_cancel)
  ultimately show ?thesis
    using p by simp
qed

theorem negative_y_overwrites_x_witness:
  "unpack_x (pack_xy 300 (- 1)) = - 1 \<and> unpack_y (pack_xy 300 (- 1)) = 65535"
  using negative_y_overwrites_x [of "- 1" 300] by simp

end
