(* ===== verification/StateMachine.thy ===== *)
theory StateMachine
  imports MessageCodec TypeNegotiator HitTest
begin

text \<open>
  The event loop of \<^verbatim>\<open>spawnWindow\<close> in \<^verbatim>\<open>src/spawn_window.c\<close> (lines 543-848): one
  definition per \<^verbatim>\<open>case\<close> of the \<^verbatim>\<open>switch\<close>, \<open>handleEvent\<close> for the \<^verbatim>\<open>switch\<close> and
  \<open>eventLoop\<close> for the \<^verbatim>\<open>while\<close> loop over the events the server delivers.

  \<^item> A handler takes the atoms, what the process can read of its environment while it
    handles the event (\<open>XView\<close>), the event, and the process state; it returns the new
    state or the error the process ends with. Requests go to the log \<open>out\<close>.
  \<^item> A \<^verbatim>\<open>break\<close> in the middle of a \<^verbatim>\<open>case\<close> is a branch that returns at once, so the
    calls after it (\<^verbatim>\<open>drawSquare\<close> above all) are not made on that branch.
  \<^item> The ClientMessage case is split along its nesting: \<open>receiveXdndEnter\<close> (lines
    740-764), \<open>sourceMessage\<close> (768-788), \<open>targetMessage\<close> (789-844) with
    \<open>receiveXdndPosition\<close> and \<open>receiveXdndDrop\<close>. The three tests of \<open>targetMessage\<close>
    run one after the other, as in the code.
  \<^item> The MotionNotify case is split into \<open>dragSquare\<close> (601-612), \<open>leaveOldTarget\<close>
    (621-631) and \<open>engageTarget\<close> (633-650), whose result \<open>None\<close> is the \<^verbatim>\<open>break\<close> taken
    when the window under the pointer does not support XDND.
  \<^item> \<open>filesAfterEvent\<close> is the file system the handler of an event leaves behind, also
    when it ends the process: only the SelectionRequest case writes a file, through
    \<^verbatim>\<open>saveSquareState\<close>, which is called before \<^verbatim>\<open>sendSelectionNotify\<close> can fail.
  \<^item> \<open>announceClientMessage\<close> is the start of the ClientMessage case (lines 718-727):
    a message of a type the program does not know (\<open>unknownMessage\<close>) is printed by
    \<^verbatim>\<open>printClientMessage\<close>, whose call of \<^verbatim>\<open>XGetAtomName\<close> ends the process through the
    error handler of Xlib when the type is not an atom of the server (\<open>XError\<close>). The
    text that is printed is in theory \<open>ClientMessagePrinter\<close>; other \<^verbatim>\<open>printf\<close> output is
    not modelled.
\<close>

section \<open>Drawing\<close>

definition red :: Pixel where
  "red = push_bit 16 0xFF"

definition blue :: Pixel where
  "blue = 0xFF"

definition green :: Pixel where
  "green = push_bit 8 0xFF"

definition foreground :: "Square \<Rightarrow> Pixel" where
  "foreground sq = (if colour sq = RedSquare then red else blue)"

definition drawSquare :: "Peer \<Rightarrow> Peer" where
  "drawSquare p =
    emit XFlush
      ((if visible (square p)
        then emit (XFillRectangle (wind p) (square_x (square p)) (square_y (square p))
               (square_size (square p)) (square_size (square p)))
        else id)
       (emit (XClearWindow (wind p)) p))"

definition clampSquare :: "Square \<Rightarrow> Square" where
  "clampSquare sq =
    (let sq1 = (if square_x sq < 0 then sq\<lparr>square_x := 0\<rparr> else sq);
         sq2 = (if square_y sq1 < 0 then sq1\<lparr>square_y := 0\<rparr> else sq1);
         sq3 = (if square_x sq2 > 150 then sq2\<lparr>square_x := 150\<rparr> else sq2)
     in if square_y sq3 > 150 then sq3\<lparr>square_y := 150\<rparr> else sq3)"

section \<open>Selection events\<close>

definition handleSelectionRequest ::
  "AtomTable \<Rightarrow> XView \<Rightarrow> XSelection \<Rightarrow> Peer \<Rightarrow> Peer result" where
  "handleSelectionRequest ia v req p =
    (if started p \<and> source p
     then bindR (saveSquareState (fault v) (square p) (files p))
            (\<lambda>(pathStr, fs). sendSelectionNotify ia v req pathStr (p\<lparr>files := fs\<rparr>))
     else Inr p)"

fun filesAfterEvent :: "AtomTable \<Rightarrow> XView \<Rightarrow> XEvent \<Rightarrow> Peer \<Rightarrow> files" where
  "filesAfterEvent ia v (SelectionRequest req) p =
    (if started p \<and> source p
     then saveSquareState_files (fault v) (square p) (files p)
     else files p)"
| "filesAfterEvent ia v e p = files p"

definition placeSquare :: "XView \<Rightarrow> Square \<Rightarrow> Square" where
  "placeSquare v sq =
    clampSquare (sq\<lparr>square_x := fst (pointer v) - 25, square_y := snd (pointer v) - 25\<rparr>)"

definition handleSelectionNotify ::
  "AtomTable \<Rightarrow> XView \<Rightarrow> XSelection \<Rightarrow> Peer \<Rightarrow> Peer result" where
  "handleSelectionNotify ia v sel p =
    (if property sel \<noteq> XDND_DATA ia then Inr p
     else bindR (getCopiedData ia v (wind p)) (\<lambda>pathStr.
       case pathStr of
         None \<Rightarrow> Inl (Undefined ''restoreSquareState(NULL)'')
       | Some path \<Rightarrow>
           bindR (restoreSquareState (fault v) (files p) path (square p)) (\<lambda>sq.
             let sq1 = sq\<lparr>visible := True\<rparr>;
                 p1 = emit (XSetForeground (foreground sq1))
                        (emit (XDeleteProperty (wind p) (XDND_DATA ia)) p);
                 p2 = p1\<lparr>square := placeSquare v sq1\<rparr>
             in bindR (sendXdndFinished ia v (wind p2) (otherWindow (xdndState p2)) p2)
                  (\<lambda>p3. Inr (drawSquare (memset_xdndState p3))))))"

section \<open>Pointer and keyboard events\<close>

definition dragSquare :: "XMotionEvent \<Rightarrow> Square \<Rightarrow> Square" where
  "dragSquare ev sq =
    (clampSquare (sq\<lparr>square_x := square_x sq + (mx ev - mouse_x sq),
                     square_y := square_y sq + (my ev - mouse_y sq)\<rparr>))
      \<lparr>mouse_x := mx ev, mouse_y := my ev\<rparr>"

definition leaveOldTarget :: "AtomTable \<Rightarrow> XView \<Rightarrow> Window \<Rightarrow> Peer \<Rightarrow> Peer result" where
  "leaveOldTarget ia v targetWindow p =
    (if started p \<and> targetWindow \<noteq> otherWindow (xdndState p)
     then bindR (sendXdndLeave ia v (wind p) (otherWindow (xdndState p)) p)
            (\<lambda>q. Inr (memset_xdndState q))
     else Inr p)"

definition engageTarget ::
  "AtomTable \<Rightarrow> XView \<Rightarrow> XMotionEvent \<Rightarrow> Window \<Rightarrow> Peer \<Rightarrow> Peer option result" where
  "engageTarget ia v ev targetWindow p =
    (if \<not> started p
     then let supportsXdnd = hasCorrectXdndAwareProperty ia v targetWindow
          in if supportsXdnd = 0 then Inr None
             else bindR (sendXdndEnter ia v supportsXdnd (wind p) targetWindow
                          (emit (XSetSelectionOwner (XdndSelection ia) (wind p) (mtime ev)) p))
                    (\<lambda>q. Inr (Some (q\<lparr>xdndState := (xdndState q)
                            \<lparr>xdndExchangeStarted := True, amISource := True,
                             otherWindow := targetWindow\<rparr>\<rparr>)))
     else Inr (Some p))"

definition positionUpdate ::
  "AtomTable \<Rightarrow> XView \<Rightarrow> XMotionEvent \<Rightarrow> Window \<Rightarrow> Peer \<Rightarrow> Peer result" where
  "positionUpdate ia v ev targetWindow p =
    (if \<not> xdndStatusReceived (xdndState p)
     then sendXdndPosition ia v (wind p) targetWindow (mtime ev) (x_root ev) (y_root ev) p
     else Inr p)"

definition handleMotionNotify ::
  "AtomTable \<Rightarrow> XView \<Rightarrow> XMotionEvent \<Rightarrow> Peer \<Rightarrow> Peer result" where
  "handleMotionNotify ia v ev p =
    (if selected (square p)
     then let p1 = p\<lparr>square := dragSquare ev (square p)\<rparr>
          in if \<not> clickedStillInWindow p1
             then let targetWindow =
                        getWindowPointerIsOver (tree v) (x_root ev) (y_root ev) 0 0
                  in if targetWindow = XNone then Inr p1
                     else bindR (leaveOldTarget ia v targetWindow p1) (\<lambda>p2.
                          bindR (engageTarget ia v ev targetWindow p2) (\<lambda>r.
                            case r of
                              None \<Rightarrow> Inr p2
                            | Some p3 \<Rightarrow>
                                bindR (positionUpdate ia v ev targetWindow p3)
                                  (\<lambda>p4. Inr (drawSquare p4))))
             else Inr (drawSquare p1)
     else Inr (drawSquare p))"

definition handleKeyRelease :: "int \<Rightarrow> Peer \<Rightarrow> Peer" where
  "handleKeyRelease keycode p =
    (if visible (square p) \<and> keycode = 38
     then let sq = (square p)
                \<lparr>colour := (if colour (square p) = RedSquare then BlueSquare else RedSquare)\<rparr>
          in drawSquare (emit (XSetForeground (foreground sq)) (p\<lparr>square := sq\<rparr>))
     else p)"

definition handleButtonPress :: "int \<Rightarrow> int \<Rightarrow> Peer \<Rightarrow> Peer" where
  "handleButtonPress bx by p =
    (if isPointerInsideSquare bx by (square p)
     then drawSquare (emit (XSetForeground green)
            (p\<lparr>square := (square p)\<lparr>selected := True, mouse_x := bx, mouse_y := by\<rparr>,
               clickedStillInWindow := True\<rparr>))
     else p)"

definition dropIfAccepted :: "AtomTable \<Rightarrow> XView \<Rightarrow> Peer \<Rightarrow> Peer result" where
  "dropIfAccepted ia v p =
    (if started p \<and> source p \<and> xdndStatusReceived (xdndState p)
     then sendXdndDrop ia v (wind p) (otherWindow (xdndState p)) p
     else Inr p)"

definition releaseSquare :: "Peer \<Rightarrow> Peer" where
  "releaseSquare p =
    (if selected (square p)
     then let sq = (square p)\<lparr>selected := False\<rparr>
          in drawSquare (emit (XSetForeground (foreground sq)) (p\<lparr>square := sq\<rparr>))
     else p)"

definition handleButtonRelease :: "AtomTable \<Rightarrow> XView \<Rightarrow> Peer \<Rightarrow> Peer result" where
  "handleButtonRelease ia v p =
    bindR (dropIfAccepted ia v p) (\<lambda>p1. Inr (releaseSquare p1))"

definition handleEnterNotify :: "Peer \<Rightarrow> Peer" where
  "handleEnterNotify p = (if selected (square p) then p\<lparr>clickedStillInWindow := True\<rparr> else p)"

definition handleLeaveNotify :: "Peer \<Rightarrow> Peer" where
  "handleLeaveNotify p = (if selected (square p) then p\<lparr>clickedStillInWindow := False\<rparr> else p)"

section \<open>Client messages\<close>

definition receiveXdndEnter ::
  "AtomTable \<Rightarrow> XView \<Rightarrow> XClientMessageEvent \<Rightarrow> Peer \<Rightarrow> Peer result" where
  "receiveXdndEnter ia v m p =
    bindR (proposeType ia v (l0 m) m)
      (\<lambda>ty. Inr (p\<lparr>xdndState := (xdndState p)
                \<lparr>xdndExchangeStarted := True, amISource := False, otherWindow := l0 m,
                 proposedType := ty\<rparr>\<rparr>))"

definition sourceMessage ::
  "AtomTable \<Rightarrow> XView \<Rightarrow> XClientMessageEvent \<Rightarrow> Peer \<Rightarrow> Peer result" where
  "sourceMessage ia v m p =
    (if message_type m = XdndStatus ia
     then let p1 = p\<lparr>xdndState := (xdndState p)\<lparr>xdndStatusReceived := True\<rparr>\<rparr>
          in if l1 m AND 1 \<noteq> 1
             then bindR (sendXdndLeave ia v (wind p1) (otherWindow (xdndState p1)) p1)
                    (\<lambda>q. Inr (memset_xdndState q))
             else Inr p1
     else if message_type m = XdndFinished ia
     then Inr (drawSquare (memset_xdndState (p\<lparr>square := (square p)\<lparr>visible := False\<rparr>\<rparr>)))
     else Inr p)"

definition receiveXdndPosition ::
  "AtomTable \<Rightarrow> XView \<Rightarrow> XClientMessageEvent \<Rightarrow> Peer \<Rightarrow> Peer result" where
  "receiveXdndPosition ia v m p =
    (let p1 = p\<lparr>xdndState := (xdndState p)
                \<lparr>xdndPositionReceived := True, p_rootX := unpack_x (l2 m),
                 p_rootY := unpack_y (l2 m), proposedAction := l4 m,
                 xdndLastPositionTimestamp := l3 m\<rparr>\<rparr>
     in if \<not> xdndStatusSent (xdndState p1)
        then let p2 = p1\<lparr>xdndState := (xdndState p1)\<lparr>xdndStatusSent := True\<rparr>\<rparr>
             in sendXdndStatus ia v (wind p2) (otherWindow (xdndState p2))
                  (proposedAction (xdndState p2)) p2
        else Inr p1)"

definition receiveXdndDrop :: "AtomTable \<Rightarrow> XClientMessageEvent \<Rightarrow> Peer \<Rightarrow> Peer" where
  "receiveXdndDrop ia m p =
    (if \<not> xdndPositionReceived (xdndState p) \<or> l0 m \<noteq> otherWindow (xdndState p) then p
     else let p1 = p\<lparr>xdndState := (xdndState p)
                     \<lparr>xdndDropReceived := True, xdndDropTimestamp := l2 m\<rparr>\<rparr>
          in emit (XConvertSelection (XdndSelection ia) (proposedType (xdndState p1))
                     (XDND_DATA ia) (wind p1) (xdndDropTimestamp (xdndState p1))) p1)"

definition targetMessage ::
  "AtomTable \<Rightarrow> XView \<Rightarrow> XClientMessageEvent \<Rightarrow> Peer \<Rightarrow> Peer result" where
  "targetMessage ia v m p =
    (if message_type m = XdndPosition ia \<and> xdndPositionReceived (xdndState p)
        \<and> l0 m \<noteq> otherWindow (xdndState p)
     then Inr p
     else bindR (if message_type m = XdndPosition ia then receiveXdndPosition ia v m p
                 else Inr p)
            (\<lambda>p1. let p2 = (if message_type m = XdndLeave ia then memset_xdndState p1 else p1)
                   in Inr (if message_type m = XdndDrop ia then receiveXdndDrop ia m p2
                           else p2)))"

definition unknownMessage :: "AtomTable \<Rightarrow> XClientMessageEvent \<Rightarrow> bool" where
  "unknownMessage ia m =
    (message_type m \<noteq> XdndEnter ia \<and> message_type m \<noteq> XdndPosition ia \<and>
     message_type m \<noteq> XdndLeave ia \<and> message_type m \<noteq> XdndStatus ia \<and>
     message_type m \<noteq> XdndDrop ia \<and> message_type m \<noteq> XdndFinished ia \<and>
     message_type m \<noteq> WM_PROTOCOLS ia)"

definition announceClientMessage ::
  "AtomTable \<Rightarrow> XView \<Rightarrow> XClientMessageEvent \<Rightarrow> unit result" where
  "announceClientMessage ia v m =
    (if unknownMessage ia m \<and> fault v ''XGetAtomName'' then Inl (XError ''XGetAtomName'')
     else Inr ())"

definition handleClientMessage ::
  "AtomTable \<Rightarrow> XView \<Rightarrow> XClientMessageEvent \<Rightarrow> Peer \<Rightarrow> Peer result" where
  "handleClientMessage ia v m p =
    (if message_type m = WM_PROTOCOLS ia \<and> l0 m = WM_DELETE_WINDOW ia
     then Inr (p\<lparr>continueEventLoop := False\<rparr>)
     else if \<not> started p
     then (if message_type m = XdndEnter ia then receiveXdndEnter ia v m p else Inr p)
     else if source p then sourceMessage ia v m p
     else targetMessage ia v m p)"

section \<open>The switch and the loop\<close>

fun handleEvent :: "AtomTable \<Rightarrow> XView \<Rightarrow> XEvent \<Rightarrow> Peer \<Rightarrow> Peer result" where
  "handleEvent ia v (SelectionRequest req) p = handleSelectionRequest ia v req p"
| "handleEvent ia v (SelectionNotify sel) p = handleSelectionNotify ia v sel p"
| "handleEvent ia v (MotionNotify ev) p = handleMotionNotify ia v ev p"
| "handleEvent ia v (KeyRelease keycode) p = Inr (handleKeyRelease keycode p)"
| "handleEvent ia v (ButtonPress bx by) p = Inr (handleButtonPress bx by p)"
| "handleEvent ia v ButtonRelease p = handleButtonRelease ia v p"
| "handleEvent ia v Expose p = Inr (drawSquare p)"
| "handleEvent ia v EnterNotify p = Inr (handleEnterNotify p)"
| "handleEvent ia v LeaveNotify p = Inr (handleLeaveNotify p)"
| "handleEvent ia v (ClientMessage m) p =
    bindR (announceClientMessage ia v m) (\<lambda>u. handleClientMessage ia v m p)"
| "handleEvent ia v (OtherEvent t) p = Inr p"

fun eventLoop :: "AtomTable \<Rightarrow> (XView \<times> XEvent) list \<Rightarrow> Peer \<Rightarrow> Peer result" where
  "eventLoop ia [] p = Inr p"
| "eventLoop ia ((v, e) # es) p =
    (if continueEventLoop p
     then (case handleEvent ia v e p of Inl err \<Rightarrow> Inl err | Inr q \<Rightarrow> eventLoop ia es q)
     else Inr p)"

end
