(* ===== verification/XdndInvariants.thy ===== *)
theory XdndInvariants
  imports StateMachine
begin

text \<open>
  Invariants of one process, kept by every handler of the event loop whatever events and
  environment it meets.

  \<^item> \<open>sm_inv\<close> relates the fields of \<^verbatim>\<open>xdndState\<close>: outside an exchange the struct is all
    zero; a source never holds any of the fields only the target writes; a target has
    sent its status exactly when it has received a position, and has accepted a drop only
    after a position.
  \<^item> \<open>square_inv\<close>: the square keeps its size of 50 and lies inside the 200 by 200 window.
  \<^item> \<open>role\<close> is the specification's role of a session, read off the two flags.
  \<^item> The frame lemmas say which fields a handler cannot change (\<open>wind\<close>);
    \<open>grows p q\<close> says that the log of \<open>q\<close> extends the log of \<open>p\<close>.
\<close>

section \<open>Definitions\<close>

datatype Role = NoRole | Source | Target

definition role :: "XDNDStateMachine \<Rightarrow> Role" where
  "role s = (if \<not> xdndExchangeStarted s then NoRole else if amISource s then Source else Target)"

definition sm_inv :: "XDNDStateMachine \<Rightarrow> bool" where
  "sm_inv s =
    ((\<not> xdndExchangeStarted s \<longrightarrow> s = xdndState_zero) \<and>
     (amISource s \<longrightarrow>
        xdndExchangeStarted s \<and> \<not> xdndPositionReceived s \<and> \<not> xdndStatusSent s \<and>
        \<not> xdndDropReceived s \<and> xdndDropTimestamp s = 0 \<and>
        xdndLastPositionTimestamp s = 0 \<and> p_rootX s = 0 \<and> p_rootY s = 0 \<and>
        proposedAction s = XNone \<and> proposedType s = XNone \<and> otherWindow s \<noteq> XNone) \<and>
     (xdndExchangeStarted s \<and> \<not> amISource s \<longrightarrow>
        \<not> xdndStatusReceived s \<and> xdndStatusSent s = xdndPositionReceived s \<and>
        (xdndDropReceived s \<longrightarrow> xdndPositionReceived s)))"

definition square_inv :: "Square \<Rightarrow> bool" where
  "square_inv sq =
    (0 \<le> square_x sq \<and> square_x sq \<le> 150 \<and> 0 \<le> square_y sq \<and> square_y sq \<le> 150 \<and>
     square_size sq = 50)"

definition peer_inv :: "Peer \<Rightarrow> bool" where
  "peer_inv p = (sm_inv (xdndState p) \<and> square_inv (square p))"

definition grows :: "Peer \<Rightarrow> Peer \<Rightarrow> bool" where
  "grows p q = (\<exists>rs. out q = out p @ rs)"

section \<open>The announcement of a client message\<close>

lemma announceClientMessage_known [simp]:
  "message_type m = XdndEnter ia \<Longrightarrow> announceClientMessage ia v m = Inr ()"
  "message_type m = XdndPosition ia \<Longrightarrow> announceClientMessage ia v m = Inr ()"
  "message_type m = XdndLeave ia \<Longrightarrow> announceClientMessage ia v m = Inr ()"
  "message_type m = XdndStatus ia \<Longrightarrow> announceClientMessage ia v m = Inr ()"
  "message_type m = XdndDrop ia \<Longrightarrow> announceClientMessage ia v m = Inr ()"
  "message_type m = XdndFinished ia \<Longrightarrow> announceClientMessage ia v m = Inr ()"
  "message_type m = WM_PROTOCOLS ia \<Longrightarrow> announceClientMessage ia v m = Inr ()"
  by (simp_all add: announceClientMessage_def unknownMessage_def)

lemma announceClientMessage_no_fault [simp]:
  "\<not> fault v ''XGetAtomName'' \<Longrightarrow> announceClientMessage ia v m = Inr ()"
  by (simp add: announceClientMessage_def)

lemma announceClientMessage_bind [simp]:
  "bindR (announceClientMessage ia v m) f = Inr q \<longleftrightarrow>
     announceClientMessage ia v m = Inr () \<and> f () = Inr q"
  by (auto simp: bindR_eq_Inr_iff)

section \<open>The builders do not touch the state\<close>

lemma send_frame [xdnd_frame]:
  "sendXdndEnter ia v ver s t p = Inr q \<Longrightarrow> xdndState q = xdndState p \<and> square q = square p"
  "sendXdndPosition ia v s t tm px py p = Inr q \<Longrightarrow>
     xdndState q = xdndState p \<and> square q = square p"
  "sendXdndLeave ia v s t p = Inr q \<Longrightarrow> xdndState q = xdndState p \<and> square q = square p"
  "sendXdndFinished ia v s t p = Inr q \<Longrightarrow> xdndState q = xdndState p \<and> square q = square p"
  "sendXdndStatus ia v s t a p = Inr q \<Longrightarrow> xdndState q = xdndState p \<and> square q = square p"
  "sendXdndDrop ia v s t p = Inr q \<Longrightarrow> xdndState q = xdndState p \<and> square q = square p"
  "sendSelectionNotify ia v req path p = Inr q \<Longrightarrow>
     xdndState q = xdndState p \<and> square q = square p"
  by (auto dest!: send_only_out sendSelectionNotify_only_out simp: only_out_def)

lemma drawSquare_simps [simp]:
  "xdndState (drawSquare p) = xdndState p" "square (drawSquare p) = square p"
  "wind (drawSquare p) = wind p" "files (drawSquare p) = files p"
  "clickedStillInWindow (drawSquare p) = clickedStillInWindow p"
  "continueEventLoop (drawSquare p) = continueEventLoop p"
  by (simp_all add: drawSquare_def)

lemma out_drawSquare:
  "out (drawSquare p) = out p @ XClearWindow (wind p) #
     (if visible (square p)
      then [XFillRectangle (wind p) (square_x (square p)) (square_y (square p))
              (square_size (square p)) (square_size (square p)), XFlush]
      else [XFlush])"
  by (simp add: drawSquare_def)

section \<open>The square\<close>

lemma clampSquare_min_max:
  "clampSquare sq = sq\<lparr>square_x := min 150 (max 0 (square_x sq)),
                        square_y := min 150 (max 0 (square_y sq))\<rparr>"
  by (cases sq) (auto simp: clampSquare_def Let_def)

lemma clampSquare_fields [simp]:
  "square_size (clampSquare sq) = square_size sq" "visible (clampSquare sq) = visible sq"
  "selected (clampSquare sq) = selected sq" "colour (clampSquare sq) = colour sq"
  "mouse_x (clampSquare sq) = mouse_x sq" "mouse_y (clampSquare sq) = mouse_y sq"
  by (simp_all add: clampSquare_min_max)

lemma clampSquare_range:
  "0 \<le> square_x (clampSquare sq) \<and> square_x (clampSquare sq) \<le> 150 \<and>
   0 \<le> square_y (clampSquare sq) \<and> square_y (clampSquare sq) \<le> 150"
  by (simp add: clampSquare_min_max)

lemma square_inv_clampSquare: "square_size sq = 50 \<Longrightarrow> square_inv (clampSquare sq)"
  using clampSquare_range [of sq] by (simp add: square_inv_def)

lemma clampSquare_id: "square_inv sq \<Longrightarrow> clampSquare sq = sq"
  by (simp add: clampSquare_min_max square_inv_def)

lemma square_inv_dragSquare: "square_inv sq \<Longrightarrow> square_inv (dragSquare ev sq)"
  using clampSquare_range
  by (simp add: dragSquare_def square_inv_def)

lemma square_inv_placeSquare: "square_inv sq \<Longrightarrow> square_inv (placeSquare v sq)"
  using clampSquare_range
  by (simp add: placeSquare_def square_inv_def)

lemma square_inv_update [simp]:
  "square_inv (sq\<lparr>visible := b\<rparr>) = square_inv sq"
  "square_inv (sq\<lparr>selected := b\<rparr>) = square_inv sq"
  "square_inv (sq\<lparr>colour := c\<rparr>) = square_inv sq"
  "square_inv (sq\<lparr>mouse_x := i\<rparr>) = square_inv sq"
  "square_inv (sq\<lparr>mouse_y := i\<rparr>) = square_inv sq"
  by (simp_all add: square_inv_def)

section \<open>The state machine record\<close>

lemma sm_inv_zero [simp]: "sm_inv xdndState_zero"
  by (simp add: sm_inv_def)

lemma role_zero [simp]: "role xdndState_zero = NoRole"
  by (simp add: role_def)

lemma role_simps:
  "role s = NoRole \<longleftrightarrow> \<not> xdndExchangeStarted s"
  "role s = Source \<longleftrightarrow> xdndExchangeStarted s \<and> amISource s"
  "role s = Target \<longleftrightarrow> xdndExchangeStarted s \<and> \<not> amISource s"
  by (simp_all add: role_def)

lemma sm_inv_idle: "sm_inv s \<Longrightarrow> \<not> xdndExchangeStarted s \<Longrightarrow> s = xdndState_zero"
  by (simp add: sm_inv_def)

lemma sm_inv_source_timestamp:
  "sm_inv s \<Longrightarrow> amISource s \<Longrightarrow> xdndLastPositionTimestamp s = 0"
  by (simp add: sm_inv_def)

lemma sm_inv_source_started: "sm_inv s \<Longrightarrow> amISource s \<Longrightarrow> xdndExchangeStarted s"
  by (simp add: sm_inv_def)

lemma sm_inv_engage:
  assumes "sm_inv s" and "\<not> xdndExchangeStarted s" and "w \<noteq> XNone"
  shows "sm_inv (s\<lparr>xdndExchangeStarted := True, amISource := True, otherWindow := w\<rparr>)"
  using assms by (simp add: sm_inv_def xdndState_zero_def)

lemma sm_inv_enter:
  assumes "sm_inv s" and "\<not> xdndExchangeStarted s"
  shows "sm_inv (s\<lparr>xdndExchangeStarted := True, amISource := False, otherWindow := w,
            proposedType := ty\<rparr>)"
  using assms by (simp add: sm_inv_def xdndState_zero_def)

lemma sm_inv_status:
  assumes "sm_inv s" and "xdndExchangeStarted s" and "amISource s"
  shows "sm_inv (s\<lparr>xdndStatusReceived := True\<rparr>)"
  using assms by (simp add: sm_inv_def)

lemma sm_inv_position:
  assumes "sm_inv s" and "xdndExchangeStarted s" and "\<not> amISource s"
  shows "sm_inv (s\<lparr>xdndPositionReceived := True, p_rootX := px, p_rootY := py,
            proposedAction := a, xdndLastPositionTimestamp := t, xdndStatusSent := True\<rparr>)"
    and "xdndStatusSent s \<Longrightarrow>
         sm_inv (s\<lparr>xdndPositionReceived := True, p_rootX := px, p_rootY := py,
            proposedAction := a, xdndLastPositionTimestamp := t\<rparr>)"
  using assms by (simp_all add: sm_inv_def)

lemma sm_inv_drop:
  assumes "sm_inv s" and "xdndExchangeStarted s" and "\<not> amISource s"
    and "xdndPositionReceived s"
  shows "sm_inv (s\<lparr>xdndDropReceived := True, xdndDropTimestamp := t\<rparr>)"
  using assms by (simp add: sm_inv_def)

section \<open>Every handler keeps the invariant of the state machine\<close>

lemma sm_inv_receiveXdndEnter:
  assumes "receiveXdndEnter ia v m p = Inr q" and "sm_inv (xdndState p)" and "\<not> started p"
  shows "sm_inv (xdndState q)"
  using assms by (auto simp: receiveXdndEnter_def bindR_eq_Inr_iff intro: sm_inv_enter)

lemma sm_inv_sourceMessage:
  assumes "sourceMessage ia v m p = Inr q" and "sm_inv (xdndState p)"
    and "started p" and "source p"
  shows "sm_inv (xdndState q)"
  using assms
  by (auto simp: sourceMessage_def bindR_eq_Inr_iff Let_def sm_inv_status
      split: if_splits dest!: send_frame(3))

lemma sm_inv_receiveXdndPosition:
  assumes "receiveXdndPosition ia v m p = Inr q" and "sm_inv (xdndState p)"
    and "started p" and "\<not> source p"
  shows "sm_inv (xdndState q)"
  using assms sm_inv_position [of "xdndState p"]
  by (auto simp: receiveXdndPosition_def Let_def split: if_splits dest!: send_frame(5))

lemma receiveXdndPosition_role:
  assumes "receiveXdndPosition ia v m p = Inr q"
  shows "started q = started p" and "source q = source p"
  using assms
  by (auto simp: receiveXdndPosition_def Let_def split: if_splits dest!: send_frame(5))

lemma sm_inv_receiveXdndDrop:
  assumes "sm_inv (xdndState p)" and "\<not> source p"
  shows "sm_inv (xdndState (receiveXdndDrop ia m p))"
proof (cases "started p")
  case True
  with assms show ?thesis
    by (auto simp: receiveXdndDrop_def Let_def sm_inv_drop)
next
  case False
  with assms(1) have "xdndState p = xdndState_zero"
    by (rule sm_inv_idle)
  then show ?thesis
    by (simp add: receiveXdndDrop_def)
qed

end
