(* ===== verification/HandlerInvariants.thy ===== *)
theory HandlerInvariants
  imports XdndInvariants
begin

text \<open>
  Every handler of \<^verbatim>\<open>src/spawn_window.c\<close> keeps the invariants of \<open>XdndInvariants\<close>.

  \<^item> For each handler with nested control flow there is a lemma \<open>..._Inr_iff\<close> that says
    when it returns normally and with which state; the invariant lemmas are case
    analyses over it.
  \<^item> \<open>sm_inv_handleEvent\<close> and \<open>square_inv_handleEvent\<close> are the summary for one event,
    \<open>peer_inv_eventLoop\<close> for a whole run of the loop; \<open>eventLoop_induct_inv\<close> is the
    induction they share.
  \<^item> No handler changes \<open>wind\<close> (\<open>wind_handleEvent\<close>), and no handler removes a request
    from the log (\<open>grows_handleEvent\<close>, \<open>grows_eventLoop\<close>).
  \<^item> The client message handlers return normally when \<^verbatim>\<open>XSendEvent\<close> does not fail and
    no type list is read (\<open>handleClientMessage_total\<close>).
\<close>

section \<open>Client messages\<close>

lemma targetMessage_Inr_iff:
  "targetMessage ia v m p = Inr q \<longleftrightarrow>
    (if message_type m = XdndPosition ia \<and> xdndPositionReceived (xdndState p)
        \<and> l0 m \<noteq> otherWindow (xdndState p)
     then q = p
     else \<exists>p1. (if message_type m = XdndPosition ia then receiveXdndPosition ia v m p
                 else Inr p) = Inr p1 \<and>
            q = (if message_type m = XdndDrop ia
                 then receiveXdndDrop ia m
                        (if message_type m = XdndLeave ia then memset_xdndState p1 else p1)
                 else if message_type m = XdndLeave ia then memset_xdndState p1 else p1))"
  by (auto simp: targetMessage_def bindR_eq_Inr_iff Let_def)

lemma sm_inv_targetMessage:
  assumes "targetMessage ia v m p = Inr q" and "sm_inv (xdndState p)"
    and "started p" and "\<not> source p"
  shows "sm_inv (xdndState q)"
proof (cases "message_type m = XdndPosition ia \<and> xdndPositionReceived (xdndState p)
    \<and> l0 m \<noteq> otherWindow (xdndState p)")
  case True
  with assms show ?thesis by (simp add: targetMessage_Inr_iff)
next
  case False
  with assms(1) obtain p1 where
    p1: "(if message_type m = XdndPosition ia then receiveXdndPosition ia v m p else Inr p)
      = Inr p1"
    and q: "q = (if message_type m = XdndDrop ia
                 then receiveXdndDrop ia m
                        (if message_type m = XdndLeave ia then memset_xdndState p1 else p1)
                 else if message_type m = XdndLeave ia then memset_xdndState p1 else p1)"
    by (auto simp: targetMessage_Inr_iff)
  from p1 assms(2-4) have inv1: "sm_inv (xdndState p1)" and tgt1: "\<not> source p1"
    by (auto split: if_splits dest: sm_inv_receiveXdndPosition receiveXdndPosition_role)
  then show ?thesis
    unfolding q by (auto intro!: sm_inv_receiveXdndDrop)
qed

lemma sm_inv_handleClientMessage:
  assumes "handleClientMessage ia v m p = Inr q" and "sm_inv (xdndState p)"
  shows "sm_inv (xdndState q)"
  using assms
  by (auto simp: handleClientMessage_def split: if_splits
      dest: sm_inv_receiveXdndEnter sm_inv_sourceMessage sm_inv_targetMessage)

lemma leaveOldTarget_cases:
  assumes "leaveOldTarget ia v w p = Inr q"
  shows "(xdndState q = xdndState_zero \<or> xdndState q = xdndState p)
     \<and> (started q \<longrightarrow> otherWindow (xdndState q) = w)
     \<and> square q = square p \<and> wind q = wind p
     \<and> clickedStillInWindow q = clickedStillInWindow p"
  using assms
  by (auto simp: leaveOldTarget_def bindR_eq_Inr_iff only_out_def split: if_splits
      dest!: send_only_out(3))

lemma sm_inv_engageTarget:
  assumes "engageTarget ia v ev w p = Inr (Some q)" and "sm_inv (xdndState p)"
    and "w \<noteq> XNone"
  shows "sm_inv (xdndState q)"
  using assms
  by (auto simp: engageTarget_def bindR_eq_Inr_iff Let_def sm_inv_engage
      split: if_splits dest!: send_frame(1))

lemma positionUpdate_frame:
  assumes "positionUpdate ia v ev w p = Inr q"
  shows "xdndState q = xdndState p" and "square q = square p" and "wind q = wind p"
  using assms
  by (auto simp: positionUpdate_def only_out_def split: if_splits dest!: send_only_out(2))

lemma handleMotionNotify_Inr_iff:
  "handleMotionNotify ia v ev p = Inr q \<longleftrightarrow>
    (if \<not> selected (square p) then q = drawSquare p
     else if clickedStillInWindow p then q = drawSquare (p\<lparr>square := dragSquare ev (square p)\<rparr>)
     else if getWindowPointerIsOver (tree v) (x_root ev) (y_root ev) 0 0 = XNone
       then q = p\<lparr>square := dragSquare ev (square p)\<rparr>
     else \<exists>p2. leaveOldTarget ia v (getWindowPointerIsOver (tree v) (x_root ev) (y_root ev) 0 0)
                   (p\<lparr>square := dragSquare ev (square p)\<rparr>) = Inr p2 \<and>
            (engageTarget ia v ev (getWindowPointerIsOver (tree v) (x_root ev) (y_root ev) 0 0) p2
               = Inr None \<and> q = p2 \<or>
             (\<exists>p3 p4. engageTarget ia v ev
                 (getWindowPointerIsOver (tree v) (x_root ev) (y_root ev) 0 0) p2 = Inr (Some p3) \<and>
               positionUpdate ia v ev
                 (getWindowPointerIsOver (tree v) (x_root ev) (y_root ev) 0 0) p3 = Inr p4 \<and>
               q = drawSquare p4)))"
  by (auto simp: handleMotionNotify_def bindR_eq_Inr_iff Let_def ex_option_conv)

lemma sm_inv_handleMotionNotify:
  assumes "handleMotionNotify ia v ev p = Inr q" and "sm_inv (xdndState p)"
  shows "sm_inv (xdndState q)"
proof -
  define w where "w = getWindowPointerIsOver (tree v) (x_root ev) (y_root ev) 0 0"
  define p1 where "p1 = p\<lparr>square := dragSquare ev (square p)\<rparr>"
  have inv1: "sm_inv (xdndState p1)"
    using assms(2) by (simp add: p1_def)
  show ?thesis
  proof (cases "selected (square p) \<and> \<not> clickedStillInWindow p \<and> w \<noteq> XNone")
    case False
    with assms show ?thesis
      by (auto simp: handleMotionNotify_Inr_iff w_def split: if_splits)
  next
    case True
    with assms(1) obtain p2 where
      l: "leaveOldTarget ia v w p1 = Inr p2"
      and r: "engageTarget ia v ev w p2 = Inr None \<and> q = p2 \<or>
          (\<exists>p3 p4. engageTarget ia v ev w p2 = Inr (Some p3) \<and>
             positionUpdate ia v ev w p3 = Inr p4 \<and> q = drawSquare p4)"
      unfolding handleMotionNotify_Inr_iff w_def p1_def by auto
    from l inv1 have inv2: "sm_inv (xdndState p2)"
      by (auto dest!: leaveOldTarget_cases)
    from r show ?thesis
    proof (elim disjE conjE exE)
      assume "engageTarget ia v ev w p2 = Inr None" "q = p2"
      with inv2 show ?thesis by simp
    next
      fix p3 p4
      assume e: "engageTarget ia v ev w p2 = Inr (Some p3)"
        and p4: "positionUpdate ia v ev w p3 = Inr p4" and q: "q = drawSquare p4"
      from e True inv2 have "sm_inv (xdndState p3)"
        by (auto dest: sm_inv_engageTarget)
      with p4 q show ?thesis
        by (auto dest: positionUpdate_frame)
    qed
  qed
qed

lemma handleSelectionRequest_frame:
  assumes "handleSelectionRequest ia v req p = Inr q"
  shows "xdndState q = xdndState p" and "square q = square p" and "wind q = wind p"
  using assms
  by (auto simp: handleSelectionRequest_def bindR_eq_Inr_iff only_out_def split: if_splits
      dest!: sendSelectionNotify_only_out)

lemma handleSelectionNotify_Inr_iff:
  "handleSelectionNotify ia v sel p = Inr q \<longleftrightarrow>
    (if property sel \<noteq> XDND_DATA ia then q = p
     else \<exists>path sq p3.
       getCopiedData ia v (wind p) = Inr (Some path) \<and>
       restoreSquareState (fault v) (files p) path (square p) = Inr sq \<and>
       sendXdndFinished ia v (wind p) (otherWindow (xdndState p))
         ((emit (XSetForeground (foreground (sq\<lparr>visible := True\<rparr>)))
            (emit (XDeleteProperty (wind p) (XDND_DATA ia)) p))
          \<lparr>square := placeSquare v (sq\<lparr>visible := True\<rparr>)\<rparr>) = Inr p3 \<and>
       q = drawSquare (memset_xdndState p3))"
  by (auto simp: handleSelectionNotify_def bindR_eq_Inr_iff Let_def split: option.splits)

lemma handleSelectionNotify_cases:
  assumes "handleSelectionNotify ia v sel p = Inr q"
  shows "q = p \<and> property sel \<noteq> XDND_DATA ia \<or>
     property sel = XDND_DATA ia \<and> xdndState q = xdndState_zero \<and> wind q = wind p \<and>
     (\<exists>c. square q = placeSquare v ((square p)\<lparr>colour := c, visible := True\<rparr>))"
proof (cases "property sel = XDND_DATA ia")
  case False
  with assms show ?thesis by (simp add: handleSelectionNotify_Inr_iff)
next
  case True
  with assms obtain path sq p3 where
    sq: "restoreSquareState (fault v) (files p) path (square p) = Inr sq"
    and p3: "sendXdndFinished ia v (wind p) (otherWindow (xdndState p))
         ((emit (XSetForeground (foreground (sq\<lparr>visible := True\<rparr>)))
            (emit (XDeleteProperty (wind p) (XDND_DATA ia)) p))
          \<lparr>square := placeSquare v (sq\<lparr>visible := True\<rparr>)\<rparr>) = Inr p3"
    and q: "q = drawSquare (memset_xdndState p3)"
    by (auto simp: handleSelectionNotify_Inr_iff)
  from sq obtain c where "sq = (square p)\<lparr>colour := c\<rparr>"
    by (auto simp: restoreSquareState_Inr_iff)
  moreover from p3 have "square p3 = placeSquare v (sq\<lparr>visible := True\<rparr>)" "wind p3 = wind p"
    by (auto dest!: send_only_out(4) simp: only_out_def)
  ultimately show ?thesis
    using True q by auto
qed

lemma dropIfAccepted_only_out: "dropIfAccepted ia v p = Inr q \<Longrightarrow> only_out p q"
  by (auto simp: dropIfAccepted_def split: if_splits dest: send_only_out(6))

lemma releaseSquare_simps [simp]:
  "xdndState (releaseSquare p) = xdndState p" "wind (releaseSquare p) = wind p"
  "files (releaseSquare p) = files p"
  "clickedStillInWindow (releaseSquare p) = clickedStillInWindow p"
  "continueEventLoop (releaseSquare p) = continueEventLoop p"
  by (simp_all add: releaseSquare_def Let_def)

lemma square_releaseSquare [simp]: "square (releaseSquare p) = (square p)\<lparr>selected := False\<rparr>"
  by (cases "square p") (simp add: releaseSquare_def Let_def)

lemma handleButtonRelease_frame:
  assumes "handleButtonRelease ia v p = Inr q"
  shows "xdndState q = xdndState p" and "wind q = wind p"
    and "square q = (square p)\<lparr>selected := False\<rparr>"
  using assms
  by (auto simp: handleButtonRelease_def bindR_eq_Inr_iff only_out_def
      dest!: dropIfAccepted_only_out)


lemma handleKeyRelease_frame [simp]:
  "xdndState (handleKeyRelease k p) = xdndState p" "wind (handleKeyRelease k p) = wind p"
  by (simp_all add: handleKeyRelease_def Let_def)

lemma handleButtonPress_frame [simp]:
  "xdndState (handleButtonPress bx by p) = xdndState p"
  "wind (handleButtonPress bx by p) = wind p"
  by (simp_all add: handleButtonPress_def)

lemma handleEnterLeave_frame [simp]:
  "xdndState (handleEnterNotify p) = xdndState p" "square (handleEnterNotify p) = square p"
  "xdndState (handleLeaveNotify p) = xdndState p" "square (handleLeaveNotify p) = square p"
  "wind (handleEnterNotify p) = wind p" "wind (handleLeaveNotify p) = wind p"
  by (simp_all add: handleEnterNotify_def handleLeaveNotify_def)

section \<open>One event\<close>

lemma sm_inv_handleEvent:
  assumes "handleEvent ia v e p = Inr q" and "sm_inv (xdndState p)"
  shows "sm_inv (xdndState q)"
proof (cases e)
  case (SelectionRequest req)
  with assms show ?thesis by (auto dest: handleSelectionRequest_frame)
next
  case (SelectionNotify sel)
  with assms show ?thesis by (auto dest!: handleSelectionNotify_cases)
next
  case (MotionNotify ev)
  with assms show ?thesis by (auto dest: sm_inv_handleMotionNotify)
next
  case ButtonRelease
  with assms show ?thesis by (auto dest: handleButtonRelease_frame)
next
  case (ClientMessage m)
  with assms show ?thesis by (auto dest: sm_inv_handleClientMessage)
qed (use assms in auto)

section \<open>The square and the window\<close>

lemma positionUpdate_only_out: "positionUpdate ia v ev w p = Inr q \<Longrightarrow> only_out p q"
  by (auto simp: positionUpdate_def split: if_splits dest: send_only_out(2))

lemma engageTarget_frame:
  assumes "engageTarget ia v ev w p = Inr (Some q)"
  shows "square q = square p \<and> wind q = wind p"
  using assms
  by (auto simp: engageTarget_def bindR_eq_Inr_iff Let_def only_out_def
      split: if_splits dest!: send_only_out(1))

lemma handleMotionNotify_frame:
  assumes "handleMotionNotify ia v ev p = Inr q"
  shows "square q = (if selected (square p) then dragSquare ev (square p) else square p)"
    and "wind q = wind p"
  using assms
  by (auto simp: handleMotionNotify_Inr_iff only_out_def split: if_splits
      dest!: leaveOldTarget_cases engageTarget_frame positionUpdate_only_out)

lemma receiveXdndPosition_frame:
  assumes "receiveXdndPosition ia v m p = Inr q"
  shows "square q = square p \<and> wind q = wind p"
  using assms
  by (auto simp: receiveXdndPosition_def Let_def only_out_def split: if_splits
      dest!: send_only_out(5))

lemma receiveXdndDrop_frame [simp]:
  "square (receiveXdndDrop ia m p) = square p" "wind (receiveXdndDrop ia m p) = wind p"
  by (simp_all add: receiveXdndDrop_def Let_def)

lemma handleClientMessage_frame:
  assumes "handleClientMessage ia v m p = Inr q"
  shows "square q = square p \<or> square q = (square p)\<lparr>visible := False\<rparr>"
    and "wind q = wind p"
  using assms
  by (auto simp: handleClientMessage_def receiveXdndEnter_def sourceMessage_def
      targetMessage_Inr_iff bindR_eq_Inr_iff Let_def only_out_def
      split: if_splits dest!: send_only_out(3) receiveXdndPosition_frame)

lemma wind_handleEvent:
  assumes "handleEvent ia v e p = Inr q"
  shows "wind q = wind p"
proof (cases e)
  case (SelectionNotify sel)
  with assms show ?thesis by (auto dest!: handleSelectionNotify_cases)
qed (use assms in \<open>auto dest: handleSelectionRequest_frame handleMotionNotify_frame
    handleButtonRelease_frame handleClientMessage_frame\<close>)

lemma square_inv_handleEvent:
  assumes "handleEvent ia v e p = Inr q" and "square_inv (square p)"
  shows "square_inv (square q)"
proof (cases e)
  case (SelectionNotify sel)
  with assms show ?thesis
    by (auto dest!: handleSelectionNotify_cases intro!: square_inv_placeSquare)
next
  case (MotionNotify ev)
  with assms show ?thesis
    by (auto dest!: handleMotionNotify_frame(1) simp: square_inv_dragSquare)
next
  case (KeyRelease k)
  with assms show ?thesis by (auto simp: handleKeyRelease_def Let_def)
next
  case (ButtonPress x y)
  with assms show ?thesis by (auto simp: handleButtonPress_def)
next
  case (ClientMessage m)
  with assms show ?thesis by (auto dest!: handleClientMessage_frame(1))
qed (use assms in \<open>auto dest: handleSelectionRequest_frame handleButtonRelease_frame\<close>)

lemma peer_inv_handleEvent:
  assumes "handleEvent ia v e p = Inr q" and "peer_inv p"
  shows "peer_inv q"
  using assms by (auto simp: peer_inv_def dest: sm_inv_handleEvent square_inv_handleEvent)

section \<open>The loop\<close>

lemma eventLoop_induct_inv:
  assumes "eventLoop ia es p = Inr q" and "P p"
    and step: "\<And>v e p q. P p \<Longrightarrow> continueEventLoop p \<Longrightarrow> handleEvent ia v e p = Inr q \<Longrightarrow> P q"
  shows "P q"
  using assms(1,2)
proof (induction es arbitrary: p)
  case Nil
  then show ?case by simp
next
  case (Cons ve es)
  obtain v e where ve: "ve = (v, e)" by (cases ve)
  show ?case
  proof (cases "continueEventLoop p")
    case False
    with Cons.prems ve show ?thesis by simp
  next
    case True
    with Cons.prems ve obtain p' where h: "handleEvent ia v e p = Inr p'"
      and l: "eventLoop ia es p' = Inr q"
      by (auto split: sum.splits)
    from step [OF Cons.prems(2) True h] l show ?thesis
      by (rule Cons.IH [rotated])
  qed
qed

lemma peer_inv_eventLoop:
  assumes "eventLoop ia es p = Inr q" and "peer_inv p"
  shows "peer_inv q"
  using assms by (rule eventLoop_induct_inv) (rule peer_inv_handleEvent)

lemma wind_eventLoop:
  assumes "eventLoop ia es p = Inr q"
  shows "wind q = wind p"
  using assms by (rule eventLoop_induct_inv [where P = "\<lambda>r. wind r = wind p"])
    (auto dest: wind_handleEvent)

lemma eventLoop_stopped: "\<not> continueEventLoop p \<Longrightarrow> eventLoop ia es p = Inr p"
  by (cases es) auto

section \<open>The log only grows\<close>

lemma grows_refl [simp]: "grows p p"
  by (simp add: grows_def)

lemma grows_trans: "grows p q \<Longrightarrow> grows q r \<Longrightarrow> grows p r"
  by (auto simp: grows_def)

lemma grows_only_out: "only_out p q \<Longrightarrow> grows p q"
  by (auto simp: grows_def only_out_def)

lemma grows_same [simp]: "out q = out p \<Longrightarrow> grows p q"
  by (simp add: grows_def)

lemma grows_emit [simp]: "grows p q \<Longrightarrow> grows p (emit r q)"
  by (auto simp: grows_def)

lemma grows_releaseSquare [simp]: "grows p q \<Longrightarrow> grows p (releaseSquare q)"
  by (auto simp: grows_def releaseSquare_def Let_def out_drawSquare)

lemma grows_drawSquare [simp]: "grows p q \<Longrightarrow> grows p (drawSquare q)"
  by (auto simp: grows_def out_drawSquare)

lemma grows_memset [simp]: "grows p q \<Longrightarrow> grows p (memset_xdndState q)"
  by (simp add: grows_def)

lemma grows_handleSelectionRequest:
  "handleSelectionRequest ia v req p = Inr q \<Longrightarrow> grows p q"
  by (auto simp: handleSelectionRequest_def bindR_eq_Inr_iff only_out_def grows_def
      split: if_splits dest!: sendSelectionNotify_only_out)

lemma grows_handleSelectionNotify:
  "handleSelectionNotify ia v sel p = Inr q \<Longrightarrow> grows p q"
  by (auto simp: handleSelectionNotify_Inr_iff only_out_def grows_def out_drawSquare
      split: if_splits dest!: send_only_out(4))

lemma grows_leaveOldTarget: "leaveOldTarget ia v w p = Inr q \<Longrightarrow> grows p q"
  by (auto simp: leaveOldTarget_def bindR_eq_Inr_iff only_out_def grows_def
      split: if_splits dest!: send_only_out(3))

lemma grows_engageTarget: "engageTarget ia v ev w p = Inr (Some q) \<Longrightarrow> grows p q"
  by (auto simp: engageTarget_def bindR_eq_Inr_iff Let_def only_out_def grows_def
      split: if_splits dest!: send_only_out(1))

lemma grows_handleMotionNotify:
  assumes "handleMotionNotify ia v ev p = Inr q"
  shows "grows p q"
proof -
  have sq: "grows p (p\<lparr>square := s\<rparr>)" for s
    by (simp add: grows_def)
  from assms show ?thesis
    by (auto simp: handleMotionNotify_Inr_iff split: if_splits
        dest!: grows_leaveOldTarget grows_engageTarget positionUpdate_only_out
        intro: grows_trans [OF sq] grows_trans grows_only_out grows_drawSquare)
qed

lemma grows_handleClientMessage:
  "handleClientMessage ia v m p = Inr q \<Longrightarrow> grows p q"
  by (auto simp: handleClientMessage_def receiveXdndEnter_def sourceMessage_def
      targetMessage_Inr_iff receiveXdndPosition_def receiveXdndDrop_def bindR_eq_Inr_iff
      Let_def only_out_def grows_def out_drawSquare
      split: if_splits dest!: send_only_out(3,5))

lemma grows_handleEvent:
  assumes "handleEvent ia v e p = Inr q"
  shows "grows p q"
proof (cases e)
  case (KeyRelease k)
  with assms show ?thesis
    by (auto simp: handleKeyRelease_def Let_def grows_def out_drawSquare)
next
  case (ButtonPress x y)
  with assms show ?thesis
    by (auto simp: handleButtonPress_def grows_def out_drawSquare)
next
  case ButtonRelease
  with assms show ?thesis
    by (auto simp: handleButtonRelease_def bindR_eq_Inr_iff
        dest!: dropIfAccepted_only_out grows_only_out)
qed (use assms in \<open>auto simp: handleEnterNotify_def handleLeaveNotify_def
    dest: grows_handleSelectionRequest grows_handleSelectionNotify grows_handleMotionNotify
      grows_handleClientMessage\<close>)

lemma grows_eventLoop:
  assumes "eventLoop ia es p = Inr q"
  shows "grows p q"
  using assms
  by (rule eventLoop_induct_inv [where P = "grows p"])
    (auto dest: grows_handleEvent intro: grows_trans)

section \<open>Without failing calls the handlers return\<close>

lemma receiveXdndPosition_total:
  "\<not> fault v ''XSendEvent'' \<Longrightarrow> \<exists>q. receiveXdndPosition ia v m p = Inr q"
  by (simp add: receiveXdndPosition_def sendXdndStatus_def Let_def)

lemma targetMessage_total:
  assumes "\<not> fault v ''XSendEvent''"
  shows "\<exists>q. targetMessage ia v m p = Inr q"
proof -
  from receiveXdndPosition_total [OF assms] obtain p1
    where "receiveXdndPosition ia v m p = Inr p1" by blast
  then show ?thesis
    by (simp add: targetMessage_def Let_def)
qed

lemma sourceMessage_total:
  "\<not> fault v ''XSendEvent'' \<Longrightarrow> \<exists>q. sourceMessage ia v m p = Inr q"
  by (simp add: sourceMessage_def sendXdndLeave_def Let_def)

lemma handleClientMessage_total:
  assumes "\<not> fault v ''XSendEvent''" and "l1 m AND 1 = 0"
  shows "\<exists>q. handleClientMessage ia v m p = Inr q"
  using assms sourceMessage_total [OF assms(1), of ia m p]
    targetMessage_total [OF assms(1), of ia m p]
  by (simp add: handleClientMessage_def receiveXdndEnter_def proposeType_def)

end
