(* ===== verification/SpawnWindow.thy ===== *)
theory SpawnWindow
  imports HandlerInvariants XServer
begin

text \<open>
  \<^verbatim>\<open>spawnWindow\<close> as a whole (\<^verbatim>\<open>src/spawn_window.c\<close>, lines 429-856) and \<^verbatim>\<open>main\<close>
  (\<^verbatim>\<open>src/main.c\<close>).

  \<^item> \<open>spawnSetup\<close> is the code before the loop: the initial square, the window at
    \<open>procId * 200\<close>, the \<^verbatim>\<open>XdndAware\<close> property, and one exit through \<^verbatim>\<open>philError\<close>
    per checked call. The window id and the white pixel are what the server returns.
    The position is the \<^verbatim>\<open>int\<close> the code passes to \<^verbatim>\<open>XCreateSimpleWindow\<close>; Xlib sends
    its low sixteen bits.
  \<^item> \<open>teardown\<close> is the code after the loop; \<open>spawnWindow\<close> composes the three. The events
    are a finite prefix of what the server delivers; \<open>teardown\<close> runs when the loop has
    ended by \<^verbatim>\<open>continueEventLoop = false\<close>.
  \<^item> \<open>main\<close> takes what \<^verbatim>\<open>fork\<close> returned in the parent and gives the \<^verbatim>\<open>procId\<close> each of
    the two processes passes to \<^verbatim>\<open>spawnWindow\<close>: the child 0, the parent the child's pid.
    \<^verbatim>\<open>spawnWindow\<close> ends in \<^verbatim>\<open>exit\<close>, so the fall-through of the \<^verbatim>\<open>switch\<close> is never taken.
  \<^item> \<open>reachable\<close> are the states of a process after setup and any number of events, and
    the invariants hold in all of them.
\<close>

section \<open>Setup and teardown\<close>

definition initialSquare :: Square where
  "initialSquare =
    \<lparr>square_x = 0, square_y = 0, mouse_x = 0, mouse_y = 0, square_size = 50,
     visible = False, selected = False, colour = RedSquare\<rparr>"

definition procStr :: "int \<Rightarrow> string" where
  "procStr procId = (if procId = 0 then ''Phil'' else ''Stuart'')"

definition setupRequests :: "AtomTable \<Rightarrow> int \<Rightarrow> Window \<Rightarrow> Pixel \<Rightarrow> XRequest list" where
  "setupRequests ia procId w white =
    [XCreateSimpleWindow w (0 + procId * 200) 0 200 200,
     XStoreName w (procStr procId),
     XSelectInput w,
     XChangeProperty w (XdndAware ia) (XA_ATOM ia) 32 (le_bytes 5),
     XSetWMProtocols w (WM_DELETE_WINDOW ia),
     XMapWindow w,
     XCreateGC w,
     XSetForeground red,
     XSetBackground white]"

definition spawnSetup ::
  "AtomTable \<Rightarrow> faults \<Rightarrow> int \<Rightarrow> Window \<Rightarrow> Pixel \<Rightarrow> files \<Rightarrow> Peer result" where
  "spawnSetup ia flt procId w white fs =
    (if flt ''XOpenDisplay'' then philError ''XOpenDisplay''
     else if flt ''XCreateSimpleWindow'' \<or> w = 0 then philError ''XCreateSimpleWindow''
     else if flt ''XStoreName'' then philError ''XStoreName''
     else if flt ''XSelectInput'' then philError ''XSelectInput''
     else if flt ''XMapWindow'' then philError ''XMapWindow''
     else if flt ''XCreateGC'' then philError ''XCreateGC''
     else if flt ''XSetForeground'' then philError ''XSetForeground''
     else if flt ''XSetBackground'' then philError ''XSetBackground''
     else Inr \<lparr>xdndState = xdndState_zero,
               square = initialSquare\<lparr>visible := (procId = 0)\<rparr>,
               clickedStillInWindow = False, continueEventLoop = True, wind = w,
               files = fs, out = setupRequests ia procId w white\<rparr>)"

definition teardown :: "Peer \<Rightarrow> Peer" where
  "teardown p = emit XCloseDisplay (emit (XDestroyWindow (wind p)) (emit XFreeGC p))"

definition spawnWindow ::
  "AtomTable \<Rightarrow> faults \<Rightarrow> int \<Rightarrow> Window \<Rightarrow> Pixel \<Rightarrow> files \<Rightarrow> (XView \<times> XEvent) list
     \<Rightarrow> Peer result" where
  "spawnWindow ia flt procId w white fs events =
    bindR (spawnSetup ia flt procId w white fs) (\<lambda>p.
    bindR (eventLoop ia events p) (\<lambda>q.
    Inr (if continueEventLoop q then q else teardown q)))"

definition main :: "int \<Rightarrow> int list result" where
  "main forked = (if forked = - 1 then philError ''fork'' else Inr [0, forked])"

section \<open>Reachable states\<close>

inductive reachable :: "AtomTable \<Rightarrow> Peer \<Rightarrow> bool" for ia where
  after_setup: "spawnSetup ia flt procId w white fs = Inr p \<Longrightarrow> reachable ia p"
| after_event: "reachable ia p \<Longrightarrow> continueEventLoop p \<Longrightarrow> handleEvent ia v e p = Inr q \<Longrightarrow>
    reachable ia q"

section \<open>Lemmas\<close>

text \<open>The properties the program stores are returned whole by its reads.\<close>

lemma XGetWindowProperty_stored [simp]:
  "XGetWindowProperty (aware_property ia version) = aware_property ia version"
  "XGetWindowProperty (data_property ia (propertyData SQUARE_FILE_PATH))
     = data_property ia (propertyData SQUARE_FILE_PATH)"
  by (simp_all add: XGetWindowProperty_short aware_property_def data_property_def
      length_propertyData)

lemma spawnSetup_Inr_iff:
  "spawnSetup ia flt procId w white fs = Inr p \<longleftrightarrow>
    \<not> flt ''XOpenDisplay'' \<and> \<not> flt ''XCreateSimpleWindow'' \<and> w \<noteq> 0 \<and> \<not> flt ''XStoreName'' \<and>
    \<not> flt ''XSelectInput'' \<and> \<not> flt ''XMapWindow'' \<and> \<not> flt ''XCreateGC'' \<and>
    \<not> flt ''XSetForeground'' \<and> \<not> flt ''XSetBackground'' \<and>
    p = \<lparr>xdndState = xdndState_zero, square = initialSquare\<lparr>visible := (procId = 0)\<rparr>,
         clickedStillInWindow = False, continueEventLoop = True, wind = w,
         files = fs, out = setupRequests ia procId w white\<rparr>"
  by (auto simp: spawnSetup_def)

lemma spawnSetup_no_faults:
  "w \<noteq> 0 \<Longrightarrow> spawnSetup ia no_faults procId w white fs =
     Inr \<lparr>xdndState = xdndState_zero, square = initialSquare\<lparr>visible := (procId = 0)\<rparr>,
          clickedStillInWindow = False, continueEventLoop = True, wind = w,
          files = fs, out = setupRequests ia procId w white\<rparr>"
  by (simp add: spawnSetup_def)

lemma square_inv_initialSquare [simp]: "square_inv initialSquare"
  by (simp add: square_inv_def initialSquare_def)

lemma peer_inv_spawnSetup:
  "spawnSetup ia flt procId w white fs = Inr p \<Longrightarrow> peer_inv p"
  by (auto simp: spawnSetup_Inr_iff peer_inv_def)

lemma wind_spawnSetup:
  "spawnSetup ia flt procId w white fs = Inr p \<Longrightarrow> wind p = w \<and> w \<noteq> XNone"
  by (auto simp: spawnSetup_Inr_iff)

end
