(* ===== verification/XdndProperties.thy ===== *)
theory XdndProperties
  imports SpawnWindow
begin

text \<open>
  What the event loop of \<^verbatim>\<open>src/spawn_window.c\<close> does as one peer of an XDND exchange:
  the invariant of all reachable states, the rules of the protocol the handlers keep
  (one status per exchange, messages of a stranger ignored, the scenarios of rejection,
  retargeting and unsolicited drop), and the places where the code leaves the protocol.

  \<^item> \<open>is_message a r\<close>: the request \<open>r\<close> sends a client message of type \<open>a\<close>.
  \<^item> \<open>session_extends s t\<close>: \<open>t\<close> is a state of the same exchange as \<open>s\<close>, with the same
    role, window and type and at least the flags of \<open>s\<close>. \<open>fresh_source s\<close>: \<open>s\<close> is the
    state right after the process has opened an exchange as source.
  \<^item> \<open>positions\<close> turns a list of client messages, each with the environment it is
    handled in, into the events of the loop.
  \<^item> \<open>target1\<close>, \<open>source1\<close>, \<open>view0\<close> are a target, a source and an environment without
    failures, used where a statement is applied to an instance.
\<close>

section \<open>Definitions\<close>

fun is_message :: "Atom \<Rightarrow> XRequest \<Rightarrow> bool" where
  "is_message a (XSendEvent w (ClientMessage m)) = (message_type m = a)"
| "is_message a _ = False"

definition session_extends :: "XDNDStateMachine \<Rightarrow> XDNDStateMachine \<Rightarrow> bool" where
  "session_extends s t =
    (xdndExchangeStarted t \<and> amISource t = amISource s \<and> otherWindow t = otherWindow s \<and>
     proposedType t = proposedType s \<and>
     (xdndPositionReceived s \<longrightarrow> xdndPositionReceived t) \<and>
     (xdndStatusReceived s \<longrightarrow> xdndStatusReceived t) \<and>
     (xdndStatusSent s \<longrightarrow> xdndStatusSent t) \<and>
     (xdndDropReceived s \<longrightarrow> xdndDropReceived t))"

definition fresh_source :: "XDNDStateMachine \<Rightarrow> bool" where
  "fresh_source s =
    (s = xdndState_zero\<lparr>xdndExchangeStarted := True, amISource := True,
           otherWindow := otherWindow s\<rparr>)"

definition positions ::"(XView \<times> XClientMessageEvent) list \<Rightarrow> (XView \<times> XEvent) list" where
  "positions vms = map (\<lambda>(v, m). (v, ClientMessage m)) vms"

definition view0 :: XView where
  "view0 = \<lparr>fault = no_faults, tree = WNode 1 0 0 1000 1000 [], getProperty = (\<lambda>w a. None),
     pointer = (0, 0)\<rparr>"

definition peer0 :: Peer where
  "peer0 = \<lparr>xdndState = xdndState_zero, square = initialSquare\<lparr>visible := True\<rparr>,
     clickedStillInWindow = False, continueEventLoop = True, wind = 7, files = Map.empty,
     out = setupRequests server_atoms 0 7 0xFFFFFF\<rparr>"

definition target1 :: Peer where
  "target1 = peer0\<lparr>xdndState := xdndState_zero
     \<lparr>xdndExchangeStarted := True, otherWindow := 9,
      proposedType := server_atoms ''text/uri-list''\<rparr>\<rparr>"

definition source1 :: Peer where
  "source1 = peer0\<lparr>xdndState := xdndState_zero
     \<lparr>xdndExchangeStarted := True, amISource := True, otherWindow := 9\<rparr>\<rparr>"

definition position1 :: XClientMessageEvent where
  "position1 = clientMessage 7 (XdndPosition server_atoms) 9 0 (pack_xy 10 20) 1000
     (XdndActionCopy server_atoms)"

definition target2 :: Peer where
  "target2 = target1\<lparr>xdndState := (xdndState target1)
     \<lparr>xdndPositionReceived := True, xdndStatusSent := True, p_rootX := 10, p_rootY := 20,
      proposedAction := server_atoms ''XdndActionCopy'', xdndLastPositionTimestamp := 1000\<rparr>\<rparr>"

definition source2 :: Peer where
  "source2 = source1\<lparr>square := (square source1)\<lparr>selected := True\<rparr>\<rparr>"

definition stranger_drop :: XClientMessageEvent where
  "stranger_drop = clientMessage 7 (XdndDrop server_atoms) 8 0 0 0 0"

definition drop1 :: XClientMessageEvent where
  "drop1 = clientMessage 7 (XdndDrop server_atoms) 9 0 1000 0 0"

definition reject1 :: XClientMessageEvent where
  "reject1 = clientMessage 7 (XdndStatus server_atoms) 9 0 0 0 0"

definition view1 :: XView where
  "view1 = \<lparr>fault = no_faults,
     tree = WNode 1 0 0 1000 1000
       [WNode 7 0 0 200 200 [], WNode 9 200 0 200 200 [], WNode 11 400 0 200 200 []],
     getProperty = (\<lambda>w a. if a = XdndAware server_atoms \<and> (w = 9 \<or> w = 11)
        then Some (aware_property server_atoms 5) else None),
     pointer = (0, 0)\<rparr>"

definition motion1 :: XMotionEvent where
  "motion1 = \<lparr>mx = 450, my = 30, x_root = 450, y_root = 30, mtime = 2000\<rparr>"

definition source3 :: Peer where
  "source3 = source1\<lparr>xdndState := (xdndState source1)\<lparr>xdndStatusReceived := True\<rparr>\<rparr>"

definition target3 :: Peer where
  "target3 = target1\<lparr>files := Map.empty(SQUARE_FILE_PATH \<mapsto> le_bytes BlueSquare)\<rparr>"

definition view2 :: XView where
  "view2 = \<lparr>fault = no_faults, tree = WNode 1 0 0 1000 1000 [],
     getProperty = (\<lambda>w a. if w = 7 \<and> a = XDND_DATA server_atoms
        then Some (data_property server_atoms (propertyData SQUARE_FILE_PATH)) else None),
     pointer = (100, 100)\<rparr>"

definition notify1 :: XSelection where
  "notify1 = \<lparr>requestor = 7, selection = XdndSelection server_atoms,
     target = server_atoms ''text/uri-list'', property = XDND_DATA server_atoms, time = 3000\<rparr>"

definition request1 :: XSelection where
  "request1 = \<lparr>requestor = 7, selection = XdndSelection server_atoms,
     target = server_atoms ''text/uri-list'', property = XDND_DATA server_atoms, time = 3000\<rparr>"

definition source4 :: Peer where
  "source4 = source3\<lparr>wind := 9,
     square := (square source3)\<lparr>colour := BlueSquare\<rparr>,
     xdndState := (xdndState source3)\<lparr>otherWindow := 7\<rparr>\<rparr>"

definition source5 :: Peer where
  "source5 = source4\<lparr>files := Map.empty(SQUARE_FILE_PATH \<mapsto> le_bytes BlueSquare),
     out := out source4 @
       [XChangeProperty 7 (XDND_DATA server_atoms) (typesWeAccept server_atoms ! 0) 8
          (propertyData SQUARE_FILE_PATH),
        XSendEvent 7 (SelectionNotify request1)]\<rparr>"

definition view3 :: XView where
  "view3 = \<lparr>fault = no_faults, tree = WNode 1 0 0 1000 1000 [],
     getProperty = (\<lambda>w a. Some (XGetWindowProperty
        (properties_after (drop (length (out source4)) (out source5)) no_properties w a))),
     pointer = (100, 100)\<rparr>"

definition wm_delete1 :: XClientMessageEvent where
  "wm_delete1 = clientMessage 7 (WM_PROTOCOLS server_atoms) (WM_DELETE_WINDOW server_atoms)
     0 0 0 0"

definition target4 :: Peer where
  "target4 = target1\<lparr>square := (square target1)\<lparr>selected := True\<rparr>\<rparr>"

definition peer1 :: Peer where
  "peer1 = peer0\<lparr>square := initialSquare\<rparr>"

definition view4 :: XView where
  "view4 = \<lparr>fault = no_faults, tree = WNode 1 0 0 1000 1000 [],
     getProperty = (\<lambda>w a. Some (XGetWindowProperty
        (properties_after (out peer0) no_properties w a))),
     pointer = (0, 0)\<rparr>"

definition stranger_position :: XClientMessageEvent where
  "stranger_position = clientMessage 7 (XdndPosition server_atoms) 8 0 (pack_xy 10 20) 1000
     (XdndActionCopy server_atoms)"

definition stranger_leave :: XClientMessageEvent where
  "stranger_leave = clientMessage 7 (XdndLeave server_atoms) 8 0 0 0 0"

definition stranger_finished :: XClientMessageEvent where
  "stranger_finished = clientMessage 7 (XdndFinished server_atoms) 8 1 0 0 0"

definition enter_image :: XClientMessageEvent where
  "enter_image = clientMessage 7 (XdndEnter server_atoms) 9 (push_bit 24 5) 1000 0 0"

section \<open>Shared lemmas\<close>

lemma filter_out_drawSquare [simp]:
  "filter (is_message a) (out (drawSquare p)) = filter (is_message a) (out p)"
  by (simp add: out_drawSquare)

lemma filter_out_releaseSquare [simp]:
  "filter (is_message a) (out (releaseSquare p)) = filter (is_message a) (out p)"
  by (simp add: releaseSquare_def Let_def)

lemma target2_simps [simp]:
  "started target2" "\<not> source target2" "otherWindow (xdndState target2) = 9"
  "xdndPositionReceived (xdndState target2)" "xdndStatusSent (xdndState target2)"
  "continueEventLoop target2" "wind target2 = 7" "sm_inv (xdndState target2)"
  by (simp_all add: target2_def target1_def peer0_def sm_inv_def)

lemma source2_simps [simp]:
  "started source2" "source source2" "otherWindow (xdndState source2) = 9"
  "selected (square source2)" "\<not> clickedStillInWindow source2" "wind source2 = 7"
  "xdndState source2 = xdndState source1" "out source2 = out source1"
  by (simp_all add: source2_def source1_def peer0_def)

lemma over_view1:
  "getWindowPointerIsOver (tree view1) (x_root motion1) (y_root motion1) 0 0 = 11"
  by (simp add: view1_def motion1_def)

lemma aware_view1: "hasCorrectXdndAwareProperty server_atoms view1 11 = 5"
proof -
  have "XA_ATOM server_atoms \<noteq> XNone"
    using atoms_wf_nonzero [OF atoms_wf_server_atoms, of "''XA_ATOM''"]
    by (simp add: XA_ATOM_def atom_names_def)
  then show ?thesis
    by (subst hasCorrectXdndAwareProperty_aware [where version = 5])
      (simp_all add: view1_def)
qed

lemma fault_view1 [simp]: "fault view1 = no_faults"
  by (simp add: view1_def)

lemma source3_simps [simp]:
  "started source3" "source source3" "xdndStatusReceived (xdndState source3)"
  "otherWindow (xdndState source3) = 9" "wind source3 = 7" "sm_inv (xdndState source3)"
  by (simp_all add: source3_def source1_def peer0_def sm_inv_def)

lemma view2_simps [simp]: "fault view2 = no_faults" "pointer view2 = (100, 100)"
  by (simp_all add: view2_def)

lemma target3_simps [simp]:
  "xdndState target3 = xdndState target1" "wind target3 = 7" "square target3 = square target1"
  "files target3 = Map.empty(SQUARE_FILE_PATH \<mapsto> le_bytes BlueSquare)"
  by (simp_all add: target3_def target1_def peer0_def)

lemma copied_view2: "getCopiedData server_atoms view2 7 = Inr (Some SQUARE_FILE_PATH)"
  using getCopiedData_framed [of view2 7 server_atoms SQUARE_FILE_PATH]
  by (simp add: view2_def cstr_id)

lemma restore_target3:
  "restoreSquareState no_faults (Map.empty(SQUARE_FILE_PATH \<mapsto> le_bytes BlueSquare))
     SQUARE_FILE_PATH sq = Inr (sq\<lparr>colour := BlueSquare\<rparr>)"
  by (simp add: restoreSquareState_def le_word_le_bytes)

lemma handleSelectionRequest_source:
  assumes "started p" and "source p" and "handleSelectionRequest ia v req p = Inr q"
  shows "files q = (files p)(SQUARE_FILE_PATH \<mapsto> le_bytes (colour (square p)))"
    and "drop (length (out p)) (out q) =
      [XChangeProperty (requestor req) (property req) (typesWeAccept ia ! 0) 8
         (propertyData SQUARE_FILE_PATH),
       XSendEvent (requestor req) (SelectionNotify \<lparr>requestor = requestor req,
         selection = selection req, target = target req, property = property req,
         time = time req\<rparr>)]"
  using assms
  by (auto simp: handleSelectionRequest_def bindR_eq_Inr_iff saveSquareState_Inr_iff
      sendSelectionNotify_def xSendEvent_Inr_iff split: if_splits)

lemma types_server_atoms:
  "typesWeAccept server_atoms = [6, 5, 4, 3, 2, 1]"
  by (simp add: typesWeAccept_def type_names_def server_atoms_def atom_names_def)

lemma view0_simps [simp]:
  "fault view0 = no_faults" "tree view0 = WNode 1 0 0 1000 1000 []"
  "getProperty view0 = (\<lambda>w a. None)" "pointer view0 = (0, 0)"
  by (simp_all add: view0_def)

lemma peer0_simps [simp]:
  "xdndState peer0 = xdndState_zero" "square peer0 = initialSquare\<lparr>visible := True\<rparr>"
  "\<not> clickedStillInWindow peer0" "continueEventLoop peer0" "wind peer0 = 7"
  "out peer0 = setupRequests server_atoms 0 7 0xFFFFFF"
  by (simp_all add: peer0_def)

lemma spawnSetup_peer0:
  "spawnSetup server_atoms no_faults 0 7 0xFFFFFF Map.empty = Inr peer0"
  by (simp add: spawnSetup_no_faults peer0_def)

lemma reachable_peer0: "reachable server_atoms peer0"
  by (rule reachable.after_setup [OF spawnSetup_peer0])

lemma target1_simps [simp]:
  "started target1" "\<not> source target1" "otherWindow (xdndState target1) = 9"
  "\<not> xdndPositionReceived (xdndState target1)" "\<not> xdndStatusSent (xdndState target1)"
  "\<not> xdndDropReceived (xdndState target1)" "continueEventLoop target1" "wind target1 = 7"
  "sm_inv (xdndState target1)" "out target1 = out peer0"
  by (simp_all add: target1_def sm_inv_def)

lemma source1_simps [simp]:
  "started source1" "source source1" "otherWindow (xdndState source1) = 9"
  "\<not> xdndStatusReceived (xdndState source1)" "continueEventLoop source1" "wind source1 = 7"
  "sm_inv (xdndState source1)" "out source1 = out peer0"
  "xdndLastPositionTimestamp (xdndState source1) = 0"
  by (simp_all add: source1_def sm_inv_def)

lemma position1_simps [simp]:
  "message_type position1 = XdndPosition server_atoms" "l0 position1 = 9"
  "l3 position1 = 1000" "l4 position1 = XdndActionCopy server_atoms"
  by (simp_all add: position1_def)

lemma out_handleClientMessage_wm_delete:
  assumes "message_type m = WM_PROTOCOLS ia" and "l0 m = WM_DELETE_WINDOW ia"
  shows "handleClientMessage ia v m p = Inr (p\<lparr>continueEventLoop := False\<rparr>)"
  using assms by (simp add: handleClientMessage_def)

text \<open>A position that arrives after the status has been sent sends nothing.\<close>

lemma position_after_status:
  assumes "atoms_wf ia" and "started p" and "\<not> source p" and "xdndStatusSent (xdndState p)"
    and "message_type m = XdndPosition ia"
  shows "\<exists>q. handleClientMessage ia v m p = Inr q \<and> out q = out p \<and> started q \<and> \<not> source q \<and>
    xdndStatusSent (xdndState q) \<and> continueEventLoop q = continueEventLoop p"
  using assms
  by (simp add: handleClientMessage_def targetMessage_def receiveXdndPosition_def Let_def
      atoms_wf_simps)

text \<open>The first position of an exchange is answered by one status.\<close>

lemma first_position:
  assumes "atoms_wf ia" and "started p" and "\<not> source p" and "\<not> xdndStatusSent (xdndState p)"
    and "\<not> xdndPositionReceived (xdndState p)" and "message_type m = XdndPosition ia"
    and "\<not> fault v ''XSendEvent''"
  shows "\<exists>q. handleClientMessage ia v m p = Inr q \<and>
    out q = out p @ [XSendEvent (otherWindow (xdndState p)) (ClientMessage
      (clientMessage (otherWindow (xdndState p)) (XdndStatus ia) (wind p) 1 0 0 (l4 m)))] \<and>
    started q \<and> \<not> source q \<and> xdndStatusSent (xdndState q) \<and>
    continueEventLoop q = continueEventLoop p"
  using assms
  by (simp add: handleClientMessage_def targetMessage_def receiveXdndPosition_def Let_def
      sendXdndStatus_def atoms_wf_simps)

lemma positions_after_status:
  assumes "atoms_wf ia" and "started p" and "\<not> source p" and "xdndStatusSent (xdndState p)"
    and "\<forall>(v, m) \<in> set vms. message_type m = XdndPosition ia"
  shows "\<exists>q. eventLoop ia (positions vms) p = Inr q \<and> out q = out p \<and>
    xdndStatusSent (xdndState q)"
  using assms(2-5)
proof (induction vms arbitrary: p)
  case Nil
  then show ?case by (simp add: positions_def)
next
  case (Cons vm vms)
  obtain v m where vm: "vm = (v, m)" by (cases vm)
  with Cons.prems have m: "message_type m = XdndPosition ia" by simp
  from position_after_status [OF assms(1) Cons.prems(1-3) m, of v]
  obtain p' where h: "handleClientMessage ia v m p = Inr p'" and o: "out p' = out p"
    and p': "started p'" "\<not> source p'" "xdndStatusSent (xdndState p')"
    by blast
  from Cons.IH [OF p'] Cons.prems(4) obtain q where
    "eventLoop ia (positions vms) p' = Inr q" "out q = out p'" "xdndStatusSent (xdndState q)"
    by auto
  with h o Cons.prems(3) vm m show ?case
    by (cases "continueEventLoop p") (auto simp: positions_def)
qed

section \<open>What one event does to an exchange\<close>

lemma session_extends_refl [simp]: "xdndExchangeStarted s \<Longrightarrow> session_extends s s"
  by (simp add: session_extends_def)

lemma fresh_source_engage [simp]:
  "fresh_source (xdndState_zero\<lparr>xdndExchangeStarted := True, amISource := True,
     otherWindow := w\<rparr>)"
  by (simp add: fresh_source_def)

lemma engageTarget_state:
  assumes "engageTarget ia v ev w p = Inr (Some q)"
  shows "xdndState q = (if started p then xdndState p
     else (xdndState p)\<lparr>xdndExchangeStarted := True, amISource := True, otherWindow := w\<rparr>)"
  using assms
  by (auto simp: engageTarget_def bindR_eq_Inr_iff Let_def split: if_splits
      dest!: send_frame(1))

lemma session_handleMotionNotify:
  assumes "handleMotionNotify ia v ev p = Inr q" and "sm_inv (xdndState p)"
  shows "xdndState q = xdndState p \<or> xdndState q = xdndState_zero \<or>
    fresh_source (xdndState q)"
proof -
  define w where "w = getWindowPointerIsOver (tree v) (x_root ev) (y_root ev) 0 0"
  show ?thesis
  proof (cases "selected (square p) \<and> \<not> clickedStillInWindow p \<and> w \<noteq> XNone")
    case False
    with assms(1) show ?thesis
      by (auto simp: handleMotionNotify_Inr_iff w_def split: if_splits)
  next
    case True
    with assms(1) obtain p2 where
      l: "leaveOldTarget ia v w (p\<lparr>square := dragSquare ev (square p)\<rparr>) = Inr p2"
      and r: "engageTarget ia v ev w p2 = Inr None \<and> q = p2 \<or>
          (\<exists>p3 p4. engageTarget ia v ev w p2 = Inr (Some p3) \<and>
             positionUpdate ia v ev w p3 = Inr p4 \<and> q = drawSquare p4)"
      unfolding handleMotionNotify_Inr_iff w_def by auto
    from l have p2: "xdndState p2 = xdndState_zero \<or> xdndState p2 = xdndState p"
      by (auto dest!: leaveOldTarget_cases)
    from assms(2) have idle: "\<not> started p \<Longrightarrow> xdndState p = xdndState_zero"
      by (rule sm_inv_idle)
    from r p2 idle show ?thesis
      by (auto dest!: engageTarget_state positionUpdate_frame(1) split: if_splits)
  qed
qed

lemma session_receiveXdndPosition:
  assumes "receiveXdndPosition ia v m p = Inr q" and "started p"
  shows "session_extends (xdndState p) (xdndState q)"
  using assms
  by (auto simp: receiveXdndPosition_def Let_def session_extends_def split: if_splits
      dest!: send_frame(5))

lemma session_receiveXdndDrop:
  "started p \<Longrightarrow> session_extends (xdndState p) (xdndState (receiveXdndDrop ia m p))"
  by (simp add: receiveXdndDrop_def Let_def session_extends_def)

lemma session_extends_trans:
  "session_extends s t \<Longrightarrow> session_extends t u \<Longrightarrow> session_extends s u"
  by (auto simp: session_extends_def)

lemma session_extendsD: "session_extends s t \<Longrightarrow> xdndExchangeStarted t"
  by (simp add: session_extends_def)

lemma session_targetMessage:
  assumes "targetMessage ia v m p = Inr q" and "started p"
  shows "xdndState q = xdndState_zero \<or> session_extends (xdndState p) (xdndState q)"
proof (cases "message_type m = XdndPosition ia \<and> xdndPositionReceived (xdndState p)
    \<and> l0 m \<noteq> otherWindow (xdndState p)")
  case True
  with assms show ?thesis by (simp add: targetMessage_Inr_iff)
next
  case False
  with assms(1) obtain p1 where
    p1: "(if message_type m = XdndPosition ia then receiveXdndPosition ia v m p else Inr p)
      = Inr p1"
    and q: "q = (if message_type m = XdndDrop ia
                 then receiveXdndDrop ia m
                        (if message_type m = XdndLeave ia then memset_xdndState p1 else p1)
                 else if message_type m = XdndLeave ia then memset_xdndState p1 else p1)"
    by (auto simp: targetMessage_Inr_iff)
  from p1 assms(2) have e1: "session_extends (xdndState p) (xdndState p1)"
    by (auto split: if_splits dest: session_receiveXdndPosition)
  show ?thesis
  proof (cases "message_type m = XdndLeave ia")
    case True
    with q show ?thesis by (simp add: receiveXdndDrop_def)
  next
    case False
    with q e1 session_receiveXdndDrop [OF session_extendsD [OF e1], of ia m] show ?thesis
      by (auto intro: session_extends_trans)
  qed
qed

lemma session_handleClientMessage:
  assumes "handleClientMessage ia v m p = Inr q" and "started p"
  shows "xdndState q = xdndState_zero \<or> session_extends (xdndState p) (xdndState q)"
proof (cases "source p \<or> message_type m = WM_PROTOCOLS ia \<and> l0 m = WM_DELETE_WINDOW ia")
  case True
  with assms show ?thesis
    by (auto simp: handleClientMessage_def sourceMessage_def bindR_eq_Inr_iff Let_def
        session_extends_def split: if_splits dest!: send_frame(3))
next
  case False
  with assms show ?thesis
    by (auto simp: handleClientMessage_def dest: session_targetMessage)
qed

section \<open>The invariant\<close>

text \<open>
  C1: In every state a process can reach, after its setup and after any sequence of
  events in any environment (failing calls, arbitrary messages from arbitrary
  senders), the fields of the state machine are consistent (\<open>sm_inv\<close>: idle means
  all-zero, a source holds none of the target's fields, a target has sent its status
  exactly when it has received a position and has a drop only after a position) and the
  square lies inside the window with its size of 50.
\<close>

theorem reachable_peer_inv:
  assumes "reachable ia p"
  shows "peer_inv p"
  using assms
  by induction (auto intro: peer_inv_spawnSetup peer_inv_handleEvent)

theorem reachable_peer_inv_witness: "reachable server_atoms peer0 \<and> peer_inv peer0"
  using reachable_peer_inv [OF reachable_peer0] reachable_peer0 by simp

section \<open>Rules of the protocol\<close>

text \<open>
  C4: A target that has not yet sent its status and receives one or more position
  messages, the first in an environment where \<^verbatim>\<open>XSendEvent\<close> works, handles all of them
  and sends exactly one status message, whatever the senders and contents of the
  positions.
\<close>

theorem status_sent_once:
  assumes "atoms_wf ia" and "sm_inv (xdndState p)" and "started p" and "\<not> source p"
    and "\<not> xdndStatusSent (xdndState p)" and "continueEventLoop p"
    and "vms \<noteq> []" and "\<forall>(v, m) \<in> set vms. message_type m = XdndPosition ia"
    and "\<not> fault (fst (hd vms)) ''XSendEvent''"
  shows "\<exists>q. eventLoop ia (positions vms) p = Inr q \<and>
    length (filter (is_message (XdndStatus ia)) (out q)) =
      length (filter (is_message (XdndStatus ia)) (out p)) + 1"
proof -
  from assms(7) obtain v m vms' where vms: "vms = (v, m) # vms'"
    by (cases vms) auto
  with assms(8,9) have m: "message_type m = XdndPosition ia" and v: "\<not> fault v ''XSendEvent''"
    and rest: "\<forall>(v, m) \<in> set vms'. message_type m = XdndPosition ia"
    by auto
  from assms(2-5) have "\<not> xdndPositionReceived (xdndState p)"
    by (auto simp: sm_inv_def)
  from first_position [OF assms(1,3-5) this m v]
  obtain p' where h: "handleClientMessage ia v m p = Inr p'"
    and o: "length (filter (is_message (XdndStatus ia)) (out p')) =
      length (filter (is_message (XdndStatus ia)) (out p)) + 1"
    and p': "started p'" "\<not> source p'" "xdndStatusSent (xdndState p')"
    by auto
  from positions_after_status [OF assms(1) p' rest] obtain q where
    "eventLoop ia (positions vms') p' = Inr q" "out q = out p'"
    by blast
  with h o assms(6) vms m show ?thesis
    by (simp add: positions_def)
qed

theorem status_sent_once_witness:
  "\<exists>q. eventLoop server_atoms (positions [(view0, position1), (view0, position1)]) target1
      = Inr q \<and>
    length (filter (is_message (XdndStatus server_atoms)) (out q)) =
      length (filter (is_message (XdndStatus server_atoms)) (out target1)) + 1"
  using status_sent_once [of server_atoms target1 "[(view0, position1), (view0, position1)]"]
  by simp

text \<open>
  C5: Once a target has received a position, a position or a drop whose sender is not
  the window recorded for the exchange changes nothing: the process state is the same
  and no request is sent.
\<close>

theorem mismatched_sender_ignored:
  assumes "atoms_wf ia" and "started p" and "\<not> source p"
    and "xdndPositionReceived (xdndState p)" and "l0 m \<noteq> otherWindow (xdndState p)"
    and "message_type m = XdndPosition ia \<or> message_type m = XdndDrop ia"
  shows "handleClientMessage ia v m p = Inr p"
  using assms(6)
proof
  assume "message_type m = XdndPosition ia"
  with assms(1-5) show ?thesis
    by (simp add: handleClientMessage_def targetMessage_def atoms_wf_simps)
next
  assume "message_type m = XdndDrop ia"
  with assms(1-5) show ?thesis
    by (simp add: handleClientMessage_def targetMessage_def receiveXdndDrop_def
        atoms_wf_simps)
qed

theorem mismatched_sender_ignored_witness:
  "l0 stranger_drop \<noteq> otherWindow (xdndState target2) \<and>
   handleClientMessage server_atoms view0 stranger_drop target2 = Inr target2"
  using mismatched_sender_ignored [of server_atoms target2 stranger_drop view0]
  by (simp add: stranger_drop_def)

text \<open>
  C13: Before a target has received a position it accepts one from any window: the
  sender in slot 0 is not compared with the window recorded at the enter message. The
  target records the coordinates, the time and the action of the message and sends its
  one status, with the accept bit set, to the recorded window and not to the sender.
\<close>

theorem first_position_whoever_sends:
  assumes "atoms_wf ia" and "started p" and "\<not> source p" and "sm_inv (xdndState p)"
    and "\<not> xdndPositionReceived (xdndState p)"
    and "message_type m = XdndPosition ia" and "\<not> fault v ''XSendEvent''"
  shows "handleClientMessage ia v m p =
    Inr (emit (XSendEvent (otherWindow (xdndState p)) (ClientMessage
           (clientMessage (otherWindow (xdndState p)) (XdndStatus ia) (wind p) 1 0 0 (l4 m))))
         (p\<lparr>xdndState := (xdndState p)
            \<lparr>xdndPositionReceived := True, p_rootX := unpack_x (l2 m),
             p_rootY := unpack_y (l2 m), proposedAction := l4 m,
             xdndLastPositionTimestamp := l3 m, xdndStatusSent := True\<rparr>\<rparr>))"
  using assms
  by (simp add: handleClientMessage_def targetMessage_def receiveXdndPosition_def Let_def
      sendXdndStatus_def xSendEvent_def sm_inv_def atoms_wf_simps)

theorem first_position_whoever_sends_witness:
  "l0 stranger_position \<noteq> otherWindow (xdndState target1) \<and>
   handleClientMessage server_atoms view0 stranger_position target1 =
    Inr (emit (XSendEvent 9 (ClientMessage
           (clientMessage 9 (XdndStatus server_atoms) 7 1 0 0 (XdndActionCopy server_atoms))))
         (target1\<lparr>xdndState := (xdndState target1)
            \<lparr>xdndPositionReceived := True, p_rootX := 10, p_rootY := 20,
             proposedAction := XdndActionCopy server_atoms,
             xdndLastPositionTimestamp := 1000, xdndStatusSent := True\<rparr>\<rparr>))"
  using first_position_whoever_sends [of server_atoms target1 stranger_position view0]
  by (simp add: stranger_position_def unpack_x_pack_xy unpack_y_pack_xy view0_def
      no_faults_def atoms_wf_simps)

text \<open>
  C6: When a source receives a status whose accept bit is clear and \<^verbatim>\<open>XSendEvent\<close> works,
  it sends one leave message to the target, and its state machine is all zero
  afterwards; a button release that follows, in any environment, sends no drop.
\<close>

theorem rejection_abandons:
  assumes "atoms_wf ia" and "started p" and "source p"
    and "message_type m = XdndStatus ia" and "l1 m AND 1 \<noteq> 1" and "\<not> fault v ''XSendEvent''"
  shows "\<exists>q. handleClientMessage ia v m p = Inr q \<and> xdndState q = xdndState_zero \<and>
    out q = out p @ [XSendEvent (otherWindow (xdndState p)) (ClientMessage
      (clientMessage (otherWindow (xdndState p)) (XdndLeave ia) (wind p) 0 0 0 0))] \<and>
    (\<forall>v'. \<exists>q'. handleButtonRelease ia v' q = Inr q' \<and>
       filter (is_message (XdndDrop ia)) (out q') = filter (is_message (XdndDrop ia)) (out p))"
  using assms
  by (simp add: handleClientMessage_def sourceMessage_def sendXdndLeave_def
      handleButtonRelease_def dropIfAccepted_def filter_out_releaseSquare atoms_wf_simps)

theorem rejection_abandons_witness:
  "\<exists>q. handleClientMessage server_atoms view0 reject1 source1 = Inr q \<and>
    xdndState q = xdndState_zero \<and>
    out q = out source1 @ [XSendEvent 9 (ClientMessage
      (clientMessage 9 (XdndLeave server_atoms) 7 0 0 0 0))] \<and>
    (\<forall>v'. \<exists>q'. handleButtonRelease server_atoms v' q = Inr q' \<and>
       filter (is_message (XdndDrop server_atoms)) (out q') =
       filter (is_message (XdndDrop server_atoms)) (out source1))"
  using rejection_abandons [of server_atoms source1 reject1 view0]
  by (simp add: reject1_def)

text \<open>
  C7: A source in an exchange with one window that drags the square, with the pointer
  outside its own window, over a different window that carries a usable \<^verbatim>\<open>XdndAware\<close>
  property, sends in this order: leave to the old window, the claim of the selection,
  enter to the new window, position to the new window, and then redraws. Nothing is sent
  to the old window after the leave, and the new window is the one recorded.
\<close>

theorem retarget_leaves_then_enters:
  assumes "started p" and "source p" and "selected (square p)" and "\<not> clickedStillInWindow p"
    and "getWindowPointerIsOver (tree v) (x_root ev) (y_root ev) 0 0 = z"
    and "z \<noteq> XNone" and "z \<noteq> otherWindow (xdndState p)"
    and "hasCorrectXdndAwareProperty ia v z = ver" and "ver \<noteq> 0"
    and "\<not> fault v ''XSendEvent''"
  shows "handleMotionNotify ia v ev p =
    Inr (drawSquare (p\<lparr>square := dragSquare ev (square p),
      xdndState := xdndState_zero
        \<lparr>xdndExchangeStarted := True, amISource := True, otherWindow := z\<rparr>,
      out := out p @
        [XSendEvent (otherWindow (xdndState p)) (ClientMessage
           (clientMessage (otherWindow (xdndState p)) (XdndLeave ia) (wind p) 0 0 0 0)),
         XSetSelectionOwner (XdndSelection ia) (wind p) (mtime ev),
         XSendEvent z (ClientMessage (clientMessage z (XdndEnter ia) (wind p)
           (push_bit 24 (word_of_int ver)) (typesWeAccept ia ! 0) XNone XNone)),
         XSendEvent z (ClientMessage (clientMessage z (XdndPosition ia) (wind p) 0
           (pack_xy (x_root ev) (y_root ev)) (mtime ev) (XdndActionCopy ia)))]\<rparr>))"
  using assms
  by (simp add: handleMotionNotify_def leaveOldTarget_def engageTarget_def positionUpdate_def
      sendXdndLeave_def sendXdndEnter_def sendXdndPosition_def emit_def memset_xdndState_def)

theorem retarget_leaves_then_enters_witness:
  "handleMotionNotify server_atoms view1 motion1 source2 =
    Inr (drawSquare (source2\<lparr>square := dragSquare motion1 (square source2),
      xdndState := xdndState_zero
        \<lparr>xdndExchangeStarted := True, amISource := True, otherWindow := 11\<rparr>,
      out := out source2 @
        [XSendEvent 9 (ClientMessage (clientMessage 9 (XdndLeave server_atoms) 7 0 0 0 0)),
         XSetSelectionOwner (XdndSelection server_atoms) 7 2000,
         XSendEvent 11 (ClientMessage (clientMessage 11 (XdndEnter server_atoms) 7
           (push_bit 24 5) (typesWeAccept server_atoms ! 0) XNone XNone)),
         XSendEvent 11 (ClientMessage (clientMessage 11 (XdndPosition server_atoms) 7 0
           (pack_xy 450 30) 2000 (XdndActionCopy server_atoms)))]\<rparr>))"
  using retarget_leaves_then_enters [of source2 view1 motion1 11 server_atoms 5]
  by (simp add: over_view1 aware_view1) (simp add: motion1_def)

text \<open>
  C8: A drop that reaches a process which has recorded no position, whether it is idle,
  a target that was only entered, or a source, is ignored: same state, nothing sent.
\<close>

theorem unsolicited_drop_ignored:
  assumes "atoms_wf ia" and "message_type m = XdndDrop ia"
    and "\<not> xdndPositionReceived (xdndState p)"
  shows "handleClientMessage ia v m p = Inr p"
  using assms
  by (simp add: handleClientMessage_def targetMessage_def receiveXdndDrop_def
      sourceMessage_def atoms_wf_simps)

theorem unsolicited_drop_ignored_witness:
  "handleClientMessage server_atoms view0 drop1 target1 = Inr target1"
  using unsolicited_drop_ignored [of server_atoms drop1 target1 view0]
  by (simp add: drop1_def)

text \<open>
  C9: During an exchange, one event does one of three things to the state machine: it
  discards the whole record (all fields zero at once), it keeps role, recorded window
  and proposed type and only sets flags that were clear, or it replaces the exchange by
  a fresh one in which the process is the source. No event clears a single flag or
  changes the role or the window of a running exchange.
\<close>

theorem session_step:
  assumes "handleEvent ia v e p = Inr q" and "sm_inv (xdndState p)" and "started p"
  shows "xdndState q = xdndState_zero \<or> session_extends (xdndState p) (xdndState q) \<or>
    fresh_source (xdndState q)"
proof (cases e)
  case (SelectionRequest req)
  with assms show ?thesis by (auto dest: handleSelectionRequest_frame)
next
  case (SelectionNotify sel)
  with assms show ?thesis by (auto dest!: handleSelectionNotify_cases)
next
  case (MotionNotify ev)
  with assms session_handleMotionNotify [of ia v ev p q] show ?thesis by auto
next
  case ButtonRelease
  with assms show ?thesis by (auto dest: handleButtonRelease_frame)
next
  case (ClientMessage m)
  with assms session_handleClientMessage [of ia v m p q] show ?thesis by auto
qed (use assms in auto)

theorem session_step_witness:
  "\<exists>q. handleEvent server_atoms view0 (ClientMessage position1) target1 = Inr q \<and>
    (xdndState q = xdndState_zero \<or> session_extends (xdndState target1) (xdndState q) \<or>
     fresh_source (xdndState q))"
proof -
  from first_position [of server_atoms target1 position1 view0]
  obtain q where q: "handleEvent server_atoms view0 (ClientMessage position1) target1 = Inr q"
    by auto
  from session_step [OF q] q show ?thesis by simp
qed

section \<open>The transfer\<close>

text \<open>
  C10: The payload arrives. When a source answers a selection request for \<^verbatim>\<open>XDND_DATA\<close>
  on the target's window, and the target then handles the selection notification in an
  environment that shows the property store after the source's requests and the files
  the source left, without failing calls, then the target's square has the colour of
  the source's square, is visible and lies at the pointer clamped to the window, and the
  target's state machine is all zero.
\<close>

theorem selection_transfer:
  assumes "started src" and "source src"
    and "handleSelectionRequest ia v req src = Inr src'"
    and "requestor req = wind tgt" and "property req = XDND_DATA ia"
    and "serves (properties_after (drop (length (out src)) (out src')) ps) v'"
    and "files tgt = files src'" and "fault v' = no_faults"
    and "property sel = XDND_DATA ia"
  shows "\<exists>q. handleSelectionNotify ia v' sel tgt = Inr q \<and>
    square q = placeSquare v' ((square tgt)\<lparr>colour := colour (square src), visible := True\<rparr>) \<and>
    xdndState q = xdndState_zero"
proof -
  from handleSelectionRequest_source [OF assms(1-3)] assms(4,5)
  have f: "files src' = (files src)(SQUARE_FILE_PATH \<mapsto> le_bytes (colour (square src)))"
    and o: "drop (length (out src)) (out src') =
      [XChangeProperty (wind tgt) (XDND_DATA ia) (typesWeAccept ia ! 0) 8
         (propertyData SQUARE_FILE_PATH),
       XSendEvent (wind tgt) (SelectionNotify \<lparr>requestor = wind tgt, selection = selection req,
         target = target req, property = XDND_DATA ia, time = time req\<rparr>)]"
    by simp_all
  have "getProperty v' (wind tgt) (XDND_DATA ia)
      = Some (data_property ia (propertyData SQUARE_FILE_PATH))"
    using servesD [OF assms(6), of "wind tgt" "XDND_DATA ia"]
      XGetWindowProperty_stored(2) [of ia]
    by (simp add: o data_property_def hd_conv_nth [of "typesWeAccept ia"] typesWeAccept_def
        type_names_def)
  then have c: "getCopiedData ia v' (wind tgt) = Inr (Some SQUARE_FILE_PATH)"
    using getCopiedData_framed [of v' "wind tgt" ia SQUARE_FILE_PATH] assms(8)
    by (simp add: cstr_id)
  have r: "restoreSquareState no_faults (files tgt) SQUARE_FILE_PATH (square tgt)
      = Inr ((square tgt)\<lparr>colour := colour (square src)\<rparr>)"
    using assms(7) by (simp add: f restoreSquareState_def le_word_le_bytes)
  show ?thesis
    using assms(8,9)
    by (cases "started tgt \<and> \<not> source tgt")
      (simp_all add: handleSelectionNotify_def c r Let_def sendXdndFinished_def)
qed

theorem selection_transfer_witness:
  "\<exists>q. handleSelectionNotify server_atoms view3 notify1 target3 = Inr q \<and>
    square q = placeSquare view3 ((square target3)\<lparr>colour := BlueSquare, visible := True\<rparr>) \<and>
    xdndState q = xdndState_zero"
proof -
  have "handleSelectionRequest server_atoms view0 request1 source4 = Inr source5"
    by (simp add: handleSelectionRequest_def source4_def source5_def request1_def
        saveSquareState_ok sendSelectionNotify_def emit_def source3_def source1_def peer0_def)
  from selection_transfer [OF _ _ this, of target3 no_properties view3 notify1]
  show ?thesis
    by (simp add: source4_def source5_def request1_def notify1_def view3_def serves_def)
qed

text \<open>
  C12: The position arrives. The position message a source sends for a motion event,
  with root coordinates that fit the slot (x in sixteen signed bits, y in sixteen
  unsigned bits), makes the target that handles it record exactly these coordinates, the
  time of the motion event and the action \<^verbatim>\<open>XdndActionCopy\<close>.
\<close>

theorem position_delivery:
  assumes "started src" and "source src" and "\<not> xdndStatusReceived (xdndState src)"
    and "positionUpdate ia v ev t src = Inr src'"
    and "out src' = out src @ [XSendEvent t (ClientMessage m)]"
    and "- 32768 \<le> x_root ev" and "x_root ev < 32768"
    and "0 \<le> y_root ev" and "y_root ev < 65536"
    and "receiveXdndPosition ia v' m tgt = Inr tgt'"
  shows "p_rootX (xdndState tgt') = x_root ev \<and> p_rootY (xdndState tgt') = y_root ev \<and>
    xdndLastPositionTimestamp (xdndState tgt') = mtime ev \<and>
    proposedAction (xdndState tgt') = XdndActionCopy ia \<and>
    xdndPositionReceived (xdndState tgt')"
proof -
  from assms(1-5) have m: "m = clientMessage t (XdndPosition ia) (wind src) 0
      (pack_xy (x_root ev) (y_root ev)) (mtime ev) (XdndActionCopy ia)"
    by (auto simp: positionUpdate_def sendXdndPosition_def xSendEvent_Inr_iff split: if_splits)
  from assms(10) show ?thesis
    unfolding m using assms(6-9)
    by (auto simp: receiveXdndPosition_def Let_def unpack_x_pack_xy unpack_y_pack_xy
        split: if_splits dest!: send_frame(5))
qed

theorem position_delivery_witness:
  "\<exists>tgt'. receiveXdndPosition server_atoms view0
      (clientMessage 7 (XdndPosition server_atoms) 7 0 (pack_xy 450 30) 2000
         (XdndActionCopy server_atoms)) target1 = Inr tgt' \<and>
    p_rootX (xdndState tgt') = 450 \<and> p_rootY (xdndState tgt') = 30 \<and>
    xdndLastPositionTimestamp (xdndState tgt') = 2000"
proof -
  let ?m = "clientMessage 7 (XdndPosition server_atoms) 7 0 (pack_xy 450 30) 2000
    (XdndActionCopy server_atoms)"
  have s: "positionUpdate server_atoms view0 motion1 7 source1 =
      Inr (emit (XSendEvent 7 (ClientMessage ?m)) source1)"
    by (simp add: positionUpdate_def sendXdndPosition_def motion1_def)
  obtain tgt' where t: "receiveXdndPosition server_atoms view0 ?m target1 = Inr tgt'"
    by (simp add: receiveXdndPosition_def Let_def sendXdndStatus_def)
  from position_delivery [OF _ _ _ s _ _ _ _ _ t] t show ?thesis
    by (simp add: motion1_def)
qed

section \<open>Where the code leaves the protocol\<close>

text \<open>
  C17: The drop message a source sends on button release carries 0 in the slot for the
  time stamp of the last position, whatever positions it has sent: the source never
  writes \<^verbatim>\<open>xdndLastPositionTimestamp\<close>, which only the target's position handler sets.
\<close>

theorem drop_timestamp_zero:
  assumes "sm_inv (xdndState p)" and "started p" and "source p"
    and "xdndStatusReceived (xdndState p)" and "\<not> fault v ''XSendEvent''"
  shows "handleButtonRelease ia v p =
    Inr (releaseSquare (emit (XSendEvent (otherWindow (xdndState p)) (ClientMessage
      (clientMessage (otherWindow (xdndState p)) (XdndDrop ia) (wind p) 0 0 0 0))) p))"
  using assms
  by (simp add: handleButtonRelease_def dropIfAccepted_def sendXdndDrop_def
      sm_inv_source_timestamp)

theorem drop_timestamp_zero_witness:
  "handleButtonRelease server_atoms view0 source3 =
    Inr (releaseSquare (emit (XSendEvent 9 (ClientMessage
      (clientMessage 9 (XdndDrop server_atoms) 7 0 0 0 0))) source3))"
  using drop_timestamp_zero [of source3 view0 server_atoms]
  by simp

text \<open>
  C18: A target that has received no drop still sends the finished message when a
  selection notification for \<^verbatim>\<open>XDND_DATA\<close> arrives and the property and the file can be
  read: the handler does not test \<^verbatim>\<open>xdndDropReceived\<close>. It also takes over the colour in
  the file, places the square at the pointer and ends the exchange.
\<close>

theorem finished_without_drop:
  assumes "started p" and "\<not> source p" and "\<not> xdndDropReceived (xdndState p)"
    and "property sel = XDND_DATA ia"
    and "getCopiedData ia v (wind p) = Inr (Some path)"
    and "restoreSquareState (fault v) (files p) path (square p) = Inr sq"
    and "\<not> fault v ''XSendEvent''"
  shows "handleSelectionNotify ia v sel p =
    Inr (drawSquare (memset_xdndState
      (emit (XSendEvent (otherWindow (xdndState p)) (ClientMessage
          (clientMessage (otherWindow (xdndState p)) (XdndFinished ia) (wind p) 1
             (XdndActionCopy ia) 0 0)))
        ((emit (XSetForeground (foreground (sq\<lparr>visible := True\<rparr>)))
            (emit (XDeleteProperty (wind p) (XDND_DATA ia)) p))
         \<lparr>square := placeSquare v (sq\<lparr>visible := True\<rparr>)\<rparr>))))"
  using assms
  by (simp add: handleSelectionNotify_def Let_def sendXdndFinished_def)

theorem finished_without_drop_witness:
  "\<not> xdndDropReceived (xdndState target3) \<and>
   (\<exists>q. handleSelectionNotify server_atoms view2 notify1 target3 = Inr q \<and>
      xdndState q = xdndState_zero \<and> colour (square q) = BlueSquare)"
  using finished_without_drop [of target3 notify1 server_atoms view2 SQUARE_FILE_PATH
      "(square target3)\<lparr>colour := BlueSquare\<rparr>"]
  by (simp add: copied_view2 restore_target3 notify1_def placeSquare_def)

text \<open>
  C19: A target resets its exchange on a leave message from any window: the handler
  does not compare the sender with the window recorded for the exchange.
\<close>

theorem leave_resets_whoever_sends:
  assumes "atoms_wf ia" and "started p" and "\<not> source p" and "message_type m = XdndLeave ia"
  shows "handleClientMessage ia v m p = Inr (memset_xdndState p)"
  using assms
  by (simp add: handleClientMessage_def targetMessage_def atoms_wf_simps)

theorem leave_resets_whoever_sends_witness:
  "l0 stranger_leave \<noteq> otherWindow (xdndState target2) \<and>
   handleClientMessage server_atoms view0 stranger_leave target2 = Inr (memset_xdndState target2)"
  using leave_resets_whoever_sends [of server_atoms target2 stranger_leave view0]
  by (simp add: stranger_leave_def)

text \<open>
  C20: A source ends its exchange and hides its square on a finished message from any
  window, at any point of the exchange, also before it has sent a drop.
\<close>

theorem finished_hides_square_whoever_sends:
  assumes "atoms_wf ia" and "started p" and "source p" and "message_type m = XdndFinished ia"
  shows "handleClientMessage ia v m p =
    Inr (drawSquare (memset_xdndState (p\<lparr>square := (square p)\<lparr>visible := False\<rparr>\<rparr>)))"
  using assms
  by (simp add: handleClientMessage_def sourceMessage_def atoms_wf_simps)

theorem finished_hides_square_whoever_sends_witness:
  "l0 stranger_finished \<noteq> otherWindow (xdndState source1) \<and>
   \<not> xdndStatusReceived (xdndState source1) \<and>
   handleClientMessage server_atoms view0 stranger_finished source1 =
    Inr (drawSquare (memset_xdndState (source1\<lparr>square := (square source1)\<lparr>visible := False\<rparr>\<rparr>)))"
  using finished_hides_square_whoever_sends [of server_atoms source1 stranger_finished view0]
  by (simp add: stranger_finished_def)

text \<open>
  C21: When none of the three types of an enter message is accepted, the process still
  becomes the target, with \<^verbatim>\<open>None\<close> as proposed type, and answers the first position with
  a status whose accept bit is set: a failed negotiation does not end the exchange.
\<close>

theorem no_common_type_still_accepted:
  assumes "atoms_wf ia" and "xdndState p = xdndState_zero"
    and "message_type m = XdndEnter ia" and "l1 m AND 1 = 0"
    and "set [l2 m, l3 m, l4 m] \<inter> set (typesWeAccept ia) = {}"
    and "message_type m' = XdndPosition ia" and "\<not> fault v' ''XSendEvent''"
  shows "\<exists>q q'. handleClientMessage ia v m p = Inr q \<and> started q \<and>
    proposedType (xdndState q) = XNone \<and>
    handleClientMessage ia v' m' q = Inr q' \<and>
    out q' = out p @ [XSendEvent (l0 m) (ClientMessage
      (clientMessage (l0 m) (XdndStatus ia) (wind p) 1 0 0 (l4 m')))]"
proof -
  from assms(1,5) have "first_accepted ia [l2 m, l3 m, l4 m] = XNone"
    by (subst first_accepted_None_iff) (auto dest: atoms_wf_types(2))
  with assms(1-4)
  have q: "handleClientMessage ia v m p = Inr (p\<lparr>xdndState := xdndState_zero
      \<lparr>xdndExchangeStarted := True, amISource := False, otherWindow := l0 m,
       proposedType := XNone\<rparr>\<rparr>)" (is "_ = Inr ?q")
    by (simp add: handleClientMessage_def receiveXdndEnter_def proposeType_def
        atoms_wf_simps)
  from first_position [OF assms(1), of ?q m' v'] assms(6,7) q show ?thesis
    by auto
qed

theorem no_common_type_still_accepted_witness:
  "\<exists>q q'. handleClientMessage server_atoms view0 enter_image peer0 = Inr q \<and> started q \<and>
    proposedType (xdndState q) = XNone \<and>
    handleClientMessage server_atoms view0 position1 q = Inr q' \<and>
    out q' = out peer0 @ [XSendEvent 9 (ClientMessage
      (clientMessage 9 (XdndStatus server_atoms) 7 1 0 0 (XdndActionCopy server_atoms)))]"
  using no_common_type_still_accepted [of server_atoms peer0 enter_image position1 view0 view0]
  by (simp add: enter_image_def types_server_atoms)

text \<open>
  C22: A selection notification for \<^verbatim>\<open>XDND_DATA\<close> that finds the property unreadable
  or empty makes the process run into undefined behaviour: \<^verbatim>\<open>getCopiedData\<close> returns
  \<^verbatim>\<open>NULL\<close>, which goes to \<^verbatim>\<open>restoreSquareState\<close> unchecked, or it indexes before the start
  of an empty string.
\<close>

theorem selectionNotify_without_property:
  assumes "property sel = XDND_DATA ia"
    and "getProperty v (wind p) (XDND_DATA ia) = None \<or>
         getProperty v (wind p) (XDND_DATA ia) = Some absent \<and> \<not> fault v ''malloc''"
  shows "\<exists>u. handleSelectionNotify ia v sel p = Inl (Undefined u)"
  using assms
  by (auto simp: handleSelectionNotify_def getCopiedData_failed getCopiedData_absent)

theorem selectionNotify_without_property_witness:
  "\<exists>u. handleSelectionNotify server_atoms view0 notify1 target1 = Inl (Undefined u)"
  using selectionNotify_without_property [of notify1 server_atoms view0 target1]
  by (simp add: notify1_def)

text \<open>
  C38: A button release before the status has arrived sends neither drop nor leave and
  leaves the exchange open; as the square is no longer selected, later motion events
  only redraw, so the source sends nothing more of its own accord.
\<close>

theorem release_before_status:
  assumes "started p" and "source p" and "\<not> xdndStatusReceived (xdndState p)"
  shows "handleButtonRelease ia v p = Inr (releaseSquare p) \<and>
    (\<forall>v' ev. handleMotionNotify ia v' ev (releaseSquare p) = Inr (drawSquare (releaseSquare p)))"
  using assms
  by (simp add: handleButtonRelease_def dropIfAccepted_def handleMotionNotify_def)

theorem release_before_status_witness:
  "handleButtonRelease server_atoms view0 source2 = Inr (releaseSquare source2) \<and>
    (\<forall>v' ev. handleMotionNotify server_atoms v' ev (releaseSquare source2)
       = Inr (drawSquare (releaseSquare source2)))"
  using release_before_status [of source2 server_atoms view0]
  by simp

text \<open>
  C39: A target that drags its own square out of its window over another window that
  understands XDND loses its exchange without a message to its source and becomes the
  source of a new exchange: the motion handler resets the state without testing the
  role, and \<^verbatim>\<open>sendXdndLeave\<close> sends nothing for a target.
\<close>

theorem target_drag_becomes_source:
  assumes "started p" and "\<not> source p" and "selected (square p)"
    and "\<not> clickedStillInWindow p"
    and "getWindowPointerIsOver (tree v) (x_root ev) (y_root ev) 0 0 = z"
    and "z \<noteq> XNone" and "z \<noteq> otherWindow (xdndState p)"
    and "hasCorrectXdndAwareProperty ia v z = ver" and "ver \<noteq> 0"
    and "\<not> fault v ''XSendEvent''"
  shows "handleMotionNotify ia v ev p =
    Inr (drawSquare (p\<lparr>square := dragSquare ev (square p),
      xdndState := xdndState_zero
        \<lparr>xdndExchangeStarted := True, amISource := True, otherWindow := z\<rparr>,
      out := out p @
        [XSetSelectionOwner (XdndSelection ia) (wind p) (mtime ev),
         XSendEvent z (ClientMessage (clientMessage z (XdndEnter ia) (wind p)
           (push_bit 24 (word_of_int ver)) (typesWeAccept ia ! 0) XNone XNone)),
         XSendEvent z (ClientMessage (clientMessage z (XdndPosition ia) (wind p) 0
           (pack_xy (x_root ev) (y_root ev)) (mtime ev) (XdndActionCopy ia)))]\<rparr>))"
  using assms
  by (simp add: handleMotionNotify_def leaveOldTarget_def engageTarget_def positionUpdate_def
      sendXdndLeave_def sendXdndEnter_def sendXdndPosition_def emit_def memset_xdndState_def)

theorem target_drag_becomes_source_witness:
  "\<exists>q. handleMotionNotify server_atoms view1 motion1 target4 = Inr q \<and> source q \<and>
     otherWindow (xdndState q) = 11"
proof -
  have "started target4" "\<not> source target4" "selected (square target4)"
    "\<not> clickedStillInWindow target4" "otherWindow (xdndState target4) = 9"
    by (simp_all add: target4_def target1_def peer0_def)
  with target_drag_becomes_source [of target4 view1 motion1 11 server_atoms 5] show ?thesis
    by (simp add: over_view1 aware_view1)
qed

text \<open>
  A button press inside the rectangle of the square selects the square also when
  the square is not visible, so a process can drag and offer a square it does not show.
\<close>

lemma invisible_square_selectable:
  assumes "\<not> visible (square p)" and "isPointerInsideSquare x y (square p)"
  shows "selected (square (handleButtonPress x y p)) \<and>
    clickedStillInWindow (handleButtonPress x y p)"
  using assms by (simp add: handleButtonPress_def)

lemma invisible_square_selectable_witness:
  "\<not> visible (square peer1) \<and> selected (square (handleButtonPress 10 10 peer1))"
  using invisible_square_selectable [of peer1 10 10]
  by (simp add: peer1_def initialSquare_def isPointerInsideSquare_def)

text \<open>
  C37: The parent process passes the pid of its child to \<^verbatim>\<open>spawnWindow\<close>, so its window
  is created at \<open>x = pid * 200\<close> and not next to the child's window; its square is
  hidden, as intended.
\<close>

theorem parent_window_position:
  assumes "main forked = Inr ids" and "forked \<noteq> 0"
    and "spawnSetup ia flt (ids ! 1) w white fs = Inr p"
  shows "hd (out p) = XCreateSimpleWindow w (forked * 200) 0 200 200 \<and>
    \<not> visible (square p)"
  using assms
  by (auto simp: main_def spawnSetup_Inr_iff setupRequests_def initialSquare_def
      split: if_splits)

theorem parent_window_position_witness:
  "\<exists>p. spawnSetup server_atoms no_faults 4242 7 0xFFFFFF Map.empty = Inr p \<and>
     hd (out p) = XCreateSimpleWindow 7 848400 0 200 200"
proof -
  have m: "main 4242 = Inr [0, 4242]"
    by (simp add: main_def)
  obtain p where p: "spawnSetup server_atoms no_faults ([0, 4242] ! 1) 7 0xFFFFFF Map.empty
      = Inr p"
    by (simp add: spawnSetup_no_faults)
  from parent_window_position [OF m _ p] p show ?thesis
    by simp
qed

section \<open>Setup, loop and teardown\<close>

text \<open>
  The close request of the window manager ends the loop: after a \<^verbatim>\<open>WM_PROTOCOLS\<close>
  message with \<^verbatim>\<open>WM_DELETE_WINDOW\<close> in slot 0 no further event is handled, and nothing
  but \<^verbatim>\<open>continueEventLoop\<close> has changed.
\<close>

lemma wm_delete_stops_loop:
  assumes "continueEventLoop p" and "message_type m = WM_PROTOCOLS ia"
    and "l0 m = WM_DELETE_WINDOW ia"
  shows "eventLoop ia ((v, ClientMessage m) # es) p = Inr (p\<lparr>continueEventLoop := False\<rparr>)"
  using assms by (simp add: handleClientMessage_def eventLoop_stopped)

lemma wm_delete_stops_loop_witness:
  "eventLoop server_atoms [(view0, ClientMessage wm_delete1), (view0, Expose)] peer0
     = Inr (peer0\<lparr>continueEventLoop := False\<rparr>)"
  using wm_delete_stops_loop [of peer0 wm_delete1 server_atoms view0 "[(view0, Expose)]"]
  by (simp add: wm_delete1_def)

text \<open>
  C35: When \<^verbatim>\<open>spawnWindow\<close> ends with the loop variable cleared, the requests it has
  issued begin with those of the setup and end with the release of the graphics
  context, the destruction of its own window and the closing of the display.
\<close>

theorem spawnWindow_teardown:
  assumes "spawnWindow ia flt procId w white fs events = Inr q"
    and "\<not> continueEventLoop q"
  shows "\<exists>rs. out q = setupRequests ia procId w white @ rs @
    [XFreeGC, XDestroyWindow w, XCloseDisplay]"
proof -
  from assms(1) obtain p q' where p: "spawnSetup ia flt procId w white fs = Inr p"
    and l: "eventLoop ia events p = Inr q'"
    and q: "q = (if continueEventLoop q' then q' else teardown q')"
    by (auto simp: spawnWindow_def bindR_eq_Inr_iff)
  from p have "out p = setupRequests ia procId w white" "wind p = w"
    by (simp_all add: spawnSetup_Inr_iff)
  moreover from l have "grows p q'" "wind q' = wind p"
    by (auto dest: grows_eventLoop wind_eventLoop)
  ultimately show ?thesis
    using q assms(2) by (auto simp: grows_def teardown_def split: if_splits)
qed

theorem spawnWindow_teardown_witness:
  "\<exists>rs. out (teardown (peer0\<lparr>continueEventLoop := False\<rparr>)) =
     setupRequests server_atoms 0 7 0xFFFFFF @ rs @ [XFreeGC, XDestroyWindow 7, XCloseDisplay]"
proof -
  have "spawnWindow server_atoms no_faults 0 7 0xFFFFFF Map.empty
      [(view0, ClientMessage wm_delete1)] = Inr (teardown (peer0\<lparr>continueEventLoop := False\<rparr>))"
    by (simp add: spawnWindow_def spawnSetup_peer0 handleClientMessage_def wm_delete1_def)
  from spawnWindow_teardown [OF this] show ?thesis
    by (simp add: teardown_def)
qed

text \<open>
  C36: A window set up by \<^verbatim>\<open>spawnWindow\<close> is recognised by the other process: in an
  environment that shows the property store after the setup requests,
  \<^verbatim>\<open>hasCorrectXdndAwareProperty\<close> of that window is the protocol version 5.
\<close>

theorem setup_is_xdnd_aware:
  assumes "spawnSetup ia flt procId w white fs = Inr p" and "atoms_wf ia"
    and "serves (properties_after (out p) ps) v"
  shows "hasCorrectXdndAwareProperty ia v w = 5"
proof -
  from assms(1) have o: "out p = setupRequests ia procId w white"
    by (simp add: spawnSetup_Inr_iff)
  have "XA_ATOM ia \<noteq> XNone"
    using atoms_wf_nonzero [OF assms(2), of "''XA_ATOM''"]
    by (simp add: XA_ATOM_def atom_names_def)
  moreover have "getProperty v w (XdndAware ia) = Some (aware_property ia 5)"
    using servesD [OF assms(3), of w "XdndAware ia"] XGetWindowProperty_stored(1) [of ia 5]
    by (simp add: o setupRequests_def aware_property_def)
  ultimately show ?thesis
    by (simp add: hasCorrectXdndAwareProperty_aware)
qed

theorem setup_is_xdnd_aware_witness:
  "hasCorrectXdndAwareProperty server_atoms view4 7 = 5"
  using setup_is_xdnd_aware [OF spawnSetup_peer0, of no_properties view4]
  by (simp add: serves_def view4_def)

text \<open>
  C40: The handlers end the process only through a failing call or one of the reads
  named above: in an environment without failing calls every event is handled, except
  a selection notification for \<^verbatim>\<open>XDND_DATA\<close> and a client message with bit 0 of slot 1
  set, which read a property of another window.
\<close>

theorem handleEvent_total:
  assumes "fault v = no_faults"
    and "case e of SelectionNotify sel \<Rightarrow> property sel \<noteq> XDND_DATA ia
         | ClientMessage m \<Rightarrow> l1 m AND 1 = 0 | _ \<Rightarrow> True"
  shows "\<exists>q. handleEvent ia v e p = Inr q"
proof (cases e)
  case (SelectionRequest req)
  with assms show ?thesis
    by (simp add: handleSelectionRequest_def saveSquareState_ok sendSelectionNotify_def)
next
  case (SelectionNotify sel)
  with assms show ?thesis by (simp add: handleSelectionNotify_def)
next
  case (MotionNotify ev)
  with assms show ?thesis
    by (simp add: handleMotionNotify_def leaveOldTarget_def engageTarget_def
        positionUpdate_def sendXdndLeave_def sendXdndEnter_def sendXdndPosition_def Let_def)
next
  case ButtonRelease
  with assms show ?thesis
    by (simp add: handleButtonRelease_def dropIfAccepted_def sendXdndDrop_def)
next
  case (ClientMessage m)
  with assms handleClientMessage_total [of v m ia p] show ?thesis
    by simp
qed simp_all

theorem handleEvent_total_witness:
  "\<exists>q. handleEvent server_atoms view1 (MotionNotify motion1) source2 = Inr q"
  using handleEvent_total [where v = view1 and e = "MotionNotify motion1"
      and ia = server_atoms and p = source2]
  by simp

text \<open>
  Dragging moves the square by the movement of the pointer and then clamps it:
  the new position is the old one plus the difference of the pointer positions, cut to
  the range 0..150 in each coordinate, so the square stays inside the window, and the
  pointer position is recorded for the next motion event.
\<close>

lemma drag_stays_in_window:
  assumes "square_inv sq"
  shows "square_inv (dragSquare ev sq) \<and>
    square_x (dragSquare ev sq) = min 150 (max 0 (square_x sq + (mx ev - mouse_x sq))) \<and>
    square_y (dragSquare ev sq) = min 150 (max 0 (square_y sq + (my ev - mouse_y sq))) \<and>
    mouse_x (dragSquare ev sq) = mx ev \<and> mouse_y (dragSquare ev sq) = my ev"
  using assms by (simp add: square_inv_dragSquare) (simp add: dragSquare_def clampSquare_min_max)

lemma drag_stays_in_window_witness:
  "square_x (dragSquare motion1 initialSquare) = 150 \<and>
   square_y (dragSquare motion1 initialSquare) = 30"
  using drag_stays_in_window [OF square_inv_initialSquare, of motion1]
  by (simp add: motion1_def initialSquare_def)

end
