(* ===== verification/XdndRefinement.thy ===== *)
theory XdndRefinement
  imports XdndProperties
begin

text \<open>
  The state machine of the specification and the event loop as its implementation.

  \<^item> \<open>SpecState\<close> are the states the specification names, as far as the flags of
    \<^verbatim>\<open>xdndState\<close> tell them apart: the code keeps no record of a drop it has sent, so the
    specification's states after the drop on the source side coincide with
    \<open>SourceAcked\<close>.
  \<^item> \<open>abs_state\<close> reads the state off the flags.
  \<^item> \<open>spec_step\<close> are the transitions of the specification; \<open>code_step\<close> adds the one
    transition the code has beyond them, from a target state to \<open>SourceNegotiating\<close>.
  \<^item> \<open>eventLoopStates\<close> is the loop of \<^verbatim>\<open>spawnWindow\<close> (\<open>eventLoop\<close>) returning every
    state it has at the head of the \<^verbatim>\<open>while\<close>, the first and the last included;
    \<open>spec_path\<close> says of a list of states of the specification that each is followed
    by itself or by a state one transition away.
\<close>

section \<open>Definitions\<close>

datatype SpecState =
    Idle
  | SourceNegotiating
  | SourceAcked
  | TargetNegotiating
  | TargetTracking
  | TargetDropped

definition abs_state :: "XDNDStateMachine \<Rightarrow> SpecState" where
  "abs_state s =
    (if \<not> xdndExchangeStarted s then Idle
     else if amISource s then (if xdndStatusReceived s then SourceAcked else SourceNegotiating)
     else if xdndDropReceived s then TargetDropped
     else if xdndPositionReceived s then TargetTracking
     else TargetNegotiating)"

fun is_target :: "SpecState \<Rightarrow> bool" where
  "is_target TargetNegotiating = True"
| "is_target TargetTracking = True"
| "is_target TargetDropped = True"
| "is_target _ = False"

fun is_source :: "SpecState \<Rightarrow> bool" where
  "is_source SourceNegotiating = True"
| "is_source SourceAcked = True"
| "is_source _ = False"

inductive spec_step :: "SpecState \<Rightarrow> SpecState \<Rightarrow> bool" where
  engage: "spec_step Idle SourceNegotiating"
| enter: "spec_step Idle TargetNegotiating"
| accept: "spec_step SourceNegotiating SourceAcked"
| retarget: "is_source s \<Longrightarrow> spec_step s SourceNegotiating"
| track: "spec_step TargetNegotiating TargetTracking"
| drop: "spec_step TargetTracking TargetDropped"
| reset: "s \<noteq> Idle \<Longrightarrow> spec_step s Idle"

code_pred spec_step .

definition code_step :: "SpecState \<Rightarrow> SpecState \<Rightarrow> bool" where
  "code_step s t = (spec_step s t \<or> is_target s \<and> t = SourceNegotiating)"

fun eventLoopStates :: "AtomTable \<Rightarrow> (XView \<times> XEvent) list \<Rightarrow> Peer \<Rightarrow> Peer list result" where
  "eventLoopStates ia [] p = Inr [p]"
| "eventLoopStates ia ((v, e) # es) p =
    (if continueEventLoop p
     then (case handleEvent ia v e p of
             Inl err \<Rightarrow> Inl err
           | Inr q \<Rightarrow> bindR (eventLoopStates ia es q) (\<lambda>ps. Inr (p # ps)))
     else Inr [p])"

definition spec_path :: "SpecState list \<Rightarrow> bool" where
  "spec_path ss = successively (\<lambda>s t. s = t \<or> code_step s t) ss"

inductive_cases spec_step_TargetDroppedE: "spec_step s TargetDropped"
inductive_cases spec_step_SourceAckedE: "spec_step s SourceAcked"
inductive_cases spec_step_TargetTrackingE: "spec_step s TargetTracking"
inductive_cases spec_step_TargetNegotiatingE: "spec_step s TargetNegotiating"

section \<open>Lemmas\<close>

lemma abs_state_zero [simp]: "abs_state xdndState_zero = Idle"
  by (simp add: abs_state_def)

lemma abs_state_Idle_iff:
  "abs_state s = Idle \<longleftrightarrow> \<not> xdndExchangeStarted s"
  "Idle = abs_state s \<longleftrightarrow> \<not> xdndExchangeStarted s"
  by (auto simp: abs_state_def)

lemma abs_state_fresh_source: "fresh_source s \<Longrightarrow> abs_state s = SourceNegotiating"
  by (auto simp: fresh_source_def abs_state_def dest: arg_cong [where f = xdndExchangeStarted]
      arg_cong [where f = amISource] arg_cong [where f = xdndStatusReceived])

lemma spec_step_reset: "xdndExchangeStarted s \<Longrightarrow> spec_step (abs_state s) Idle"
  by (rule spec_step.reset) (simp add: abs_state_Idle_iff)

lemma abs_receiveXdndPosition:
  assumes "receiveXdndPosition ia v m p = Inr q" and "started p" and "\<not> source p"
  shows "abs_state (xdndState q) = abs_state (xdndState p) \<or>
    spec_step (abs_state (xdndState p)) (abs_state (xdndState q))"
  using assms
  by (auto simp: receiveXdndPosition_def Let_def abs_state_def split: if_splits
      dest!: send_frame(5) intro: spec_step.intros)

lemma abs_receiveXdndDrop:
  assumes "started p" and "\<not> source p"
  shows "abs_state (xdndState (receiveXdndDrop ia m p)) = abs_state (xdndState p) \<or>
    spec_step (abs_state (xdndState p)) (abs_state (xdndState (receiveXdndDrop ia m p)))"
  using assms
  by (auto simp: receiveXdndDrop_def Let_def abs_state_def intro: spec_step.intros)

lemma abs_targetMessage:
  assumes "targetMessage ia v m p = Inr q" and "started p" and "\<not> source p"
    and "atoms_wf ia"
  shows "abs_state (xdndState q) = abs_state (xdndState p) \<or>
    spec_step (abs_state (xdndState p)) (abs_state (xdndState q))"
proof -
  consider "message_type m = XdndPosition ia" | "message_type m = XdndLeave ia"
    | "message_type m = XdndDrop ia"
    | "message_type m \<noteq> XdndPosition ia" "message_type m \<noteq> XdndLeave ia"
      "message_type m \<noteq> XdndDrop ia"
    by blast
  then show ?thesis
  proof cases
    case 1
    with assms show ?thesis
      by (auto simp: targetMessage_Inr_iff atoms_wf_simps split: if_splits
          dest: abs_receiveXdndPosition)
  next
    case 2
    with assms show ?thesis
      by (auto simp: targetMessage_Inr_iff atoms_wf_simps spec_step_reset split: if_splits)
  next
    case 3
    with assms abs_receiveXdndDrop [OF assms(2,3), of ia m] show ?thesis
      by (auto simp: targetMessage_Inr_iff atoms_wf_simps split: if_splits)
  next
    case 4
    with assms show ?thesis
      by (auto simp: targetMessage_Inr_iff)
  qed
qed

lemma abs_sourceMessage:
  assumes "sourceMessage ia v m p = Inr q" and "started p" and "source p"
  shows "abs_state (xdndState q) = abs_state (xdndState p) \<or>
    spec_step (abs_state (xdndState p)) (abs_state (xdndState q))"
  using assms
  by (auto simp: sourceMessage_def bindR_eq_Inr_iff Let_def abs_state_def
      split: if_splits dest!: send_frame(3) intro: spec_step.intros)

lemma abs_handleClientMessage:
  assumes "handleClientMessage ia v m p = Inr q" and "sm_inv (xdndState p)"
    and "atoms_wf ia"
  shows "abs_state (xdndState q) = abs_state (xdndState p) \<or>
    spec_step (abs_state (xdndState p)) (abs_state (xdndState q))"
proof (cases "message_type m = WM_PROTOCOLS ia \<and> l0 m = WM_DELETE_WINDOW ia")
  case True
  with assms show ?thesis by (auto simp: handleClientMessage_def)
next
  case wm: False
  show ?thesis
  proof (cases "started p")
    case False
    with assms(2) have "xdndState p = xdndState_zero" by (simp add: sm_inv_idle)
    with assms(1) wm False show ?thesis
      by (auto simp: handleClientMessage_def receiveXdndEnter_def bindR_eq_Inr_iff
          abs_state_def split: if_splits intro: spec_step.intros)
  next
    case True
    with assms wm show ?thesis
      by (auto simp: handleClientMessage_def split: if_splits
          dest: abs_sourceMessage abs_targetMessage)
  qed
qed

lemma abs_handleMotionNotify:
  assumes "handleMotionNotify ia v ev p = Inr q" and "sm_inv (xdndState p)"
  shows "abs_state (xdndState q) = abs_state (xdndState p) \<or>
    code_step (abs_state (xdndState p)) (abs_state (xdndState q))"
proof -
  from session_handleMotionNotify [OF assms]
  consider "xdndState q = xdndState p" | "xdndState q = xdndState_zero"
    | "fresh_source (xdndState q)"
    by blast
  then show ?thesis
  proof cases
    case 1
    then show ?thesis by simp
  next
    case 2
    then show ?thesis
      by (cases "started p") (auto simp: code_step_def spec_step_reset abs_state_Idle_iff)
  next
    case 3
    then have "abs_state (xdndState q) = SourceNegotiating"
      by (rule abs_state_fresh_source)
    then show ?thesis
      by (cases "abs_state (xdndState p)") (auto simp: code_step_def intro: spec_step.intros)
  qed
qed

text \<open>
  C14: One event moves the process along the state machine of the specification: the
  state read off the flags stays the same or changes by one transition of the
  specification. The one exception is a motion event that takes a target to
  \<open>SourceNegotiating\<close>, which the specification does not have. In particular no event
  takes a target to \<open>TargetDropped\<close> unless it was in \<open>TargetTracking\<close>, and no event
  takes an idle process anywhere but to the two negotiating states.
\<close>

theorem handleEvent_refines:
  assumes "handleEvent ia v e p = Inr q" and "sm_inv (xdndState p)" and "atoms_wf ia"
  shows "abs_state (xdndState q) = abs_state (xdndState p) \<or>
    spec_step (abs_state (xdndState p)) (abs_state (xdndState q)) \<or>
    is_target (abs_state (xdndState p)) \<and> abs_state (xdndState q) = SourceNegotiating \<and>
      (\<exists>ev. e = MotionNotify ev)"
proof (cases e)
  case (SelectionRequest req)
  with assms show ?thesis by (auto dest: handleSelectionRequest_frame)
next
  case (SelectionNotify sel)
  with assms(1) have "q = p \<or> xdndState q = xdndState_zero"
    by (auto dest!: handleSelectionNotify_cases)
  then show ?thesis
    by (cases "started p") (auto simp: spec_step_reset abs_state_Idle_iff)
next
  case (MotionNotify ev)
  with assms abs_handleMotionNotify [of ia v ev p q] show ?thesis
    by (auto simp: code_step_def)
next
  case ButtonRelease
  with assms show ?thesis by (auto dest: handleButtonRelease_frame)
next
  case (ClientMessage m)
  with assms abs_handleClientMessage [of ia v m p q] show ?thesis by auto
qed (use assms in auto)

theorem handleEvent_refines_witness:
  "\<exists>q. handleEvent server_atoms view0 (ClientMessage position1) target1 = Inr q \<and>
    abs_state (xdndState target1) = TargetNegotiating \<and>
    abs_state (xdndState q) = TargetTracking \<and>
    spec_step (abs_state (xdndState target1)) (abs_state (xdndState q))"
proof -
  from first_position [of server_atoms target1 position1 view0]
  obtain q where q: "handleEvent server_atoms view0 (ClientMessage position1) target1 = Inr q"
    by auto
  then have t: "abs_state (xdndState q) = TargetTracking"
    by (auto simp: handleClientMessage_def targetMessage_def receiveXdndPosition_def Let_def
        sendXdndStatus_def abs_state_def atoms_wf_simps)
  have n: "abs_state (xdndState target1) = TargetNegotiating"
    by (simp add: abs_state_def)
  from handleEvent_refines [OF q] q t n show ?thesis
    by auto
qed

lemma code_step_handleEvent:
  assumes "handleEvent ia v e p = Inr q" and "sm_inv (xdndState p)" and "atoms_wf ia"
  shows "code_step\<^sup>=\<^sup>= (abs_state (xdndState p)) (abs_state (xdndState q))"
proof (cases e)
  case (SelectionRequest req)
  with assms show ?thesis by (auto dest: handleSelectionRequest_frame)
next
  case (SelectionNotify sel)
  with assms(1) have "q = p \<or> xdndState q = xdndState_zero"
    by (auto dest!: handleSelectionNotify_cases)
  then show ?thesis
    by (cases "started p") (auto simp: code_step_def spec_step_reset abs_state_Idle_iff)
next
  case (MotionNotify ev)
  with assms abs_handleMotionNotify [of ia v ev p q] show ?thesis
    by auto
next
  case ButtonRelease
  with assms show ?thesis by (auto dest: handleButtonRelease_frame)
next
  case (ClientMessage m)
  with assms abs_handleClientMessage [of ia v m p q] show ?thesis
    by (auto simp: code_step_def)
qed (use assms in auto)

lemma eventLoopStates_hd:
  "eventLoopStates ia es p = Inr ps \<Longrightarrow> ps \<noteq> [] \<and> hd ps = p"
  by (cases es) (auto simp: bindR_eq_Inr_iff split: if_splits sum.splits)

lemma eventLoopStates_last:
  "eventLoopStates ia es p = Inr ps \<Longrightarrow> eventLoop ia es p = Inr (last ps)"
proof (induction es arbitrary: p ps)
  case Nil
  then show ?case by auto
next
  case (Cons ve es)
  obtain v e where ve: "ve = (v, e)" by (cases ve)
  with Cons.prems Cons.IH show ?case
    by (auto simp: bindR_eq_Inr_iff split: if_splits sum.splits dest: eventLoopStates_hd)
qed

lemma eventLoop_states:
  "eventLoop ia es p = Inr q \<Longrightarrow> \<exists>ps. eventLoopStates ia es p = Inr ps \<and> last ps = q"
proof (induction es arbitrary: p)
  case Nil
  then show ?case by auto
next
  case (Cons ve es)
  obtain v e where ve: "ve = (v, e)" by (cases ve)
  with Cons.prems Cons.IH show ?case
    by (fastforce split: if_splits sum.splits dest: eventLoopStates_hd)
qed

lemma spec_path_Cons:
  "spec_path (s # ss) \<longleftrightarrow> ss = [] \<or> (s = hd ss \<or> code_step s (hd ss)) \<and> spec_path ss"
  by (simp add: spec_path_def successively_Cons)

text \<open>
  C15: A run of the event loop from a consistent state is a path in the state machine.
  The states the loop has at the head of each iteration, read through \<open>abs_state\<close>,
  form a list in which each state is followed by the same state or by a state that is one
  transition of the specification, or the transition from target to source, away; the
  list starts with the state the loop was entered with and ends with the state the loop
  returns.
\<close>

theorem eventLoop_refines:
  assumes "eventLoopStates ia es p = Inr ps" and "sm_inv (xdndState p)" and "atoms_wf ia"
  shows "eventLoop ia es p = Inr (last ps) \<and> hd ps = p \<and>
    spec_path (map (\<lambda>r. abs_state (xdndState r)) ps)"
proof -
  from assms(1,2) have "spec_path (map (\<lambda>r. abs_state (xdndState r)) ps)"
  proof (induction es arbitrary: p ps)
    case Nil
    then show ?case by (auto simp: spec_path_def)
  next
    case (Cons ve es)
    obtain v e where ve: "ve = (v, e)" by (cases ve)
    show ?case
    proof (cases "continueEventLoop p")
      case False
      with Cons.prems ve show ?thesis by (auto simp: spec_path_def)
    next
      case True
      with Cons.prems ve obtain q qs where h: "handleEvent ia v e p = Inr q"
        and l: "eventLoopStates ia es q = Inr qs" and ps: "ps = p # qs"
        by (auto simp: bindR_eq_Inr_iff split: sum.splits)
      from h Cons.prems(2) have "sm_inv (xdndState q)"
        by (rule sm_inv_handleEvent)
      with l have "spec_path (map (\<lambda>r. abs_state (xdndState r)) qs)"
        by (rule Cons.IH)
      moreover from code_step_handleEvent [OF h Cons.prems(2) assms(3)]
      have "abs_state (xdndState p) = abs_state (xdndState q) \<or>
          code_step (abs_state (xdndState p)) (abs_state (xdndState q))"
        by auto
      moreover from l have "qs \<noteq> []" "hd qs = q"
        by (auto dest: eventLoopStates_hd)
      ultimately show ?thesis
        by (simp add: ps spec_path_Cons hd_map)
    qed
  qed
  with assms(1) show ?thesis
    by (auto dest: eventLoopStates_last eventLoopStates_hd)
qed

theorem eventLoop_refines_witness:
  "\<exists>ps. eventLoopStates server_atoms [(view0, ClientMessage position1)] target1 = Inr ps \<and>
    map (\<lambda>r. abs_state (xdndState r)) ps = [TargetNegotiating, TargetTracking] \<and>
    spec_path (map (\<lambda>r. abs_state (xdndState r)) ps)"
proof -
  from first_position [of server_atoms target1 position1 view0]
  obtain q where q: "handleEvent server_atoms view0 (ClientMessage position1) target1 = Inr q"
    by auto
  then have t: "abs_state (xdndState q) = TargetTracking"
    by (auto simp: handleClientMessage_def targetMessage_def receiveXdndPosition_def Let_def
        sendXdndStatus_def abs_state_def atoms_wf_simps)
  have n: "abs_state (xdndState target1) = TargetNegotiating"
    by (simp add: abs_state_def)
  from q have ps: "eventLoopStates server_atoms [(view0, ClientMessage position1)] target1
      = Inr [target1, q]"
    by simp
  from eventLoop_refines [OF ps] t n ps show ?thesis
    by simp
qed

text \<open>The relation is not the full one: these steps are not transitions.\<close>

lemma code_step_impossible:
  "\<not> code_step TargetNegotiating TargetDropped \<and> \<not> code_step Idle TargetDropped \<and>
   \<not> code_step Idle SourceAcked \<and> \<not> code_step Idle TargetTracking \<and>
   \<not> code_step TargetDropped TargetTracking \<and> \<not> code_step SourceAcked TargetNegotiating"
  by (auto simp: code_step_def elim: spec_step_TargetDroppedE spec_step_SourceAckedE
      spec_step_TargetTrackingE spec_step_TargetNegotiatingE)

end
