(* ===== verification/PeerRequests.thy ===== *)
theory PeerRequests
  imports HandlerInvariants
begin

text \<open>
  The interface between a process and the X server: which requests the event loop of
  \<^verbatim>\<open>src/spawn_window.c\<close> can issue, and what it does to the colour of the square and to
  the file, whatever event it handles.

  \<^item> \<open>req_ok ia w r\<close>: \<open>r\<close> is a request a process with window \<open>w\<close> issues after its
    setup. A client message it sends is one of the six XDND messages, of format 32, with
    \<open>w\<close> in slot 0; a selection notification names the property \<^verbatim>\<open>XDND_DATA\<close>; the only
    property it writes is \<^verbatim>\<open>XDND_DATA\<close> with the framed path of the file, the only one it
    deletes is \<^verbatim>\<open>XDND_DATA\<close> on its own window; it draws on its own window only.
  \<open>conforms ia p q\<close>: \<open>q\<close> has the window of \<open>p\<close> and its log is the log of \<open>p\<close> followed
    by such requests.
  \<^item> \<open>request_ok ia e\<close>: a selection request asks for the property \<^verbatim>\<open>XDND_DATA\<close>, which is
    what the drop handler of the target asks for (line 841).
  \<^item> \<open>file_ok fs\<close> (theory \<open>SquareState\<close>): the file of the square, when it exists, holds
    one of the two enumerators or fewer than four bytes, which is what a failed save
    leaves. \<open>data_ok ia v w\<close>: the property \<^verbatim>\<open>XDND_DATA\<close> of window \<open>w\<close> is absent or
    holds the framed path of the file.
\<close>

section \<open>Definitions\<close>

definition xdnd_types :: "AtomTable \<Rightarrow> Atom list" where
  "xdnd_types ia =
    [XdndEnter ia, XdndPosition ia, XdndLeave ia, XdndStatus ia, XdndDrop ia, XdndFinished ia]"

fun sent_ok :: "AtomTable \<Rightarrow> Window \<Rightarrow> Window \<Rightarrow> XEvent \<Rightarrow> bool" where
  "sent_ok ia w t (ClientMessage m) =
    (window m = t \<and> format m = 32 \<and> l0 m = w \<and> message_type m \<in> set (xdnd_types ia))"
| "sent_ok ia w t (SelectionNotify n) = (requestor n = t \<and> property n = XDND_DATA ia)"
| "sent_ok ia w t _ = False"

fun req_ok :: "AtomTable \<Rightarrow> Window \<Rightarrow> XRequest \<Rightarrow> bool" where
  "req_ok ia w (XSendEvent t e) = sent_ok ia w t e"
| "req_ok ia w (XSetSelectionOwner sel own t) = (sel = XdndSelection ia \<and> own = w)"
| "req_ok ia w (XConvertSelection sel ty prop req t) =
    (sel = XdndSelection ia \<and> prop = XDND_DATA ia \<and> req = w)"
| "req_ok ia w (XChangeProperty t a ty fmt bytes) =
    (a = XDND_DATA ia \<and> ty = typesWeAccept ia ! 0 \<and> fmt = 8 \<and>
     bytes = propertyData SQUARE_FILE_PATH)"
| "req_ok ia w (XDeleteProperty t a) = (t = w \<and> a = XDND_DATA ia)"
| "req_ok ia w (XSetForeground c) = True"
| "req_ok ia w (XClearWindow t) = (t = w)"
| "req_ok ia w (XFillRectangle t x y wd ht) = (t = w)"
| "req_ok ia w XFlush = True"
| "req_ok ia w XFreeGC = True"
| "req_ok ia w (XDestroyWindow t) = (t = w)"
| "req_ok ia w XCloseDisplay = True"
| "req_ok ia w _ = False"

definition conforms :: "AtomTable \<Rightarrow> Peer \<Rightarrow> Peer \<Rightarrow> bool" where
  "conforms ia p q =
    (wind q = wind p \<and> (\<exists>rs. out q = out p @ rs \<and> list_all (req_ok ia (wind p)) rs))"

definition issued :: "Peer \<Rightarrow> Peer \<Rightarrow> XRequest list" where
  "issued p q = drop (length (out p)) (out q)"

fun request_ok :: "AtomTable \<Rightarrow> XEvent \<Rightarrow> bool" where
  "request_ok ia (SelectionRequest r) = (property r = XDND_DATA ia)"
| "request_ok ia _ = True"

definition data_ok :: "AtomTable \<Rightarrow> XView \<Rightarrow> Window \<Rightarrow> bool" where
  "data_ok ia v w =
    (getProperty v w (XDND_DATA ia) = Some absent \<or>
     getProperty v w (XDND_DATA ia)
       = Some (data_property ia (propertyData SQUARE_FILE_PATH)))"

section \<open>The log of a handler\<close>

lemma conforms_refl [simp]: "conforms ia p p"
  by (simp add: conforms_def)

lemma conforms_trans: "conforms ia p q \<Longrightarrow> conforms ia q r \<Longrightarrow> conforms ia p r"
  by (auto simp: conforms_def)

lemma conforms_same: "out q = out p \<Longrightarrow> wind q = wind p \<Longrightarrow> conforms ia p q"
  by (simp add: conforms_def)

lemma conforms_emit: "conforms ia p q \<Longrightarrow> req_ok ia (wind p) r \<Longrightarrow> conforms ia p (emit r q)"
  by (auto simp: conforms_def)

lemma conforms_update [simp]:
  "conforms ia p (q\<lparr>square := sq\<rparr>) = conforms ia p q"
  "conforms ia p (q\<lparr>xdndState := st\<rparr>) = conforms ia p q"
  "conforms ia p (q\<lparr>clickedStillInWindow := b\<rparr>) = conforms ia p q"
  "conforms ia p (q\<lparr>continueEventLoop := b\<rparr>) = conforms ia p q"
  "conforms ia p (q\<lparr>files := fs\<rparr>) = conforms ia p q"
  "conforms ia p (memset_xdndState q) = conforms ia p q"
  by (simp_all add: conforms_def)

lemma conforms_from [simp]:
  "conforms ia (p\<lparr>square := sq\<rparr>) q = conforms ia p q"
  "conforms ia (p\<lparr>xdndState := st\<rparr>) q = conforms ia p q"
  "conforms ia (p\<lparr>files := fs\<rparr>) q = conforms ia p q"
  by (simp_all add: conforms_def)

lemma conforms_drawSquare: "conforms ia p q \<Longrightarrow> conforms ia p (drawSquare q)"
  by (auto simp: conforms_def out_drawSquare)

lemma conforms_releaseSquare: "conforms ia p q \<Longrightarrow> conforms ia p (releaseSquare q)"
  by (auto simp: releaseSquare_def Let_def intro!: conforms_drawSquare conforms_emit)

lemma xdnd_types_mem [simp]:
  "XdndEnter ia \<in> set (xdnd_types ia)" "XdndPosition ia \<in> set (xdnd_types ia)"
  "XdndLeave ia \<in> set (xdnd_types ia)" "XdndStatus ia \<in> set (xdnd_types ia)"
  "XdndDrop ia \<in> set (xdnd_types ia)" "XdndFinished ia \<in> set (xdnd_types ia)"
  by (simp_all add: xdnd_types_def)

lemma conforms_send:
  assumes "conforms ia p q" and "s = wind p"
  shows "sendXdndEnter ia v ver s t q = Inr q' \<Longrightarrow> conforms ia p q'"
    and "sendXdndPosition ia v s t tm px py q = Inr q' \<Longrightarrow> conforms ia p q'"
    and "sendXdndLeave ia v s t q = Inr q' \<Longrightarrow> conforms ia p q'"
    and "sendXdndFinished ia v s t q = Inr q' \<Longrightarrow> conforms ia p q'"
    and "sendXdndStatus ia v s t a q = Inr q' \<Longrightarrow> conforms ia p q'"
    and "sendXdndDrop ia v s t q = Inr q' \<Longrightarrow> conforms ia p q'"
  using assms
  by (auto simp: xdnd_send xSendEvent_Inr_iff intro!: conforms_emit split: if_splits)

lemma conforms_sendSelectionNotify:
  assumes "sendSelectionNotify ia v req SQUARE_FILE_PATH q = Inr q'" and "conforms ia p q"
    and "property req = XDND_DATA ia"
  shows "conforms ia p q'"
  using assms
  by (auto simp: sendSelectionNotify_def xSendEvent_Inr_iff intro!: conforms_emit
      split: if_splits)

lemma conforms_handleSelectionRequest:
  assumes "handleSelectionRequest ia v req p = Inr q" and "property req = XDND_DATA ia"
  shows "conforms ia p q"
  using assms
  by (auto simp: handleSelectionRequest_def bindR_eq_Inr_iff saveSquareState_Inr_iff
      split: if_splits intro: conforms_sendSelectionNotify [where q = "p\<lparr>files := fs\<rparr>" for fs])

lemma conforms_handleSelectionNotify:
  assumes "handleSelectionNotify ia v sel p = Inr q"
  shows "conforms ia p q"
  using assms
  by (auto simp: handleSelectionNotify_Inr_iff split: if_splits
      intro!: conforms_drawSquare
      elim!: conforms_send(4) [rotated 2] intro!: conforms_emit)

lemma conforms_wind: "conforms ia p q \<Longrightarrow> wind q = wind p"
  by (simp add: conforms_def)

lemma conforms_leaveOldTarget:
  assumes "leaveOldTarget ia v w p1 = Inr q" and "conforms ia p p1"
  shows "conforms ia p q"
  using assms conforms_wind [OF assms(2)]
  by (auto simp: leaveOldTarget_def bindR_eq_Inr_iff split: if_splits
      dest: conforms_send(3) [rotated 2])

lemma conforms_engageTarget:
  assumes "engageTarget ia v ev w p1 = Inr (Some q)" and "conforms ia p p1"
  shows "conforms ia p q"
  using assms conforms_wind [OF assms(2)]
  by (auto simp: engageTarget_def bindR_eq_Inr_iff Let_def split: if_splits
      dest!: conforms_send(1) [rotated 2] intro!: conforms_emit)

lemma conforms_positionUpdate:
  assumes "positionUpdate ia v ev w p1 = Inr q" and "conforms ia p p1"
  shows "conforms ia p q"
  using assms conforms_wind [OF assms(2)]
  by (auto simp: positionUpdate_def split: if_splits dest: conforms_send(2) [rotated 2])

lemma conforms_handleMotionNotify:
  assumes "handleMotionNotify ia v ev p = Inr q"
  shows "conforms ia p q"
proof -
  have start: "conforms ia p (p\<lparr>square := dragSquare ev (square p)\<rparr>)"
    by simp
  from assms show ?thesis
    by (auto simp: handleMotionNotify_Inr_iff split: if_splits
        intro!: conforms_drawSquare
        dest!: conforms_leaveOldTarget [OF _ start]
        dest: conforms_engageTarget conforms_positionUpdate)
qed

lemma conforms_handleKeyRelease: "conforms ia p (handleKeyRelease k p)"
  by (auto simp: handleKeyRelease_def Let_def intro!: conforms_drawSquare conforms_emit)

lemma conforms_handleButtonPress: "conforms ia p (handleButtonPress x y p)"
  by (auto simp: handleButtonPress_def intro!: conforms_drawSquare conforms_emit)

lemma conforms_handleButtonRelease:
  assumes "handleButtonRelease ia v p = Inr q"
  shows "conforms ia p q"
  using assms
  by (auto simp: handleButtonRelease_def dropIfAccepted_def bindR_eq_Inr_iff
      split: if_splits intro!: conforms_releaseSquare
      dest: conforms_send(6) [OF conforms_refl refl])

lemma conforms_receiveXdndPosition:
  assumes "receiveXdndPosition ia v m p = Inr q"
  shows "conforms ia p q"
  using assms
  by (auto simp: receiveXdndPosition_def Let_def split: if_splits
      dest!: conforms_send(5) [rotated 2])

lemma conforms_receiveXdndDrop: "conforms ia p q \<Longrightarrow> conforms ia p (receiveXdndDrop ia m q)"
  by (auto simp: receiveXdndDrop_def Let_def dest: conforms_wind intro!: conforms_emit)

lemma conforms_handleClientMessage:
  assumes "handleClientMessage ia v m p = Inr q"
  shows "conforms ia p q"
  using assms
  by (auto simp: handleClientMessage_def receiveXdndEnter_def sourceMessage_def
      targetMessage_Inr_iff bindR_eq_Inr_iff Let_def
      split: if_splits intro!: conforms_drawSquare conforms_receiveXdndDrop
      dest!: conforms_send(3) [rotated 2] conforms_receiveXdndPosition)

text \<open>
  Whatever event a process handles, the requests it issues are requests of the
  interface, provided a selection request it is given names \<^verbatim>\<open>XDND_DATA\<close>.
\<close>

lemma conforms_handleEvent:
  assumes "handleEvent ia v e p = Inr q" and "request_ok ia e"
  shows "conforms ia p q"
proof (cases e)
  case (SelectionRequest req)
  with assms show ?thesis by (auto dest: conforms_handleSelectionRequest)
next
  case (SelectionNotify sel)
  with assms show ?thesis by (auto dest: conforms_handleSelectionNotify)
next
  case (MotionNotify ev)
  with assms show ?thesis by (auto dest: conforms_handleMotionNotify)
next
  case ButtonRelease
  with assms show ?thesis by (auto dest: conforms_handleButtonRelease)
next
  case (ClientMessage m)
  with assms show ?thesis by (auto dest: conforms_handleClientMessage)
qed (use assms in \<open>auto simp: conforms_handleKeyRelease conforms_handleButtonPress
    handleEnterNotify_def handleLeaveNotify_def intro!: conforms_drawSquare\<close>)

lemma issued_conforms:
  assumes "conforms ia p q"
  shows "list_all (req_ok ia (wind p)) (issued p q)" and "out q = out p @ issued p q"
  using assms by (auto simp: conforms_def issued_def)

section \<open>The file and the colour\<close>

lemma files_motion:
  "leaveOldTarget ia v w p = Inr q \<Longrightarrow> files q = files p"
  "engageTarget ia v ev w p = Inr (Some q) \<Longrightarrow> files q = files p"
  "positionUpdate ia v ev w p = Inr q \<Longrightarrow> files q = files p"
  by (auto simp: leaveOldTarget_def engageTarget_def bindR_eq_Inr_iff Let_def only_out_def
      split: if_splits dest!: send_only_out positionUpdate_only_out)

lemma files_handleMotionNotify:
  "handleMotionNotify ia v ev p = Inr q \<Longrightarrow> files q = files p"
  by (auto simp: handleMotionNotify_Inr_iff split: if_splits dest!: files_motion)

lemma files_handleSelectionNotify:
  "handleSelectionNotify ia v sel p = Inr q \<Longrightarrow> files q = files p"
  by (auto simp: handleSelectionNotify_Inr_iff only_out_def split: if_splits
      dest!: send_only_out(4))

lemma files_handleButtonRelease:
  "handleButtonRelease ia v p = Inr q \<Longrightarrow> files q = files p"
  by (auto simp: handleButtonRelease_def bindR_eq_Inr_iff only_out_def
      dest!: dropIfAccepted_only_out)

lemma files_handleClientMessage:
  "handleClientMessage ia v m p = Inr q \<Longrightarrow> files q = files p"
  by (auto simp: handleClientMessage_def receiveXdndEnter_def sourceMessage_def
      targetMessage_Inr_iff receiveXdndPosition_def receiveXdndDrop_def bindR_eq_Inr_iff
      Let_def only_out_def split: if_splits dest!: send_only_out)

lemma files_handleSelectionRequest:
  assumes "handleSelectionRequest ia v req p = Inr q"
  shows "files q = filesAfterEvent ia v (SelectionRequest req) p"
  using assms
  by (auto simp: handleSelectionRequest_def bindR_eq_Inr_iff only_out_def split: if_splits
      dest!: sendSelectionNotify_only_out saveSquareState_files_Inr)

text \<open>
  A handler that returns leaves the files \<open>filesAfterEvent\<close> gives; whether it returns or
  not, the file is left as it was, empty, or with the colour of the square.
\<close>

lemma files_handleEvent:
  assumes "handleEvent ia v e p = Inr q"
  shows "files q = filesAfterEvent ia v e p"
proof (cases e)
  case (SelectionRequest req)
  with assms show ?thesis
    by (simp add: files_handleSelectionRequest)
qed (use assms in \<open>auto dest: files_handleSelectionNotify files_handleMotionNotify
    files_handleButtonRelease files_handleClientMessage
    simp: handleKeyRelease_def handleButtonPress_def handleEnterNotify_def
      handleLeaveNotify_def Let_def\<close>)

lemma file_ok_filesAfterEvent:
  assumes "file_ok (files p)" and "colour_ok (square p)"
  shows "file_ok (filesAfterEvent ia v e p)"
  using assms by (cases e) (simp_all add: file_ok_saveSquareState_files)

lemma file_ok_handleEvent:
  assumes "handleEvent ia v e p = Inr q" and "file_ok (files p)" and "colour_ok (square p)"
  shows "file_ok (files q)"
  using assms by (simp add: files_handleEvent file_ok_filesAfterEvent)

lemma colour_ok_fields [simp]:
  "colour_ok (sq\<lparr>visible := b\<rparr>) = colour_ok sq"
  "colour_ok (sq\<lparr>selected := b\<rparr>) = colour_ok sq"
  "colour_ok (sq\<lparr>mouse_x := x\<rparr>) = colour_ok sq"
  "colour_ok (sq\<lparr>mouse_y := y\<rparr>) = colour_ok sq"
  "colour_ok (dragSquare ev sq) = colour_ok sq"
  "colour_ok (placeSquare v sq) = colour_ok sq"
  by (simp_all add: colour_ok_def dragSquare_def placeSquare_def)

text \<open>
  What \<^verbatim>\<open>restoreSquareState\<close> reads is an enumerator when the property holds the framed
  path of the file and the file holds one.
\<close>

lemma colour_ok_handleSelectionNotify:
  assumes "handleSelectionNotify ia v sel p = Inr q" and "colour_ok (square p)"
    and "file_ok (files p)" and "data_ok ia v (wind p)"
  shows "colour_ok (square q)"
proof (cases "property sel = XDND_DATA ia")
  case False
  with assms show ?thesis by (simp add: handleSelectionNotify_Inr_iff)
next
  case True
  with assms(1) obtain path sq p3 where
    path: "getCopiedData ia v (wind p) = Inr (Some path)"
    and sq: "restoreSquareState (fault v) (files p) path (square p) = Inr sq"
    and p3: "sendXdndFinished ia v (wind p) (otherWindow (xdndState p))
         ((emit (XSetForeground (foreground (sq\<lparr>visible := True\<rparr>)))
            (emit (XDeleteProperty (wind p) (XDND_DATA ia)) p))
          \<lparr>square := placeSquare v (sq\<lparr>visible := True\<rparr>)\<rparr>) = Inr p3"
    and q: "q = drawSquare (memset_xdndState p3)"
    by (auto simp: handleSelectionNotify_Inr_iff)
  have malloc: "\<not> fault v ''malloc''"
    using path assms(4) by (auto simp: getCopiedData_def data_ok_def)
  with path assms(4) have "path = SQUARE_FILE_PATH"
    by (auto simp: data_ok_def getCopiedData_absent getCopiedData_framed cstr_id)
  with sq assms(3) have "colour_ok sq"
    by (auto dest: restoreSquareState_file_ok)
  moreover from p3 have "square p3 = placeSquare v (sq\<lparr>visible := True\<rparr>)"
    by (auto dest!: send_only_out(4) simp: only_out_def)
  ultimately show ?thesis
    using q by simp
qed

lemma colour_ok_handleKeyRelease:
  "colour_ok (square p) \<Longrightarrow> colour_ok (square (handleKeyRelease k p))"
  by (simp add: handleKeyRelease_def Let_def colour_ok_def)

lemma colour_ok_handleEvent:
  assumes "handleEvent ia v e p = Inr q" and "colour_ok (square p)"
    and "file_ok (files p)" and "data_ok ia v (wind p)"
  shows "colour_ok (square q)"
proof (cases e)
  case (SelectionNotify sel)
  with assms show ?thesis by (auto dest: colour_ok_handleSelectionNotify)
next
  case (MotionNotify ev)
  with assms show ?thesis by (auto dest!: handleMotionNotify_frame(1) split: if_splits)
next
  case (KeyRelease k)
  with assms show ?thesis by (auto simp: colour_ok_handleKeyRelease)
next
  case (ButtonPress x y)
  with assms show ?thesis by (auto simp: handleButtonPress_def)
next
  case (ClientMessage m)
  with assms show ?thesis by (auto dest!: handleClientMessage_frame(1))
qed (use assms in \<open>auto dest: handleSelectionRequest_frame handleButtonRelease_frame\<close>)

end
