(* ===== verification/XdndSystem.thy ===== *)
theory XdndSystem
  imports SpawnWindow PeerRequests
begin

text \<open>
  The program as a whole: the two processes \<^verbatim>\<open>main\<close> creates (\<^verbatim>\<open>src/main.c\<close>), each in the
  event loop of \<^verbatim>\<open>spawnWindow\<close>, and the X server between them.

  \<^item> \<open>Proc\<close> names the two processes after their window titles: \<open>Phil\<close> is the child
    (\<^verbatim>\<open>procId\<close> 0), \<open>Stuart\<close> the parent. A \<open>Process\<close> is in its loop with a state
    (\<open>Running\<close>), has left through \<^verbatim>\<open>exit(0)\<close> after the teardown (\<open>Closed\<close>), or has ended
    with an error (\<open>Failed\<close>).
  \<^item> \<open>System\<close> holds the two processes, the server and the file system they share.
    \<open>launch\<close> is \<^verbatim>\<open>main\<close> followed by the setup of both processes; the server has served
    the requests of both setups, which touch different windows.
  \<^item> \<open>sys_handle ia v i\<close> is one turn of the loop of process \<open>i\<close> (lines 544-546 and
    849-856): \<^verbatim>\<open>XNextEvent\<close> takes the first event that waits for its window (with none
    waiting the call blocks and nothing changes), the \<^verbatim>\<open>switch\<close> handles it while the
    process sees the properties of the server and the shared files, and the server then
    serves the requests the handler has issued, in order. A handler that ends the loop is
    followed by the teardown; a handler that ends in an error closes the connection.
    The delivery of the event and the service of the requests are the server's part of
    the turn (theory \<open>XServer\<close>); the turn is one step of the system.
    Xlib keeps requests in its output buffer until the next call that waits for the
    server, and \<^verbatim>\<open>exit\<close> does not send them: the requests of a turn that ends in an
    error are issued after the last such call of the handler, so they never reach the
    server and the model drops them. A file is written at once: the failing turn
    leaves the files \<open>filesAfterEvent\<close> gives.
    The view \<open>v\<close> supplies what the server state does not hold: the window tree with its
    geometry, the pointer, and the calls that fail.
  \<^item> \<open>Input w e\<close> is the user or the window manager: an event of the pointer, the
    keyboard or exposure, or the close request, put into the queue of a window
    (\<open>is_input\<close>). Selection events and XDND messages come from the server and the two
    processes only.
  \<^item> \<open>sys_step\<close> is the step relation of the system, \<open>sys_run\<close> runs a list of actions.
  \<^item> \<open>sys0\<close> is the system after a launch without failures, with the windows 7 and 9;
    \<open>desk\<close> is a view in which the two windows lie side by side.
  \<^item> \<open>sys_inv\<close> is the invariant of the system: each running process keeps \<open>peer_inv\<close>,
    shows an enumerator colour and has its own window; the file holds an enumerator or,
    after a save that failed, fewer than four bytes (\<open>file_ok\<close>); the
    property \<^verbatim>\<open>XDND_DATA\<close> of any window is absent or the framed path of the file; every
    waiting event is well-formed (\<open>event_ok\<close>), in particular every XDND message carries
    the window of one of the two processes in slot 0; the selection is owned by one of
    the two windows or by none.
\<close>

section \<open>The system\<close>

datatype Proc = Phil | Stuart

datatype Process = Running Peer | Closed | Failed error

record System =
  procs :: "Proc \<Rightarrow> Process"
  server :: Server
  disk :: files

datatype Action = Handle XView Proc | Input Window XEvent

definition start :: "Peer result \<Rightarrow> Process" where
  "start r = (case r of Inl err \<Rightarrow> Failed err | Inr p \<Rightarrow> Running p)"

definition requests_of :: "Process \<Rightarrow> XRequest list" where
  "requests_of pr = (case pr of Running p \<Rightarrow> out p | _ \<Rightarrow> [])"

definition launch ::
  "AtomTable \<Rightarrow> (Proc \<Rightarrow> faults) \<Rightarrow> int \<Rightarrow> (Proc \<Rightarrow> Window) \<Rightarrow> Pixel \<Rightarrow> files
     \<Rightarrow> System result" where
  "launch ia flt forked win white fs =
    bindR (main forked) (\<lambda>ids.
      let a = start (spawnSetup ia (flt Phil) (ids ! 0) (win Phil) white fs);
          b = start (spawnSetup ia (flt Stuart) (ids ! 1) (win Stuart) white fs)
      in Inr \<lparr>procs = case_Proc a b,
              server = serve_all (requests_of a @ requests_of b) server0,
              disk = fs\<rparr>)"

definition sys_handle :: "AtomTable \<Rightarrow> XView \<Rightarrow> Proc \<Rightarrow> System \<Rightarrow> System" where
  "sys_handle ia v i s =
    (case procs s i of
       Running p0 \<Rightarrow>
         (case queue (server s) (wind p0) of
            [] \<Rightarrow> s
          | e # es \<Rightarrow>
              let p = p0\<lparr>files := disk s\<rparr>;
                  sv = (server s)\<lparr>queue := (queue (server s))(wind p0 := es)\<rparr>
              in case handleEvent ia (view sv v) e p of
                   Inl err \<Rightarrow>
                     s\<lparr>procs := (procs s)(i := Failed err),
                       server := disconnect (wind p0) sv,
                       disk := filesAfterEvent ia (view sv v) e p\<rparr>
                 | Inr q \<Rightarrow>
                     if continueEventLoop q
                     then s\<lparr>procs := (procs s)(i := Running q),
                            server := serve_all (issued p q) sv, disk := files q\<rparr>
                     else s\<lparr>procs := (procs s)(i := Closed),
                            server := serve_all (issued p (teardown q)) sv,
                            disk := files q\<rparr>)
     | _ \<Rightarrow> s)"

definition is_input :: "AtomTable \<Rightarrow> XEvent \<Rightarrow> bool" where
  "is_input ia e =
    (case e of
       SelectionRequest r \<Rightarrow> False
     | SelectionNotify n \<Rightarrow> False
     | ClientMessage m \<Rightarrow> message_type m = WM_PROTOCOLS ia
     | _ \<Rightarrow> True)"

definition sys_input :: "Window \<Rightarrow> XEvent \<Rightarrow> System \<Rightarrow> System" where
  "sys_input w e s = s\<lparr>server := post w e (server s)\<rparr>"

fun sys_act :: "AtomTable \<Rightarrow> Action \<Rightarrow> System \<Rightarrow> System" where
  "sys_act ia (Handle v i) s = sys_handle ia v i s"
| "sys_act ia (Input w e) s = sys_input w e s"

fun allowed :: "AtomTable \<Rightarrow> Action \<Rightarrow> bool" where
  "allowed ia (Handle v i) = True"
| "allowed ia (Input w e) = is_input ia e"

definition sys_run :: "AtomTable \<Rightarrow> Action list \<Rightarrow> System \<Rightarrow> System" where
  "sys_run ia acts s = fold (sys_act ia) acts s"

inductive sys_step :: "AtomTable \<Rightarrow> System \<Rightarrow> System \<Rightarrow> bool" for ia where
  handle: "sys_step ia s (sys_handle ia v i s)"
| input: "is_input ia e \<Longrightarrow> sys_step ia s (sys_input w e s)"

definition desk :: XView where
  "desk = \<lparr>fault = no_faults,
     tree = WNode 1 0 0 1000 1000 [WNode 7 0 0 200 200 [], WNode 9 200 0 200 200 []],
     getProperty = (\<lambda>w a. None), pointer = (60, 40)\<rparr>"

definition sys0 :: System where
  "sys0 = \<lparr>procs = case_Proc
       (start (spawnSetup server_atoms no_faults 0 7 0xFFFFFF Map.empty))
       (start (spawnSetup server_atoms no_faults 4711 9 0xFFFFFF Map.empty)),
     server = serve_all (setupRequests server_atoms 0 7 0xFFFFFF @
       setupRequests server_atoms 4711 9 0xFFFFFF) server0,
     disk = Map.empty\<rparr>"

section \<open>The invariant\<close>

definition event_ok :: "AtomTable \<Rightarrow> Window set \<Rightarrow> XEvent \<Rightarrow> bool" where
  "event_ok ia W e =
    (case e of
       SelectionRequest r \<Rightarrow>
         property r = XDND_DATA ia \<and> selection r = XdndSelection ia \<and> requestor r \<in> W
     | ClientMessage m \<Rightarrow>
         message_type m = WM_PROTOCOLS ia \<or>
         message_type m \<in> set (xdnd_types ia) \<and> format m = 32 \<and> l0 m \<in> W
     | _ \<Rightarrow> True)"

definition server_ok :: "AtomTable \<Rightarrow> Window set \<Rightarrow> Server \<Rightarrow> bool" where
  "server_ok ia W sv =
    ((\<forall>w. props sv w (XDND_DATA ia) = absent \<or>
          props sv w (XDND_DATA ia) = data_property ia (propertyData SQUARE_FILE_PATH)) \<and>
     (\<forall>w. list_all (event_ok ia W) (queue sv w)) \<and>
     owner sv (XdndSelection ia) \<in> insert XNone W)"

definition proc_ok :: "Window \<Rightarrow> Process \<Rightarrow> bool" where
  "proc_ok w pr =
    (case pr of
       Running p \<Rightarrow> peer_inv p \<and> colour_ok (square p) \<and> continueEventLoop p \<and> wind p = w
     | _ \<Rightarrow> True)"

definition sys_inv :: "AtomTable \<Rightarrow> (Proc \<Rightarrow> Window) \<Rightarrow> System \<Rightarrow> bool" where
  "sys_inv ia win s =
    ((\<forall>i. proc_ok (win i) (procs s i)) \<and> file_ok (disk s) \<and>
     server_ok ia (range win) (server s))"

section \<open>The server keeps its part\<close>

lemma sys_run_simps [simp]:
  "sys_run ia [] s = s"
  "sys_run ia (a # acts) s = sys_run ia acts (sys_act ia a s)"
  "sys_run ia (acts @ acts') s = sys_run ia acts' (sys_run ia acts s)"
  by (simp_all add: sys_run_def)

lemma event_ok_simps [simp]:
  "event_ok ia W (SelectionNotify n)" "event_ok ia W (MotionNotify ev)"
  "event_ok ia W (KeyRelease k)" "event_ok ia W (ButtonPress x y)"
  "event_ok ia W ButtonRelease" "event_ok ia W Expose" "event_ok ia W EnterNotify"
  "event_ok ia W LeaveNotify" "event_ok ia W (OtherEvent t)" "event_ok ia W SelectionClear"
  by (simp_all add: event_ok_def SelectionClear_def)

lemma event_ok_input: "is_input ia e \<Longrightarrow> event_ok ia W e"
  by (cases e) (simp_all add: is_input_def event_ok_def)

lemma event_ok_request: "event_ok ia W e \<Longrightarrow> request_ok ia e"
  by (cases e) (simp_all add: event_ok_def)

lemma server_ok_post: "server_ok ia W sv \<Longrightarrow> event_ok ia W e \<Longrightarrow> server_ok ia W (post w e sv)"
  by (simp add: server_ok_def)

lemma server_ok_pop:
  assumes "server_ok ia W sv" and "queue sv w = e # es"
  shows "server_ok ia W (sv\<lparr>queue := (queue sv)(w := es)\<rparr>)" and "event_ok ia W e"
proof -
  from assms have "list_all (event_ok ia W) (e # es)"
    by (metis server_ok_def)
  with assms(1) show "server_ok ia W (sv\<lparr>queue := (queue sv)(w := es)\<rparr>)" and "event_ok ia W e"
    by (simp_all add: server_ok_def)
qed

lemma server_ok_server0 [simp]: "server_ok ia W server0"
  by (simp add: server_ok_def server0_def no_properties_def)

lemma hd_typesWeAccept: "hd (typesWeAccept ia) = typesWeAccept ia ! 0"
  by (simp add: typesWeAccept_def type_names_def)

text \<open>A request of the interface, made by one of the two processes, keeps the server well-formed.\<close>

lemma server_ok_serve:
  assumes "server_ok ia W sv" and "req_ok ia w r" and "w \<in> W"
  shows "server_ok ia W (serve r sv)"
proof (cases r)
  case (XSendEvent t e)
  with assms(2,3) have "event_ok ia W e"
    by (cases e) (auto simp: event_ok_def)
  with assms(1) XSendEvent show ?thesis
    by (simp add: server_ok_post)
next
  case (XSetSelectionOwner sel own t)
  with assms show ?thesis
    by (auto simp: Let_def intro!: server_ok_post) (auto simp: server_ok_def)
next
  case (XConvertSelection sel ty a req t)
  with assms show ?thesis
    by (auto intro!: server_ok_post simp: event_ok_def)
next
  case (XChangeProperty t a ty fmt bytes)
  with assms show ?thesis
    by (auto simp: server_ok_def data_property_def hd_typesWeAccept)
next
  case (XDeleteProperty t a)
  with assms show ?thesis
    by (auto simp: server_ok_def)
next
  case (XDestroyWindow t)
  with assms show ?thesis
    by (auto simp: server_ok_def)
qed (use assms in \<open>auto simp: server_ok_def\<close>)

lemma server_ok_serve_all:
  assumes "list_all (req_ok ia w) rs" and "server_ok ia W sv" and "w \<in> W"
  shows "server_ok ia W (serve_all rs sv)"
  using assms by (induction rs arbitrary: sv) (auto intro: server_ok_serve)

lemma server_ok_disconnect: "server_ok ia W sv \<Longrightarrow> server_ok ia W (disconnect w sv)"
  by (auto simp: disconnect_def server_ok_def)

section \<open>Every step keeps the invariant\<close>

lemma conforms_teardown: "conforms ia p q \<Longrightarrow> conforms ia p (teardown q)"
  by (auto simp: teardown_def dest: conforms_wind intro!: conforms_emit)

lemma data_ok_view:
  assumes "server_ok ia W sv"
  shows "data_ok ia (view sv v) w"
proof -
  from assms have "props sv w (XDND_DATA ia) = absent \<or>
      props sv w (XDND_DATA ia) = data_property ia (propertyData SQUARE_FILE_PATH)"
    by (simp add: server_ok_def)
  then show ?thesis
    by (auto simp: data_ok_def)
qed

lemma proc_ok_Running:
  "proc_ok w (Running p) \<longleftrightarrow>
     peer_inv p \<and> colour_ok (square p) \<and> continueEventLoop p \<and> wind p = w"
  by (simp add: proc_ok_def)

lemma proc_ok_ended [simp]: "proc_ok w Closed" "proc_ok w (Failed err)"
  by (simp_all add: proc_ok_def)

lemma sys_inv_update:
  assumes "sys_inv ia win s" and "proc_ok (win i) pr" and "file_ok fs"
    and "server_ok ia (range win) sv"
  shows "sys_inv ia win (s\<lparr>procs := (procs s)(i := pr), server := sv, disk := fs\<rparr>)"
  using assms by (simp add: sys_inv_def)

text \<open>One turn of the loop of either process keeps the invariant of the system.\<close>

lemma sys_inv_handle:
  assumes "sys_inv ia win s"
  shows "sys_inv ia win (sys_handle ia v i s)"
proof (cases "procs s i")
  case (Running p0)
  show ?thesis
  proof (cases "queue (server s) (wind p0)")
    case Nil
    with Running assms show ?thesis by (simp add: sys_handle_def)
  next
    case (Cons e es)
    define p where "p = p0\<lparr>files := disk s\<rparr>"
    define sv where "sv = (server s)\<lparr>queue := (queue (server s))(wind p0 := es)\<rparr>"
    from assms Running have p: "peer_inv p" "colour_ok (square p)" "wind p = win i"
      and fs: "file_ok (files p)"
      by (auto simp: sys_inv_def p_def peer_inv_def dest!: spec [of _ i] simp: proc_ok_Running)
    from assms have "server_ok ia (range win) (server s)"
      by (simp add: sys_inv_def)
    from server_ok_pop [OF this Cons]
    have sv: "server_ok ia (range win) sv" and e: "event_ok ia (range win) e"
      by (simp_all add: sv_def)
    show ?thesis
    proof (cases "handleEvent ia (view sv v) e p")
      case (Inl err)
      with Running Cons have "sys_handle ia v i s =
          s\<lparr>procs := (procs s)(i := Failed err), server := disconnect (wind p0) sv,
            disk := filesAfterEvent ia (view sv v) e p\<rparr>"
        by (simp add: sys_handle_def p_def sv_def Let_def)
      with assms sv p fs show ?thesis
        by (simp add: sys_inv_update server_ok_disconnect file_ok_filesAfterEvent)
    next
      case (Inr q)
      from conforms_handleEvent [OF Inr event_ok_request [OF e]]
      have c: "conforms ia p q" .
      from Inr p fs sv have q: "peer_inv q" "colour_ok (square q)" "file_ok (files q)"
        by (auto dest: peer_inv_handleEvent colour_ok_handleEvent file_ok_handleEvent
            simp: data_ok_view)
      from c p have w: "wind q = win i"
        by (simp add: conforms_def)
      have srv: "server_ok ia (range win) (serve_all (issued p r) sv)" if "conforms ia p r" for r
        using issued_conforms(1) [OF that] sv p(3)
        by (auto intro: server_ok_serve_all)
      show ?thesis
      proof (cases "continueEventLoop q")
        case True
        with Running Cons Inr have "sys_handle ia v i s =
            s\<lparr>procs := (procs s)(i := Running q), server := serve_all (issued p q) sv,
              disk := files q\<rparr>"
          by (simp add: sys_handle_def p_def sv_def)
        with assms q w True srv [OF c] show ?thesis
          by (simp add: sys_inv_update proc_ok_Running)
      next
        case False
        with Running Cons Inr have "sys_handle ia v i s =
            s\<lparr>procs := (procs s)(i := Closed), server := serve_all (issued p (teardown q)) sv,
              disk := files q\<rparr>"
          by (simp add: sys_handle_def p_def sv_def)
        with assms q srv [OF conforms_teardown [OF c]] show ?thesis
          by (simp add: sys_inv_update)
      qed
    qed
  qed
qed (use assms in \<open>simp_all add: sys_handle_def\<close>)

lemma sys_inv_input:
  assumes "sys_inv ia win s" and "is_input ia e"
  shows "sys_inv ia win (sys_input w e s)"
  using assms by (simp add: sys_inv_def sys_input_def server_ok_post event_ok_input)

lemma sys_inv_step: "sys_step ia s t \<Longrightarrow> sys_inv ia win s \<Longrightarrow> sys_inv ia win t"
  by (induction rule: sys_step.induct) (simp_all add: sys_inv_handle sys_inv_input)

lemma sys_inv_steps: "(sys_step ia)\<^sup>*\<^sup>* s t \<Longrightarrow> sys_inv ia win s \<Longrightarrow> sys_inv ia win t"
  by (induction rule: rtranclp_induct) (auto intro: sys_inv_step)

section \<open>The launch establishes it\<close>

lemma setup_props:
  assumes "atoms_wf ia"
  shows "props (serve_all (setupRequests ia procId w white) sv) w' (XDND_DATA ia)
    = props sv w' (XDND_DATA ia)"
    and "queue (serve_all (setupRequests ia procId w white) sv) = queue sv"
    and "owner (serve_all (setupRequests ia procId w white) sv) = owner sv"
  using assms by (simp_all add: setupRequests_def atoms_wf_simps)

lemma server_ok_setup:
  assumes "atoms_wf ia" and "server_ok ia W sv"
  shows "server_ok ia W (serve_all (setupRequests ia procId w white) sv)"
  using assms(2) by (simp add: server_ok_def setup_props [OF assms(1)])

lemma proc_ok_start: "proc_ok w (start (spawnSetup ia flt procId w white fs))"
  by (auto simp: start_def proc_ok_Running spawnSetup_Inr_iff peer_inv_def colour_ok_def
      initialSquare_def square_inv_def split: sum.splits)

lemma requests_of_start:
  "requests_of (start (spawnSetup ia flt procId w white fs)) = [] \<or>
   requests_of (start (spawnSetup ia flt procId w white fs)) = setupRequests ia procId w white"
  by (auto simp: start_def requests_of_def spawnSetup_Inr_iff split: sum.splits)

lemma sys_inv_launch:
  assumes "launch ia flt forked win white fs = Inr s" and "atoms_wf ia" and "file_ok fs"
  shows "sys_inv ia win s"
proof -
  let ?a = "start (spawnSetup ia (flt Phil) 0 (win Phil) white fs)"
  let ?b = "start (spawnSetup ia (flt Stuart) forked (win Stuart) white fs)"
  from assms(1) have s: "s = \<lparr>procs = case_Proc ?a ?b,
      server = serve_all (requests_of ?a @ requests_of ?b) server0, disk = fs\<rparr>"
    by (auto simp: launch_def main_def bindR_eq_Inr_iff Let_def philError_def
        split: if_splits)
  have "proc_ok (win i) (case_Proc ?a ?b i)" for i
    by (cases i) (simp_all add: proc_ok_start)
  moreover have "server_ok ia (range win) (serve_all (requests_of ?a @ requests_of ?b) server0)"
    using requests_of_start [of ia "flt Phil" 0 "win Phil" white fs]
      requests_of_start [of ia "flt Stuart" forked "win Stuart" white fs]
    by (auto simp: server_ok_setup [OF assms(2)])
  ultimately show ?thesis
    using assms(3) by (simp add: s sys_inv_def)
qed

text \<open>
  Under the invariant no client message that waits is of a type the program does not
  know, so \<^verbatim>\<open>printClientMessage\<close> is never called in the closed system.
\<close>

lemma sys_inv_known_messages:
  assumes "sys_inv ia win s" and "ClientMessage m \<in> set (queue (server s) w)"
  shows "\<not> unknownMessage ia m"
proof -
  from assms(1) have "list_all (event_ok ia (range win)) (queue (server s) w)"
    by (simp add: sys_inv_def server_ok_def)
  with assms(2) have "event_ok ia (range win) (ClientMessage m)"
    by (simp add: list_all_iff)
  then show ?thesis
    by (auto simp: event_ok_def unknownMessage_def xdnd_types_def)
qed

section \<open>Runs\<close>

lemma sys_step_act: "allowed ia a \<Longrightarrow> sys_step ia s (sys_act ia a s)"
  by (cases a) (auto intro: sys_step.intros)

lemma sys_run_steps: "list_all (allowed ia) acts \<Longrightarrow> (sys_step ia)\<^sup>*\<^sup>* s (sys_run ia acts s)"
proof (induction acts arbitrary: s)
  case Nil
  show ?case by simp
next
  case (Cons a acts)
  then have "sys_step ia s (sys_act ia a s)"
    and "(sys_step ia)\<^sup>*\<^sup>* (sys_act ia a s) (sys_run ia acts (sys_act ia a s))"
    by (simp_all add: sys_step_act)
  then show ?case
    by (simp add: converse_rtranclp_into_rtranclp)
qed

lemma launch_sys0:
  "launch server_atoms (\<lambda>i. no_faults) 4711 (case_Proc 7 9) 0xFFFFFF Map.empty = Inr sys0"
  by (simp add: launch_def main_def sys0_def Let_def spawnSetup_no_faults start_def
      requests_of_def bindR_def)

section \<open>The closed system\<close>

text \<open>
  C2: The invariant of the closed system. After a launch with well-formed atoms and a
  file that is missing or holds a colour, whatever the user does, whichever calls fail
  and in whatever order the two processes take their turns: every process that is still
  in its loop keeps the invariant of its state machine and its square, shows one of the
  two colours of the enumeration and has kept its window; the file holds a colour; the
  property \<^verbatim>\<open>XDND_DATA\<close> of every window is absent or holds the framed path of the file;
  every selection request that waits asks for \<^verbatim>\<open>XDND_DATA\<close>, and every client message
  that waits is the close request or an XDND message of format 32 whose slot 0 names
  the window of one of the two processes. So the value \<^verbatim>\<open>restoreSquareState\<close> reads
  without validation is always an enumerator here, and no handler ever meets the
  message of a stranger.
\<close>

theorem closed_system_invariant:
  assumes "atoms_wf ia" and "file_ok fs"
    and "launch ia flt forked win white fs = Inr s0" and "(sys_step ia)\<^sup>*\<^sup>* s0 s"
  shows "sys_inv ia win s"
  using assms by (auto intro: sys_inv_steps sys_inv_launch)

theorem closed_system_invariant_witness:
  "sys_inv server_atoms (case_Proc 7 9)
     (sys_run server_atoms [Input 7 (ButtonPress 10 10), Handle desk Phil] sys0)"
  using closed_system_invariant [OF atoms_wf_server_atoms file_ok_empty launch_sys0
      sys_run_steps [of server_atoms "[Input 7 (ButtonPress 10 10), Handle desk Phil]" sys0]]
  by (simp add: is_input_def)

end
