(* ===== verification/XdndScenario.thy ===== *)
theory XdndScenario
  imports XdndSystem
begin

text \<open>
  Complete runs of the two processes through the server: the drag and drop the program
  is written for, and a run that ends in undefined behaviour.

  \<^item> A \<open>Side\<close> is what matters of a process in its loop: its window, the struct
    \<^verbatim>\<open>xdndState\<close>, the square and \<^verbatim>\<open>clickedStillInWindow\<close>; \<open>shape p a\<close> says that the
    process state \<open>p\<close> has it, whatever its log and files are.
  \<^item> \<open>handler ia v e a d a' d' rs\<close> is the specification of one path through the
    handler of the event \<open>e\<close>: from any state of shape \<open>a\<close> with the files \<open>d\<close> the
    handler returns a state of shape \<open>a'\<close> with the files \<open>d'\<close>, and what it asks of the
    server is \<open>rs\<close> (\<open>asks\<close>: drawing requests, which the server state does not record,
    are left out). The lemmas \<open>step_...\<close> give this for the eleven paths of an exchange.
  \<^item> \<open>stage ia s i a qi j b qj own dat d\<close> describes the system \<open>s\<close> during an exchange
    between source \<open>i\<close> and target \<open>j\<close>: the sides of the two processes, the events that
    wait for each, the owner of the selection, the property \<^verbatim>\<open>XDND_DATA\<close> on the
    target's window, and the files. The target's window carries \<^verbatim>\<open>XdndAware\<close> with
    version 5 throughout.
  \<^item> \<open>drag_and_drop\<close> is the schedule of a complete exchange, \<open>sourcing\<close> and \<open>tracking\<close>
    are the states of the source and the target in its middle. \<open>double_drop\<close> is the
    schedule in which the user drops the square a second time before the first transfer
    has finished.
\<close>

section \<open>Definitions\<close>

type_synonym Side = "Window \<times> XDNDStateMachine \<times> Square \<times> bool"

definition shape :: "Peer \<Rightarrow> Side \<Rightarrow> bool" where
  "shape p a =
    ((wind p, xdndState p, square p, clickedStillInWindow p) = a \<and> continueEventLoop p)"

definition asks :: "Peer \<Rightarrow> Peer \<Rightarrow> XRequest list \<Rightarrow> bool" where
  "asks p q rs = (\<forall>sv. serve_all (issued p q) sv = serve_all rs sv)"

definition handler ::
  "AtomTable \<Rightarrow> XView \<Rightarrow> XEvent \<Rightarrow> Side \<Rightarrow> files \<Rightarrow> Side \<Rightarrow> files \<Rightarrow> XRequest list \<Rightarrow> bool" where
  "handler ia v e a d a' d' rs =
    (\<forall>p. shape p a \<and> files p = d \<longrightarrow>
       (\<exists>q. handleEvent ia v e p = Inr q \<and> shape q a' \<and> files q = d' \<and> asks p q rs))"

definition runs :: "System \<Rightarrow> Proc \<Rightarrow> Side \<Rightarrow> bool" where
  "runs s i a = (\<exists>p. procs s i = Running p \<and> shape p a)"

definition sourcing :: "Window \<Rightarrow> XDNDStateMachine" where
  "sourcing t =
    xdndState_zero\<lparr>xdndExchangeStarted := True, amISource := True, otherWindow := t\<rparr>"

definition tracking :: "AtomTable \<Rightarrow> Window \<Rightarrow> XMotionEvent \<Rightarrow> XDNDStateMachine" where
  "tracking ia w ev =
    xdndState_zero\<lparr>xdndExchangeStarted := True, otherWindow := w,
      proposedType := first_accepted ia [typesWeAccept ia ! 0, XNone, XNone],
      xdndPositionReceived := True,
      p_rootX := unpack_x (pack_xy (x_root ev) (y_root ev)),
      p_rootY := unpack_y (pack_xy (x_root ev) (y_root ev)),
      proposedAction := XdndActionCopy ia, xdndLastPositionTimestamp := mtime ev,
      xdndStatusSent := True\<rparr>"

definition drag_and_drop ::
  "Proc \<Rightarrow> Window \<Rightarrow> Proc \<Rightarrow> XView \<Rightarrow> int \<Rightarrow> int \<Rightarrow> XMotionEvent \<Rightarrow> Action list" where
  "drag_and_drop i wi j v bx by ev =
    [Input wi (ButtonPress bx by), Handle v i, Input wi LeaveNotify, Handle v i,
     Input wi (MotionNotify ev), Handle v i, Handle v j, Handle v j, Handle v i,
     Input wi ButtonRelease, Handle v i, Handle v j, Handle v i, Handle v j, Handle v i]"

definition pop :: "Window \<Rightarrow> Server \<Rightarrow> Server" where
  "pop w sv = sv\<lparr>queue := (queue sv)(w := tl (queue sv w))\<rparr>"

definition stage ::
  "AtomTable \<Rightarrow> System \<Rightarrow> Proc \<Rightarrow> Side \<Rightarrow> XEvent list \<Rightarrow> Proc \<Rightarrow> Side \<Rightarrow> XEvent list
     \<Rightarrow> Window \<Rightarrow> XProperty \<Rightarrow> files \<Rightarrow> bool" where
  "stage ia s i a qi j b qj own dat d =
    (i \<noteq> j \<and> fst a \<noteq> fst b \<and> runs s i a \<and> runs s j b \<and>
     queue (server s) (fst a) = qi \<and> queue (server s) (fst b) = qj \<and>
     owner (server s) (XdndSelection ia) = own \<and>
     props (server s) (fst b) (XdndAware ia) = aware_property ia 5 \<and>
     props (server s) (fst b) (XDND_DATA ia) = dat \<and> disk s = d)"

definition served :: "AtomTable \<Rightarrow> System \<Rightarrow> Window \<Rightarrow> XRequest list \<Rightarrow> Server" where
  "served ia s w rs = serve_all rs (pop w (server s))"

definition drag_out :: XMotionEvent where
  "drag_out = \<lparr>mx = 260, my = 40, x_root = 260, y_root = 40, mtime = 2000\<rparr>"

definition double_drop :: "Action list" where
  "double_drop =
    [Input 7 (ButtonPress 10 10), Handle desk Phil, Input 7 LeaveNotify, Handle desk Phil,
     Input 7 (MotionNotify drag_out), Handle desk Phil, Handle desk Stuart, Handle desk Stuart,
     Handle desk Phil,
     Input 7 ButtonRelease, Handle desk Phil,
     Input 7 (ButtonPress 160 40), Handle desk Phil, Input 7 ButtonRelease, Handle desk Phil,
     Handle desk Stuart, Handle desk Stuart, Handle desk Phil, Handle desk Phil,
     Handle desk Stuart, Handle desk Phil, Handle desk Stuart]"

section \<open>One turn of the loop\<close>

lemma view_queue [simp]: "view (sv\<lparr>queue := q\<rparr>) v = view sv v"
  by (simp add: view_def)

lemma serve_draw [simp]:
  "serve (XSetForeground c) sv = sv" "serve (XClearWindow w) sv = sv"
  "serve (XFillRectangle w x y wd ht) sv = sv" "serve XFlush sv = sv"
  by simp_all

lemma serve_all_drawSquare [simp]:
  "serve_all (XClearWindow w # (if b then [XFillRectangle w x y wd ht, XFlush] else [XFlush])) sv
     = sv"
  by simp

text \<open>
  A turn of a running process whose handler returns: the process has the new state, and
  the server has served \<open>rs\<close>, the requests of the handler that are not drawing.
\<close>

lemma sys_handle_handler:
  assumes "runs s i (w, x)" and "queue (server s) w = e # es"
    and "handler ia (view (server s) v) e (w, x) (disk s) a' d' rs"
  shows "\<exists>q. shape q a' \<and> sys_handle ia v i s =
    s\<lparr>procs := (procs s)(i := Running q), server := serve_all rs (pop w (server s)),
      disk := d'\<rparr>"
proof -
  from assms(1) obtain p where p: "procs s i = Running p" "shape p (w, x)"
    by (auto simp: runs_def)
  from p(2) have "shape (p\<lparr>files := disk s\<rparr>) (w, x)"
    by (simp add: shape_def)
  with assms(3) obtain q where
    h: "handleEvent ia (view (server s) v) e (p\<lparr>files := disk s\<rparr>) = Inr q"
    and q: "shape q a'" "files q = d'"
    and r: "\<forall>sv. serve_all (issued (p\<lparr>files := disk s\<rparr>) q) sv = serve_all rs sv"
    unfolding handler_def asks_def by fastforce
  from p assms(2) h q r have "sys_handle ia v i s =
      s\<lparr>procs := (procs s)(i := Running q), server := serve_all rs (pop w (server s)),
        disk := d'\<rparr>"
    by (simp add: sys_handle_def pop_def shape_def)
  with q show ?thesis by blast
qed

lemma stage_turn:
  assumes "stage ia s i (w, x) (e # es) j b qj own dat d"
    and "handler ia (view (server s) v) e (w, x) d (w, x') d' rs"
    and "props (served ia s w rs) (fst b) (XdndAware ia) = aware_property ia 5"
  shows "stage ia (sys_handle ia v i s) i (w, x') (queue (served ia s w rs) w)
    j b (queue (served ia s w rs) (fst b)) (owner (served ia s w rs) (XdndSelection ia))
    (props (served ia s w rs) (fst b) (XDND_DATA ia)) d'"
proof -
  from assms(1) have s: "i \<noteq> j" "runs s i (w, x)" "queue (server s) w = e # es" "disk s = d"
    by (simp_all add: stage_def)
  from sys_handle_handler [OF s(2,3), of ia v "(w, x')" d' rs] assms(2) s(4)
  obtain q where "shape q (w, x')" "sys_handle ia v i s =
    s\<lparr>procs := (procs s)(i := Running q), server := serve_all rs (pop w (server s)),
      disk := d'\<rparr>"
    by auto
  with assms(1,3) show ?thesis
    by (auto simp: stage_def runs_def served_def)
qed

lemma stage_turn':
  assumes "stage ia s i a qi j (w, x) (e # es) own dat d"
    and "handler ia (view (server s) v) e (w, x) d (w, x') d' rs"
    and "props (served ia s w rs) w (XdndAware ia) = aware_property ia 5"
  shows "stage ia (sys_handle ia v j s) i a (queue (served ia s w rs) (fst a))
    j (w, x') (queue (served ia s w rs) w) (owner (served ia s w rs) (XdndSelection ia))
    (props (served ia s w rs) w (XDND_DATA ia)) d'"
proof -
  from assms(1) have s: "i \<noteq> j" "runs s j (w, x)" "queue (server s) w = e # es" "disk s = d"
    by (simp_all add: stage_def)
  from sys_handle_handler [OF s(2,3), of ia v "(w, x')" d' rs] assms(2) s(4)
  obtain q where "shape q (w, x')" "sys_handle ia v j s =
    s\<lparr>procs := (procs s)(j := Running q), server := serve_all rs (pop w (server s)),
      disk := d'\<rparr>"
    by auto
  with assms(1,3) show ?thesis
    by (auto simp: stage_def runs_def served_def)
qed

lemma stage_input:
  assumes "stage ia s i a qi j b qj own dat d"
  shows "stage ia (sys_input (fst a) e s) i a (qi @ [e]) j b qj own dat d"
  using assms by (auto simp: stage_def runs_def sys_input_def)

lemma stageD:
  assumes "stage ia s i a qi j b qj own dat d"
  shows "queue (server s) (fst a) = qi" "queue (server s) (fst b) = qj"
    "owner (server s) (XdndSelection ia) = own"
    "props (server s) (fst b) (XdndAware ia) = aware_property ia 5"
    "props (server s) (fst b) (XDND_DATA ia) = dat" "fst a \<noteq> fst b" "fst b \<noteq> fst a"
  using assms by (auto simp: stage_def)

lemma pop_simps [simp]:
  "props (pop w sv) = props sv" "owner (pop w sv) = owner sv"
  "queue (pop w sv) w' = (if w' = w then tl (queue sv w) else queue sv w')"
  by (simp_all add: pop_def)

section \<open>What each handler of the exchange does\<close>

lemma asks_same [simp]: "out q = out p \<Longrightarrow> asks p q []"
  by (simp add: asks_def issued_def)

lemma asksI: "out q = out p @ rs @ ds \<Longrightarrow> \<forall>sv. serve_all ds sv = sv \<Longrightarrow> asks p q rs"
  by (simp add: asks_def issued_def)

lemma asks_drawSquare:
  "out q = out p @ rs \<Longrightarrow> asks p (drawSquare q) rs"
  by (rule asksI [where ds = "drop (length (out q)) (out (drawSquare q))"])
    (simp_all add: out_drawSquare)

lemmas handler_defs = handler_def shape_def

lemma step_press:
  assumes "isPointerInsideSquare bx by sq"
  shows "handler ia v (ButtonPress bx by) (w, st, sq, c) d
    (w, st, sq\<lparr>selected := True, mouse_x := bx, mouse_y := by\<rparr>, True) d []"
  using assms
  by (auto simp: handler_defs handleButtonPress_def
      intro!: asksI [where ds = "XSetForeground green # XClearWindow w #
          (if visible sq then [XFillRectangle w (square_x sq) (square_y sq)
             (square_size sq) (square_size sq), XFlush] else [XFlush])"]
      simp: out_drawSquare)

lemma step_leave_window:
  assumes "selected sq"
  shows "handler ia v LeaveNotify (w, st, sq, c) d (w, st, sq, False) d []"
  using assms by (simp add: handler_defs handleLeaveNotify_def)

lemma step_drag_out:
  assumes "selected sq"
    and "getWindowPointerIsOver (tree v) (x_root ev) (y_root ev) 0 0 = t" and "t \<noteq> XNone"
    and "hasCorrectXdndAwareProperty ia v t = ver" and "ver \<noteq> 0"
    and "\<not> fault v ''XSendEvent''"
  shows "handler ia v (MotionNotify ev) (w, xdndState_zero, sq, False) d
    (w, sourcing t, dragSquare ev sq, False) d
    [XSetSelectionOwner (XdndSelection ia) w (mtime ev),
     XSendEvent t (ClientMessage (clientMessage t (XdndEnter ia) w
       (push_bit 24 (word_of_int ver)) (typesWeAccept ia ! 0) XNone XNone)),
     XSendEvent t (ClientMessage (clientMessage t (XdndPosition ia) w 0
       (pack_xy (x_root ev) (y_root ev)) (mtime ev) (XdndActionCopy ia)))]"
  using assms
  by (simp add: handler_defs handleMotionNotify_def leaveOldTarget_def engageTarget_def
      positionUpdate_def sendXdndEnter_def sendXdndPosition_def Let_def xdndState_zero_def
      sourcing_def out_drawSquare asks_def issued_def)

lemma step_enter:
  assumes "atoms_wf ia" and "message_type m = XdndEnter ia" and "l1 m AND 1 = 0"
  shows "handler ia v (ClientMessage m) (w, xdndState_zero, sq, c) d
    (w, xdndState_zero\<lparr>xdndExchangeStarted := True, otherWindow := l0 m,
       proposedType := first_accepted ia [l2 m, l3 m, l4 m]\<rparr>, sq, c) d []"
  using assms
  by (simp add: handler_defs handleClientMessage_def receiveXdndEnter_def proposeType_def
      atoms_wf_simps xdndState_zero_def)

lemma step_position:
  assumes "atoms_wf ia" and "xdndExchangeStarted st"
    and "\<not> amISource st" and "\<not> xdndStatusSent st" and "\<not> xdndPositionReceived st"
    and "message_type m = XdndPosition ia" and "\<not> fault v ''XSendEvent''"
  shows "handler ia v (ClientMessage m) (w, st, sq, c) d
    (w, st\<lparr>xdndPositionReceived := True, p_rootX := unpack_x (l2 m),
       p_rootY := unpack_y (l2 m), proposedAction := l4 m,
       xdndLastPositionTimestamp := l3 m, xdndStatusSent := True\<rparr>, sq, c) d
    [XSendEvent (otherWindow st) (ClientMessage
      (clientMessage (otherWindow st) (XdndStatus ia) w 1 0 0 (l4 m)))]"
  using assms
  by (simp add: handler_defs handleClientMessage_def targetMessage_def
      receiveXdndPosition_def Let_def sendXdndStatus_def atoms_wf_simps asks_def issued_def)

lemma step_status:
  assumes "atoms_wf ia" and "xdndExchangeStarted st" and "amISource st"
    and "message_type m = XdndStatus ia" and "l1 m AND 1 = 1"
  shows "handler ia v (ClientMessage m) (w, st, sq, c) d
    (w, st\<lparr>xdndStatusReceived := True\<rparr>, sq, c) d []"
  using assms
  by (simp add: handler_defs handleClientMessage_def sourceMessage_def atoms_wf_simps)

lemma step_release:
  assumes "xdndExchangeStarted st" and "amISource st"
    and "xdndStatusReceived st" and "selected sq" and "\<not> fault v ''XSendEvent''"
  shows "handler ia v ButtonRelease (w, st, sq, c) d (w, st, sq\<lparr>selected := False\<rparr>, c) d
    [XSendEvent (otherWindow st) (ClientMessage
      (clientMessage (otherWindow st) (XdndDrop ia) w 0 (xdndLastPositionTimestamp st) 0 0))]"
  using assms
  by (auto simp: handler_defs handleButtonRelease_def dropIfAccepted_def sendXdndDrop_def
      releaseSquare_def Let_def out_drawSquare
      intro!: asksI [where ds = "XSetForeground (foreground (sq\<lparr>selected := False\<rparr>)) #
          XClearWindow w #
          (if visible sq then [XFillRectangle w (square_x sq) (square_y sq)
             (square_size sq) (square_size sq), XFlush] else [XFlush])"])

lemma step_drop:
  assumes "atoms_wf ia" and "xdndExchangeStarted st"
    and "\<not> amISource st" and "xdndPositionReceived st" and "l0 m = otherWindow st"
    and "message_type m = XdndDrop ia"
  shows "handler ia v (ClientMessage m) (w, st, sq, c) d
    (w, st\<lparr>xdndDropReceived := True, xdndDropTimestamp := l2 m\<rparr>, sq, c) d
    [XConvertSelection (XdndSelection ia) (proposedType st) (XDND_DATA ia) w (l2 m)]"
  using assms
  by (simp add: handler_defs handleClientMessage_def targetMessage_def receiveXdndDrop_def
      Let_def atoms_wf_simps asks_def issued_def)

lemma step_request:
  assumes "xdndExchangeStarted st" and "amISource st" and "fault v = no_faults"
  shows "handler ia v (SelectionRequest r) (w, st, sq, c) d
    (w, st, sq, c) (d(SQUARE_FILE_PATH \<mapsto> le_bytes (colour sq)))
    [XChangeProperty (requestor r) (property r) (typesWeAccept ia ! 0) 8
       (propertyData SQUARE_FILE_PATH),
     XSendEvent (requestor r) (SelectionNotify \<lparr>requestor = requestor r,
       selection = selection r, target = target r, property = property r, time = time r\<rparr>)]"
  using assms
  by (auto simp: handler_defs handleSelectionRequest_def saveSquareState_def
      sendSelectionNotify_def asks_def issued_def no_faults_def)

lemma step_notify:
  assumes "xdndExchangeStarted st" and "\<not> amISource st"
    and "property n = XDND_DATA ia" and "fault v = no_faults"
    and "getProperty v w (XDND_DATA ia)
      = Some (data_property ia (propertyData SQUARE_FILE_PATH))"
    and "d SQUARE_FILE_PATH = Some (le_bytes col)"
  shows "handler ia v (SelectionNotify n) (w, st, sq, c) d
    (w, xdndState_zero, placeSquare v (sq\<lparr>colour := col, visible := True\<rparr>), c) d
    [XDeleteProperty w (XDND_DATA ia),
     XSendEvent (otherWindow st) (ClientMessage
       (clientMessage (otherWindow st) (XdndFinished ia) w 1 (XdndActionCopy ia) 0 0))]"
proof -
  from assms(4,5) have "getCopiedData ia v w = Inr (Some SQUARE_FILE_PATH)"
    using getCopiedData_framed [of v w ia SQUARE_FILE_PATH] by (simp add: no_faults_def)
  moreover have "restoreSquareState (fault v) fs SQUARE_FILE_PATH sq
      = Inr (sq\<lparr>colour := col\<rparr>)" if "fs SQUARE_FILE_PATH = Some (le_bytes col)" for fs
    using assms(4) that by (simp add: restoreSquareState_def no_faults_def)
  ultimately show ?thesis
    using assms(1-4,6)
    by (auto simp: handler_defs handleSelectionNotify_def sendXdndFinished_def Let_def
        no_faults_def out_drawSquare asks_def issued_def)
qed

lemma step_finished:
  assumes "atoms_wf ia" and "xdndExchangeStarted st" and "amISource st"
    and "message_type m = XdndFinished ia"
  shows "handler ia v (ClientMessage m) (w, st, sq, c) d
    (w, xdndState_zero, sq\<lparr>visible := False\<rparr>, c) d []"
  using assms
  by (simp add: handler_defs handleClientMessage_def sourceMessage_def atoms_wf_simps
      asks_drawSquare [where rs = "[]", simplified])

section \<open>The phases of the exchange\<close>

lemma pick_up:
  assumes "stage ia s i (w, st, sq, c) [] j b qj own dat d"
    and "isPointerInsideSquare bx by sq"
  shows "stage ia (sys_run ia [Input w (ButtonPress bx by), Handle v i,
      Input w LeaveNotify, Handle v' i] s)
    i (w, st, sq\<lparr>selected := True, mouse_x := bx, mouse_y := by\<rparr>, False) [] j b qj own dat d"
proof -
  note s1 = stage_input [OF assms(1), of "ButtonPress bx by", simplified]
  from stage_turn [OF s1 step_press [OF assms(2)]] stageD [OF s1]
  have "stage ia (sys_run ia [Input w (ButtonPress bx by), Handle v i] s)
      i (w, st, sq\<lparr>selected := True, mouse_x := bx, mouse_y := by\<rparr>, True) [] j b qj own dat d"
    by (simp add: served_def)
  note s2 = stage_input [OF this, of LeaveNotify, simplified]
  from stage_turn [OF s2 step_leave_window] stageD [OF s2]
  show ?thesis
    by (simp add: served_def)
qed

lemma aware_view:
  assumes "atoms_wf ia" and "props sv w (XdndAware ia) = aware_property ia 5"
  shows "hasCorrectXdndAwareProperty ia (view sv v) w = 5"
proof -
  have "XA_ATOM ia \<noteq> XNone"
    using atoms_wf_nonzero [OF assms(1), of "''XA_ATOM''"] by (simp add: XA_ATOM_def atom_names_def)
  with assms(2) show ?thesis
    by (simp add: hasCorrectXdndAwareProperty_aware [where version = 5])
qed

lemma sourcing_simps [simp]:
  "xdndExchangeStarted (sourcing t)" "amISource (sourcing t)" "otherWindow (sourcing t) = t"
  "\<not> xdndStatusReceived (sourcing t)" "xdndLastPositionTimestamp (sourcing t) = 0"
  by (simp_all add: sourcing_def xdndState_zero_def)

lemma tracking_simps [simp]:
  "xdndExchangeStarted (tracking ia w ev)" "\<not> amISource (tracking ia w ev)"
  "otherWindow (tracking ia w ev) = w" "xdndPositionReceived (tracking ia w ev)"
  "proposedType (tracking ia w ev) = first_accepted ia [typesWeAccept ia ! 0, XNone, XNone]"
  by (simp_all add: tracking_def xdndState_zero_def)

text \<open>
  The source is dragged over the window of the target: enter and position go out, the
  target records the exchange and answers with a status, which the source records.
\<close>

lemma approach:
  assumes "atoms_wf ia"
    and "stage ia s i (wi, xdndState_zero, sq, False) [] j (wj, xdndState_zero, sqj, cj) []
      own dat d"
    and "own = XNone \<or> own = wi" and "selected sq" and "wj \<noteq> XNone"
    and "getWindowPointerIsOver (tree v) (x_root ev) (y_root ev) 0 0 = wj"
    and "fault v = no_faults"
  shows "stage ia (sys_run ia [Input wi (MotionNotify ev), Handle v i, Handle v j, Handle v j,
      Handle v i] s)
    i (wi, (sourcing wj)\<lparr>xdndStatusReceived := True\<rparr>, dragSquare ev sq, False) []
    j (wj, tracking ia wi ev, sqj, cj) [] wi dat d"
proof -
  have flt: "\<not> fault (view sv v) ''XSendEvent''" for sv
    using assms(7) by (simp add: no_faults_def)
  note s1 = stage_input [OF assms(2), of "MotionNotify ev", simplified]
  note a1 = aware_view [OF assms(1) stageD(4) [OF s1, simplified], of v]
  from stage_turn [OF s1 step_drag_out [OF assms(4) _ assms(5) a1 _ flt]] stageD [OF s1]
    assms(3,6)
  have s2: "stage ia (sys_run ia [Input wi (MotionNotify ev), Handle v i] s)
      i (wi, sourcing wj, dragSquare ev sq, False) []
      j (wj, xdndState_zero, sqj, cj)
        [ClientMessage (clientMessage wj (XdndEnter ia) wi (push_bit 24 5)
            (typesWeAccept ia ! 0) XNone XNone),
         ClientMessage (clientMessage wj (XdndPosition ia) wi 0
            (pack_xy (x_root ev) (y_root ev)) (mtime ev) (XdndActionCopy ia))]
      wi dat d"
    by (auto simp: served_def Let_def)
  from stage_turn' [OF s2 step_enter [OF assms(1)]] stageD [OF s2]
  have s3: "stage ia (sys_run ia [Input wi (MotionNotify ev), Handle v i, Handle v j] s)
      i (wi, sourcing wj, dragSquare ev sq, False) []
      j (wj, xdndState_zero\<lparr>xdndExchangeStarted := True, otherWindow := wi,
           proposedType := first_accepted ia [typesWeAccept ia ! 0, XNone, XNone]\<rparr>, sqj, cj)
        [ClientMessage (clientMessage wj (XdndPosition ia) wi 0
            (pack_xy (x_root ev) (y_root ev)) (mtime ev) (XdndActionCopy ia))]
      wi dat d"
    by (simp add: served_def)
  from stage_turn' [OF s3 step_position [OF assms(1) _ _ _ _ _ flt]] stageD [OF s3]
  have s4: "stage ia (sys_run ia [Input wi (MotionNotify ev), Handle v i, Handle v j,
        Handle v j] s)
      i (wi, sourcing wj, dragSquare ev sq, False)
        [ClientMessage (clientMessage wi (XdndStatus ia) wj 1 0 0 (XdndActionCopy ia))]
      j (wj, tracking ia wi ev, sqj, cj) [] wi dat d"
    by (simp add: served_def tracking_def xdndState_zero_def)
  from stage_turn [OF s4 step_status [OF assms(1)]] stageD [OF s4]
  show ?thesis
    by (simp add: served_def)
qed

text \<open>
  The user lets go: the drop goes out, the target converts the selection and the server
  asks the owner of the selection, which is the source.
\<close>

lemma let_go:
  assumes "atoms_wf ia"
    and "stage ia s i (wi, (sourcing wj)\<lparr>xdndStatusReceived := True\<rparr>, sq, c) []
      j (wj, tracking ia wi ev, sqj, cj) [] wi dat d"
    and "selected sq" and "wi \<noteq> XNone" and "fault v = no_faults"
  shows "stage ia (sys_run ia [Input wi ButtonRelease, Handle v i, Handle v j] s)
    i (wi, (sourcing wj)\<lparr>xdndStatusReceived := True\<rparr>, sq\<lparr>selected := False\<rparr>, c)
      [SelectionRequest \<lparr>requestor = wj, selection = XdndSelection ia,
         target = first_accepted ia [typesWeAccept ia ! 0, XNone, XNone],
         property = XDND_DATA ia, time = 0\<rparr>]
    j (wj, (tracking ia wi ev)\<lparr>xdndDropReceived := True, xdndDropTimestamp := 0\<rparr>, sqj, cj) []
    wi dat d"
proof -
  have flt: "\<not> fault (view sv v) ''XSendEvent''" for sv
    using assms(5) by (simp add: no_faults_def)
  note s1 = stage_input [OF assms(2), of ButtonRelease, simplified]
  from stage_turn [OF s1 step_release [OF _ _ _ assms(3) flt]] stageD [OF s1]
  have s2: "stage ia (sys_run ia [Input wi ButtonRelease, Handle v i] s)
      i (wi, (sourcing wj)\<lparr>xdndStatusReceived := True\<rparr>, sq\<lparr>selected := False\<rparr>, c) []
      j (wj, tracking ia wi ev, sqj, cj)
        [ClientMessage (clientMessage wj (XdndDrop ia) wi 0 0 0 0)] wi dat d"
    by (simp add: served_def)
  from stage_turn' [OF s2 step_drop [OF assms(1)]] stageD [OF s2] assms(4)
  show ?thesis
    by (simp add: served_def)
qed

text \<open>
  The source saves the square and stores the path on the target's window, the target
  restores the square and reports that it has finished, the source hides its square.
\<close>

lemma hand_over:
  assumes "atoms_wf ia"
    and "stage ia s i (wi, (sourcing wj)\<lparr>xdndStatusReceived := True\<rparr>, sq, c)
      [SelectionRequest \<lparr>requestor = wj, selection = XdndSelection ia, target = ty,
         property = XDND_DATA ia, time = 0\<rparr>]
      j (wj, (tracking ia wi ev)\<lparr>xdndDropReceived := True, xdndDropTimestamp := 0\<rparr>, sqj, cj) []
      wi dat d"
    and "fault v = no_faults"
  shows "stage ia (sys_run ia [Handle v i, Handle v j, Handle v i] s)
    i (wi, xdndState_zero, sq\<lparr>visible := False\<rparr>, c) []
    j (wj, xdndState_zero, placeSquare v (sqj\<lparr>colour := colour sq, visible := True\<rparr>), cj) []
    wi absent (d(SQUARE_FILE_PATH \<mapsto> le_bytes (colour sq)))"
proof -
  have flt: "fault (view sv v) = no_faults" for sv
    using assms(3) by (simp add: no_faults_def)
  from stage_turn [OF assms(2) step_request [OF _ _ flt]] stageD [OF assms(2)] assms(1)
  have s4: "stage ia (sys_run ia [Handle v i] s)
      i (wi, (sourcing wj)\<lparr>xdndStatusReceived := True\<rparr>, sq, c) []
      j (wj, (tracking ia wi ev)\<lparr>xdndDropReceived := True, xdndDropTimestamp := 0\<rparr>, sqj, cj)
        [SelectionNotify \<lparr>requestor = wj, selection = XdndSelection ia, target = ty,
           property = XDND_DATA ia, time = 0\<rparr>]
      wi (data_property ia (propertyData SQUARE_FILE_PATH))
      (d(SQUARE_FILE_PATH \<mapsto> le_bytes (colour sq)))"
    by (simp add: served_def data_property_def hd_typesWeAccept atoms_wf_simps)
  from stage_turn' [OF s4 step_notify [OF _ _ _ flt, where col = "colour sq"]]
    stageD [OF s4] assms(1)
  have s5: "stage ia (sys_run ia [Handle v i, Handle v j] s)
      i (wi, (sourcing wj)\<lparr>xdndStatusReceived := True\<rparr>, sq, c)
        [ClientMessage (clientMessage wi (XdndFinished ia) wj 1 (XdndActionCopy ia) 0 0)]
      j (wj, xdndState_zero, placeSquare v (sqj\<lparr>colour := colour sq, visible := True\<rparr>), cj) []
      wi absent (d(SQUARE_FILE_PATH \<mapsto> le_bytes (colour sq)))"
    by (simp add: served_def atoms_wf_simps placeSquare_def)
  from stage_turn [OF s5 step_finished [OF assms(1)]] stageD [OF s5]
  show ?thesis
    by (simp add: served_def)
qed

section \<open>The whole exchange\<close>

lemma colour_dragSquare [simp]: "colour (dragSquare ev sq) = colour sq"
  by (simp add: dragSquare_def)

lemma selected_dragSquare [simp]: "selected (dragSquare ev sq) = selected sq"
  by (simp add: dragSquare_def)

lemma drag_and_drop_phases:
  "drag_and_drop i wi j v bx by ev =
    [Input wi (ButtonPress bx by), Handle v i, Input wi LeaveNotify, Handle v i] @
    [Input wi (MotionNotify ev), Handle v i, Handle v j, Handle v j, Handle v i] @
    [Input wi ButtonRelease, Handle v i, Handle v j] @ [Handle v i, Handle v j, Handle v i]"
  by (simp add: drag_and_drop_def)

lemma stage_launch:
  assumes "launch ia (\<lambda>i. no_faults) forked win white fs = Inr s" and "atoms_wf ia"
    and "win Phil \<noteq> win Stuart" and "win Phil \<noteq> XNone" and "win Stuart \<noteq> XNone"
    and "0 < forked"
  shows "stage ia s Phil (win Phil, xdndState_zero, initialSquare\<lparr>visible := True\<rparr>, False) []
    Stuart (win Stuart, xdndState_zero, initialSquare, False) [] XNone absent fs"
  using assms
  by (auto simp: launch_def main_def bindR_eq_Inr_iff Let_def spawnSetup_no_faults start_def
      requests_of_def stage_def runs_def shape_def setupRequests_def server0_def
      no_properties_def aware_property_def atoms_wf_simps initialSquare_def
      split: if_splits)

text \<open>
  C3: A drag and drop between the two processes completes. Both processes are idle, no
  event waits for either, the selection has no owner or the source owns it, and no call
  fails. The user presses the button inside the square of process \<open>i\<close>, moves the
  pointer out of the window and over the window of process \<open>j\<close>, and releases the
  button there; the two processes take their turns as the messages arrive. At the end
  both state machines are all zero again, no event waits, the square of \<open>i\<close> is hidden,
  \<open>j\<close> shows a square of the colour \<open>i\<close> had, placed under the pointer, the property
  \<^verbatim>\<open>XDND_DATA\<close> is deleted and the file holds the colour.
\<close>

theorem drag_and_drop_completes:
  assumes "atoms_wf ia"
    and "stage ia s i (wi, xdndState_zero, sq, c) [] j (wj, xdndState_zero, sqj, cj) []
      own dat d"
    and "own = XNone \<or> own = wi" and "wi \<noteq> XNone" and "wj \<noteq> XNone"
    and "isPointerInsideSquare bx by sq"
    and "getWindowPointerIsOver (tree v) (x_root ev) (y_root ev) 0 0 = wj"
    and "fault v = no_faults"
  shows "stage ia (sys_run ia (drag_and_drop i wi j v bx by ev) s)
    i (wi, xdndState_zero,
       (dragSquare ev (sq\<lparr>selected := True, mouse_x := bx, mouse_y := by\<rparr>))
         \<lparr>selected := False, visible := False\<rparr>, False) []
    j (wj, xdndState_zero, placeSquare v (sqj\<lparr>colour := colour sq, visible := True\<rparr>), cj) []
    wi absent (d(SQUARE_FILE_PATH \<mapsto> le_bytes (colour sq)))"
proof -
  note s1 = pick_up [OF assms(2,6), of v v]
  note s2 = approach [OF assms(1) s1 assms(3) _ assms(5,7,8), simplified]
  note s3 = let_go [OF assms(1) s2 _ assms(4,8), simplified]
  from hand_over [OF assms(1) s3 assms(8)]
  show ?thesis
    by (simp add: drag_and_drop_phases)
qed

theorem drag_and_drop_completes_witness:
  "stage server_atoms (sys_run server_atoms (drag_and_drop Phil 7 Stuart desk 10 10 drag_out) sys0)
    Phil (7, xdndState_zero,
       (dragSquare drag_out (initialSquare\<lparr>visible := True, selected := True, mouse_x := 10,
          mouse_y := 10\<rparr>))\<lparr>selected := False, visible := False\<rparr>, False) []
    Stuart (9, xdndState_zero,
       placeSquare desk (initialSquare\<lparr>colour := RedSquare, visible := True\<rparr>), False) []
    7 absent (Map.empty(SQUARE_FILE_PATH \<mapsto> le_bytes RedSquare))"
  using drag_and_drop_completes [OF atoms_wf_server_atoms
      stage_launch [OF launch_sys0 atoms_wf_server_atoms], of 10 10 desk drag_out]
  by (simp add: desk_def drag_out_def initialSquare_def isPointerInsideSquare_def)


text \<open>
  C16: A second drop before the first transfer has finished ends the target in undefined
  behaviour, with no failing call. The user drops the square on the target, presses the
  button on the square again and releases it before the source has received
  \<^verbatim>\<open>XdndFinished\<close>: the source sends \<^verbatim>\<open>XdndDrop\<close> twice, the target converts the
  selection twice and is notified twice; it deletes the property when it handles the
  first notification, and with the second \<^verbatim>\<open>getCopiedData\<close> reads
  \<^verbatim>\<open>tempPtr[strlen(tempPtr)-2]\<close> of an empty string (line 411).
\<close>

theorem second_drop_undefined:
  "\<exists>s. (sys_step server_atoms)\<^sup>*\<^sup>* sys0 s \<and>
     procs s Stuart = Failed (Undefined ''tempPtr[strlen(tempPtr)-2]'')"
proof -
  have "list_all (allowed server_atoms) double_drop"
    by (simp add: double_drop_def is_input_def)
  then have "(sys_step server_atoms)\<^sup>*\<^sup>* sys0 (sys_run server_atoms double_drop sys0)"
    by (rule sys_run_steps)
  moreover have "case procs (sys_run server_atoms double_drop sys0) Stuart of
      Failed err \<Rightarrow> err = Undefined ''tempPtr[strlen(tempPtr)-2]'' | _ \<Rightarrow> False"
    by code_simp
  then have "procs (sys_run server_atoms double_drop sys0) Stuart
      = Failed (Undefined ''tempPtr[strlen(tempPtr)-2]'')"
    by (simp split: Process.splits)
  ultimately show ?thesis by blast
qed

end
