(* ===== verification/ClientMessagePrinter.thy ===== *)
theory ClientMessagePrinter
  imports StateMachine XEventType
begin

text \<open>
  \<^verbatim>\<open>printClientMessage\<close> of \<^verbatim>\<open>src/spawn_window.c\<close> (lines 123-151) and the lines of the
  \<^verbatim>\<open>ClientMessage\<close> case that call it (718-727): what the process prints when it is sent
  a client message of a type it does not know.

  \<^item> The terminal is not part of the process state, so the functions return the text
    that is printed. \<open>show_int\<close> is \<^verbatim>\<open>printf("%d")\<close>, a line ends in \<open>LF\<close>.
  \<^item> The name of the message type is what \<^verbatim>\<open>XGetAtomName\<close> returned. When the type is
    not an atom of the server the call raises \<^verbatim>\<open>BadAtom\<close> and the default error handler
    of Xlib ends the process; this exit is \<open>announceClientMessage\<close> of theory
    \<open>StateMachine\<close>.
  \<^item> \<open>data_b\<close>, \<open>data_s\<close> and \<open>data_l\<close> are the three views of the union \<^verbatim>\<open>data\<close>: twenty
    \<^verbatim>\<open>char\<close>, ten \<^verbatim>\<open>short\<close>, five \<^verbatim>\<open>long\<close>, all signed, in little-endian order over the
    five 32-bit slots. \<open>payload\<close> is the \<^verbatim>\<open>switch\<close> on the format, which prints nothing
    for a format other than 8, 16 and 32.
  \<^item> \<open>read_int\<close> and \<open>fields\<close> read the numbers of a line back; they are the
    specification the printed line is compared with.
\<close>

section \<open>Decimal numbers\<close>

definition digit :: "nat \<Rightarrow> char" where
  "digit n = ''0123456789'' ! n"

fun digits :: "nat \<Rightarrow> string" where
  "digits n = (if n < 10 then [digit n] else digits (n div 10) @ [digit (n mod 10)])"

definition show_int :: "int \<Rightarrow> string" where
  "show_int i = (if i < 0 then CHR ''-'' # digits (nat (- i)) else digits (nat i))"

definition digit_val :: "char \<Rightarrow> nat" where
  "digit_val c = of_char c - 48"

definition value_of :: "string \<Rightarrow> nat" where
  "value_of s = foldl (\<lambda>n c. 10 * n + digit_val c) 0 s"

definition read_int :: "string \<Rightarrow> int" where
  "read_int s =
    (case s of [] \<Rightarrow> 0
     | c # cs \<Rightarrow> if c = CHR ''-'' then - int (value_of cs) else int (value_of s))"

fun fields_acc :: "string \<Rightarrow> string \<Rightarrow> string list" where
  "fields_acc acc [] = (if acc = [] then [] else [rev acc])"
| "fields_acc acc (c # cs) =
    (if c = CHR '' '' then rev acc # fields_acc [] cs else fields_acc (c # acc) cs)"

definition fields :: "string \<Rightarrow> string list" where
  "fields s = fields_acc [] s"

section \<open>The message\<close>

definition slots :: "XClientMessageEvent \<Rightarrow> slot list" where
  "slots m = [l0 m, l1 m, l2 m, l3 m, l4 m]"

definition data_b :: "XClientMessageEvent \<Rightarrow> nat \<Rightarrow> int" where
  "data_b m i = sint (ucast (drop_bit (8 * (i mod 4)) (slots m ! (i div 4))) :: 8 word)"

definition data_s :: "XClientMessageEvent \<Rightarrow> nat \<Rightarrow> int" where
  "data_s m i = sint (ucast (drop_bit (16 * (i mod 2)) (slots m ! (i div 2))) :: 16 word)"

definition data_l :: "XClientMessageEvent \<Rightarrow> nat \<Rightarrow> int" where
  "data_l m i = sint (slots m ! i)"

definition items :: "(nat \<Rightarrow> int) \<Rightarrow> nat \<Rightarrow> string" where
  "items f n = concat (map (\<lambda>i. show_int (f i) @ '' '') [0..<n])"

definition payload :: "XClientMessageEvent \<Rightarrow> string" where
  "payload m =
    (if format m = 8 then ''bytes: '' @ items (data_b m) 20
     else if format m = 16 then ''16-bit shorts: '' @ items (data_s m) 10
     else if format m = 32 then ''32-bit longs: '' @ items (data_l m) 5
     else [])"

definition printClientMessage :: "string \<Rightarrow> XClientMessageEvent \<Rightarrow> string" where
  "printClientMessage messageTypeStr m =
    ''Message type: '' @ messageTypeStr @ [LF] @
    ''Message word size: '' @ show_int (format m) @ '' bits'' @ [LF] @
    ''Message '' @ payload m @ [LF]"

definition clientMessageOutput ::
  "AtomTable \<Rightarrow> string \<Rightarrow> string \<Rightarrow> XClientMessageEvent \<Rightarrow> string" where
  "clientMessageOutput ia procStr messageTypeStr m =
    (if unknownMessage ia m
     then procStr @ '': received '' @ getEventType 33 @ '' message'' @ [LF] @
          printClientMessage messageTypeStr m
     else [])"

definition unknown1 :: XClientMessageEvent where
  "unknown1 = clientMessage 7 99 1 (- 2) 3 4 5"

section \<open>Reading a number back\<close>

declare digits.simps [simp del]

lemma digit_val_digit: "n < 10 \<Longrightarrow> digit_val (digit n) = n"
proof -
  have "\<forall>n \<in> set [0..<10]. digit_val (digit n) = n"
    by code_simp
  then show "n < 10 \<Longrightarrow> digit_val (digit n) = n"
    by simp
qed

lemma digit_plain: "n < 10 \<Longrightarrow> digit n \<noteq> CHR ''-'' \<and> digit n \<noteq> CHR '' ''"
proof -
  have "\<forall>n \<in> set [0..<10]. digit n \<noteq> CHR ''-'' \<and> digit n \<noteq> CHR '' ''"
    by code_simp
  then show "n < 10 \<Longrightarrow> digit n \<noteq> CHR ''-'' \<and> digit n \<noteq> CHR '' ''"
    by simp
qed

lemma value_of_snoc: "value_of (s @ [c]) = 10 * value_of s + digit_val c"
  by (simp add: value_of_def)

lemma value_of_digits: "value_of (digits n) = n"
proof (induction n rule: digits.induct)
  case (1 n)
  show ?case
  proof (cases "n < 10")
    case True
    then show ?thesis
      by (simp add: digits.simps [of n] value_of_def digit_val_digit)
  next
    case False
    with 1 show ?thesis
      by (simp add: digits.simps [of n] value_of_snoc digit_val_digit)
  qed
qed

lemma digits_plain: "c \<in> set (digits n) \<Longrightarrow> c \<noteq> CHR ''-'' \<and> c \<noteq> CHR '' ''"
proof (induction n rule: digits.induct)
  case (1 n)
  then show ?case
    by (cases "n < 10") (auto simp: digits.simps [of n] digit_plain)
qed

lemma digits_nonempty [simp]: "digits n \<noteq> []"
  by (subst digits.simps) simp

lemma hd_digits: "hd (digits n) \<noteq> CHR ''-''"
  using digits_plain [of "hd (digits n)" n] by simp

lemma read_int_show_int [simp]: "read_int (show_int i) = i"
proof (cases "i < 0")
  case True
  then show ?thesis
    by (simp add: read_int_def show_int_def value_of_digits)
next
  case False
  obtain c cs where d: "digits (nat i) = c # cs"
    by (cases "digits (nat i)") auto
  with hd_digits [of "nat i"] have "c \<noteq> CHR ''-''" by simp
  with False d value_of_digits [of "nat i"] show ?thesis
    by (simp add: read_int_def show_int_def)
qed

lemma show_int_no_space: "CHR '' '' \<notin> set (show_int i)"
  using digits_plain by (auto simp: show_int_def)

lemma show_int_nonempty [simp]: "show_int i \<noteq> []"
  by (simp add: show_int_def)

section \<open>Splitting a line\<close>

lemma fields_acc_item:
  assumes "CHR '' '' \<notin> set s"
  shows "fields_acc acc (s @ CHR '' '' # rest) = (rev acc @ s) # fields_acc [] rest"
  using assms by (induction s arbitrary: acc) auto

lemma fields_items: "fields (items f n) = map (\<lambda>i. show_int (f i)) [0..<n]"
proof -
  have "fields_acc [] (concat (map (\<lambda>i. show_int (f i) @ '' '') xs))
      = map (\<lambda>i. show_int (f i)) xs" for xs
    by (induction xs) (simp_all add: fields_acc_item show_int_no_space)
  then show ?thesis
    by (simp add: fields_def items_def)
qed

lemma read_items: "map read_int (fields (items f n)) = map f [0..<n]"
  by (simp add: fields_items)

section \<open>What is printed\<close>

lemma clientMessageOutput_known:
  "\<not> unknownMessage ia m \<Longrightarrow> clientMessageOutput ia procStr name m = []"
  by (simp add: clientMessageOutput_def)

lemma payload_other_format:
  "format m \<noteq> 8 \<Longrightarrow> format m \<noteq> 16 \<Longrightarrow> format m \<noteq> 32 \<Longrightarrow> payload m = []"
  by (simp add: payload_def)

lemma data_b_range: "- 128 \<le> data_b m i \<and> data_b m i < 128"
  using sint_ge [of "ucast (drop_bit (8 * (i mod 4)) (slots m ! (i div 4))) :: 8 word"]
    sint_lt [of "ucast (drop_bit (8 * (i mod 4)) (slots m ! (i div 4))) :: 8 word"]
  by (simp add: data_b_def)

text \<open>
  C33: The line \<^verbatim>\<open>printClientMessage\<close> prints for a message of format 32 holds the five
  slots: splitting what follows \<^verbatim>\<open>32-bit longs: \<close> at the blanks and reading each field
  as a signed decimal number gives back the slots of the message, in order.
\<close>

theorem printed_slots_read_back:
  assumes "format m = 32"
  shows "map (word_of_int \<circ> read_int) (fields (drop 14 (payload m))) = slots m"
  using assms by (simp add: payload_def fields_items data_l_def slots_def upt_rec)

theorem printed_slots_read_back_witness:
  "map (word_of_int \<circ> read_int) (fields (drop 14 (payload unknown1))) = slots unknown1"
  using printed_slots_read_back [of unknown1] by (simp add: unknown1_def)

end
