(* ===== verification/PhilError.thy ===== *)
theory PhilError
  imports XdndPrelude
begin

text \<open>
  The error functions of \<^verbatim>\<open>src/phil_error.c\<close> as what they write and leave behind.

  \<^item> \<open>Diagnostics\<close> is the part of the process they touch: \<^verbatim>\<open>errno\<close> and the text written
    to \<^verbatim>\<open>stderr\<close> so far. \<open>strerror\<close> is the table of messages of the C library.
  \<^item> Every call in the program passes a format and no further argument, so
    \<open>vfprintf0\<close> is \<^verbatim>\<open>vfprintf\<close> on an empty argument list: it copies the format, writes
    \<^verbatim>\<open>%\<close> for \<^verbatim>\<open>%%\<close>, and any other conversion reads an argument that is not there.
  \<^item> \<open>philErrorCore\<close> writes the formatted text, a colon and the message of \<^verbatim>\<open>errno\<close>;
    \<open>philErrorMsg\<close> then clears \<^verbatim>\<open>errno\<close>; \<open>philErrorExit\<close> is \<^verbatim>\<open>philError\<close>, which ends
    the process with the status \<^verbatim>\<open>EXIT_FAILURE\<close>. The handlers of the other theories use
    the error value \<open>philError\<close> of the prelude for this exit.
  \<^item> \<open>call_sites\<close> lists the formats of all calls of \<^verbatim>\<open>philError\<close> in the program:
    \<^verbatim>\<open>src/main.c\<close> line 20, \<^verbatim>\<open>src/spawn_window.c\<close> lines 174 to 537 and
    \<^verbatim>\<open>src/square_state.c\<close> lines 16 to 43. \<^verbatim>\<open>philErrorMsg\<close> is never called.
\<close>

section \<open>Definitions\<close>

record Diagnostics =
  errno :: int
  stderr :: string

fun vfprintf0 :: "string \<Rightarrow> string result" where
  "vfprintf0 [] = Inr []"
| "vfprintf0 [c] = (if c = CHR ''%'' then Inl (Undefined ''va_arg'') else Inr [c])"
| "vfprintf0 (c # c' # cs) =
    (if c \<noteq> CHR ''%'' then bindR (vfprintf0 (c' # cs)) (\<lambda>r. Inr (c # r))
     else if c' = CHR ''%'' then bindR (vfprintf0 cs) (\<lambda>r. Inr (CHR ''%'' # r))
     else Inl (Undefined ''va_arg''))"

definition philErrorCore :: "(int \<Rightarrow> string) \<Rightarrow> string \<Rightarrow> Diagnostics \<Rightarrow> Diagnostics result" where
  "philErrorCore strerror str d =
    bindR (vfprintf0 str)
      (\<lambda>text. Inr (d\<lparr>stderr := stderr d @ text @ '': '' @ strerror (errno d) @ [LF]\<rparr>))"

definition philErrorMsg :: "(int \<Rightarrow> string) \<Rightarrow> string \<Rightarrow> Diagnostics \<Rightarrow> Diagnostics result" where
  "philErrorMsg strerror str d =
    bindR (philErrorCore strerror str d) (\<lambda>d'. Inr (d'\<lparr>errno := 0\<rparr>))"

definition EXIT_FAILURE :: int where
  "EXIT_FAILURE = 1"

definition philErrorExit ::
  "(int \<Rightarrow> string) \<Rightarrow> string \<Rightarrow> Diagnostics \<Rightarrow> (Diagnostics \<times> int) result" where
  "philErrorExit strerror str d =
    bindR (philErrorCore strerror str d) (\<lambda>d'. Inr (d', EXIT_FAILURE))"

definition call_sites :: "string list" where
  "call_sites =
    [''fork'', ''XOpenDisplay'', ''XCreateSimpleWindow'', ''XStoreName'', ''XSelectInput'',
     ''XMapWindow'', ''XCreateGC'', ''XSetForeground'', ''XSetBackground'', ''XSendEvent'',
     ''malloc'', ''fopen'', ''fwrite'', ''fread'', ''fclose'']"

section \<open>Lemmas\<close>

lemma vfprintf0_plain: "CHR ''%'' \<notin> set s \<Longrightarrow> vfprintf0 s = Inr s"
  by (induction s rule: vfprintf0.induct) (auto simp: bindR_def)

lemma vfprintf0_Inr_length: "vfprintf0 s = Inr r \<Longrightarrow> length r \<le> length s"
  by (induction s arbitrary: r rule: vfprintf0.induct)
    (auto simp: bindR_eq_Inr_iff split: if_splits)

lemma philErrorCore_plain:
  assumes "CHR ''%'' \<notin> set str"
  shows "philErrorCore strerror str d
    = Inr (d\<lparr>stderr := stderr d @ str @ '': '' @ strerror (errno d) @ [LF]\<rparr>)"
  using assms by (simp add: philErrorCore_def vfprintf0_plain bindR_def)

text \<open>
  \<^verbatim>\<open>philErrorMsg\<close> writes one line, made of the format and the message of the error
  number, and leaves \<^verbatim>\<open>errno\<close> cleared; \<^verbatim>\<open>philError\<close> writes the same line and ends the
  process with status 1.
\<close>

lemma philErrorMsg_plain:
  assumes "CHR ''%'' \<notin> set str"
  shows "philErrorMsg strerror str d
    = Inr \<lparr>errno = 0, stderr = stderr d @ str @ '': '' @ strerror (errno d) @ [LF]\<rparr>"
  using assms by (simp add: philErrorMsg_def philErrorCore_plain bindR_def)

lemma philErrorExit_plain:
  assumes "CHR ''%'' \<notin> set str"
  shows "philErrorExit strerror str d
    = Inr (d\<lparr>stderr := stderr d @ str @ '': '' @ strerror (errno d) @ [LF]\<rparr>, 1)"
  using assms by (simp add: philErrorExit_def philErrorCore_plain bindR_def EXIT_FAILURE_def)

text \<open>No format the program passes holds a conversion, so every call is defined.\<close>

lemma call_sites_plain: "s \<in> set call_sites \<Longrightarrow> vfprintf0 s = Inr s"
  by (rule vfprintf0_plain) (auto simp: call_sites_def)

lemma philErrorMsg_conversion:
  "philErrorMsg strerror ''%s'' d = Inl (Undefined ''va_arg'')"
  by (simp add: philErrorMsg_def philErrorCore_def bindR_def)

end
