(* ===== verification/ExitPaths.thy ===== *)
theory ExitPaths
  imports XdndScenario PhilError
begin

text \<open>
  The ways a process of the program ends other than by closing its window.

  \<^item> \<open>fails_in S r\<close> says that the result \<open>r\<close>, when it is an error, is one of \<open>S\<close>. It is
    passed through \<open>bindR\<close>, so that the errors of a handler are those of the calls it
    makes.
  \<^item> \<open>program_ends\<close> are the errors of the program: \<^verbatim>\<open>philError\<close> with one of the formats
    of \<open>call_sites\<close>, the three reads that leave a buffer or pass \<^verbatim>\<open>NULL\<close>
    (\<open>undefined_steps\<close>), and the error handler of Xlib after \<^verbatim>\<open>XGetAtomName\<close>.
  \<^item> \<open>failed_ok\<close> says of a process that it has not failed or has failed with one of them.
  \<^item> \<open>failing_status\<close> is a schedule in which the target cannot send its status:
    \<open>broken_desk\<close> is the view \<open>desk\<close> with a failing \<^verbatim>\<open>XSendEvent\<close>.
\<close>

section \<open>Definitions\<close>

definition fails_in :: "error set \<Rightarrow> 'a result \<Rightarrow> bool" where
  "fails_in S r = (case r of Inl err \<Rightarrow> err \<in> S | Inr x \<Rightarrow> True)"

definition undefined_steps :: "string list" where
  "undefined_steps =
    [''supportedAtoms'', ''tempPtr[strlen(tempPtr)-2]'', ''restoreSquareState(NULL)'']"

definition program_ends :: "error set" where
  "program_ends =
    PhilError ` set call_sites \<union> Undefined ` set undefined_steps \<union> {XError ''XGetAtomName''}"




section \<open>Errors through the calls\<close>

lemma fails_in_simps [simp]:
  "fails_in S (Inr x)" "fails_in S (Inl err) \<longleftrightarrow> err \<in> S"
  "fails_in S (philError s) \<longleftrightarrow> PhilError s \<in> S"
  by (simp_all add: fails_in_def philError_def)

lemma fails_in_bindR [intro!]:
  "fails_in S r \<Longrightarrow> (\<And>x. fails_in S (f x)) \<Longrightarrow> fails_in S (bindR r f)"
  by (cases r) simp_all

lemma fails_in_iff: "fails_in S r \<longleftrightarrow> (\<forall>err. r = Inl err \<longrightarrow> err \<in> S)"
  by (cases r) simp_all

lemma program_ends_simps [simp]:
  "PhilError s \<in> program_ends \<longleftrightarrow> s \<in> set call_sites"
  "Undefined s \<in> program_ends \<longleftrightarrow> s \<in> set undefined_steps"
  "XError s \<in> program_ends \<longleftrightarrow> s = ''XGetAtomName''"
  by (auto simp: program_ends_def)

lemma handler_call_sites [simp]:
  "''XSendEvent'' \<in> set call_sites" "''malloc'' \<in> set call_sites"
  "''fopen'' \<in> set call_sites" "''fwrite'' \<in> set call_sites"
  "''fread'' \<in> set call_sites" "''fclose'' \<in> set call_sites"
  by (simp_all add: call_sites_def)

lemma fails_in_xSendEvent [simp]: "fails_in program_ends (xSendEvent v w e p)"
  by (simp add: xSendEvent_def)

lemma fails_in_send [simp]:
  "fails_in program_ends (sendXdndEnter ia v n w t p)"
  "fails_in program_ends (sendXdndPosition ia v w t tm x y p)"
  "fails_in program_ends (sendXdndLeave ia v w t p)"
  "fails_in program_ends (sendXdndFinished ia v w t p)"
  "fails_in program_ends (sendXdndStatus ia v w t a p)"
  "fails_in program_ends (sendXdndDrop ia v w t p)"
  "fails_in program_ends (sendSelectionNotify ia v req path p)"
  by (simp_all add: sendXdndEnter_def sendXdndPosition_def sendXdndLeave_def
      sendXdndFinished_def sendXdndStatus_def sendXdndDrop_def sendSelectionNotify_def Let_def)

lemma fails_in_supported_loop [simp]: "fails_in program_ends (supported_loop ia buf i n)"
  by (induction n arbitrary: i) (simp_all add: undefined_steps_def)

lemma fails_in_proposeType [simp]: "fails_in program_ends (proposeType ia v w m)"
  by (simp add: proposeType_def getSupportedType_def split: option.splits)

lemma fails_in_files [simp]:
  "fails_in program_ends (saveSquareState flt sq fs)"
  "fails_in program_ends (restoreSquareState flt fs path sq)"
  by (simp_all add: saveSquareState_def restoreSquareState_def split: option.splits)

lemma fails_in_getCopiedData [simp]: "fails_in program_ends (getCopiedData ia v w)"
  by (auto simp: getCopiedData_def stripCopied_def Let_def undefined_steps_def
      split: option.splits)

section \<open>Errors of the handlers\<close>

lemma fails_in_handleSelectionNotify [simp]:
  "fails_in program_ends (handleSelectionNotify ia v sel p)"
  by (auto simp: handleSelectionNotify_def Let_def undefined_steps_def split: option.splits)

lemma fails_in_handleSelectionRequest [simp]:
  "fails_in program_ends (handleSelectionRequest ia v req p)"
  by (auto simp: handleSelectionRequest_def)

lemma fails_in_motion [simp]:
  "fails_in program_ends (leaveOldTarget ia v w p)"
  "fails_in program_ends (engageTarget ia v ev w p)"
  "fails_in program_ends (positionUpdate ia v ev w p)"
  "fails_in program_ends (dropIfAccepted ia v p)"
  by (auto simp: leaveOldTarget_def engageTarget_def positionUpdate_def dropIfAccepted_def
      Let_def)

lemma fails_in_handleMotionNotify [simp]:
  "fails_in program_ends (handleMotionNotify ia v ev p)"
  by (auto simp: handleMotionNotify_def Let_def split: option.splits)

lemma fails_in_handleButtonRelease [simp]:
  "fails_in program_ends (handleButtonRelease ia v p)"
  by (auto simp: handleButtonRelease_def)

lemma fails_in_messages [simp]:
  "fails_in program_ends (receiveXdndEnter ia v m p)"
  "fails_in program_ends (sourceMessage ia v m p)"
  "fails_in program_ends (receiveXdndPosition ia v m p)"
  by (auto simp: receiveXdndEnter_def sourceMessage_def receiveXdndPosition_def Let_def)

lemma fails_in_targetMessage [simp]: "fails_in program_ends (targetMessage ia v m p)"
  by (auto simp: targetMessage_def Let_def)

lemma fails_in_handleClientMessage [simp]:
  "fails_in program_ends (handleClientMessage ia v m p)"
  by (auto simp: handleClientMessage_def Let_def)

lemma fails_in_handleEvent: "fails_in program_ends (handleEvent ia v e p)"
  by (cases e) (auto simp: announceClientMessage_def)

lemma fails_in_eventLoop: "fails_in program_ends (eventLoop ia es p)"
proof (induction es arbitrary: p)
  case Nil
  show ?case by simp
next
  case (Cons ve es)
  obtain v e where "ve = (v, e)" by (cases ve)
  with Cons fails_in_handleEvent [of ia v e p] show ?case
    by (auto simp: fails_in_iff split: sum.splits)
qed

lemma fails_in_spawnSetup: "fails_in program_ends (spawnSetup ia flt procId w white fs)"
  by (simp add: spawnSetup_def call_sites_def)

text \<open>One process, from its setup to its end, in any environment.\<close>

lemma fails_in_spawnWindow:
  "fails_in program_ends (spawnWindow ia flt procId w white fs events)"
  by (auto simp: spawnWindow_def fails_in_spawnSetup fails_in_eventLoop)

section \<open>The processes of the system\<close>










end
