(* ===== verification/Spec2Isabelle.thy ===== *)
theory Spec2Isabelle
  imports XdndPrelude XEventType SquareState XTypes XServer TypeNegotiator PayloadTransfer
    HitTest MessageCodec StateMachine XdndInvariants HandlerInvariants SpawnWindow
    XdndProperties XdndRefinement PeerRequests XdndSystem XdndScenario
    ClientMessagePrinter PhilError ExitPaths
begin

text \<open>
  \<^bold>\<open>The program.\<close> \<^verbatim>\<open>main\<close> (\<^verbatim>\<open>src/main.c\<close>) forks; each of the two processes runs
  \<^verbatim>\<open>spawnWindow\<close> (\<^verbatim>\<open>src/spawn_window.c\<close>), which opens a 200 by 200 window, announces that
  the window understands XDND and then handles X events in a loop until the window
  manager asks it to close. The child shows a square of 50 by 50 pixels that can be
  dragged with the mouse and recoloured with a key. When the square is dragged out of its
  window over another window that understands XDND, the process becomes the \<^emph>\<open>source\<close> of
  an XDND exchange with that window, which becomes the \<^emph>\<open>target\<close>: enter, position,
  status, drop (or leave), then a selection request of the target, which the source
  answers by saving the square's colour to a file (\<^verbatim>\<open>src/square_state.c\<close>) and storing
  the path of the file as a property on the target's window, then finished. All state of
  the exchange is the global struct \<^verbatim>\<open>xdndState\<close>. A failing call ends the process through
  \<^verbatim>\<open>philError\<close> (\<^verbatim>\<open>src/phil_error.c\<close>).

  \<^bold>\<open>The model of one process.\<close> The state of a process is the record \<open>Peer\<close>: the struct
  \<^verbatim>\<open>xdndState\<close> (record \<open>XDNDStateMachine\<close>, field for field), the square, the two loop
  variables \<^verbatim>\<open>clickedStillInWindow\<close> and \<^verbatim>\<open>continueEventLoop\<close>, its window id, the files
  it can see, and the log \<open>out\<close> of the requests it has issued to the X server, in program
  order. A function of the C code that reads or writes this state is a function from
  \<open>Peer\<close> to \<open>Peer result\<close>; the error value is the end of the process by \<^verbatim>\<open>philError\<close>
  (\<open>PhilError\<close> with the name of the call that failed), by the error handler of Xlib
  (\<open>XError\<close>), or undefined behaviour of the C code (\<open>Undefined\<close>). What the process
  reads from outside while it handles one event is the record \<open>XView\<close>: the window tree
  with geometry, the properties, the pointer position, and which library calls fail.
  The atoms are read from a table \<open>AtomTable\<close>, which is \<^verbatim>\<open>XInternAtom\<close>.

  \<^bold>\<open>The model of the system.\<close> The record \<open>System\<close> holds the two processes, the X server
  and the files. The server (\<open>Server\<close>, from the Xlib manual) keeps the properties of
  each window, the owner of each selection and one queue of events per window; it
  delivers what \<^verbatim>\<open>XSendEvent\<close> sends in order and exactly once, and turns
  \<^verbatim>\<open>XConvertSelection\<close> into a request to the owner of the selection. One step of the
  system (\<open>sys_step\<close>) is one turn of one process, which takes the first event of its
  queue through \<open>handleEvent\<close> and hands the requests of this turn to the server, or one
  event of the user or the window manager that enters a queue. \<open>sys_run\<close> executes a
  schedule of such steps.

  \<^bold>\<open>Theories.\<close>
  \<^item> \<open>XdndPrelude\<close>: collections of facts, the result type with \<open>bindR\<close>, C strings
    (\<open>cstr\<close>, \<open>is_infix\<close> for \<^verbatim>\<open>strstr\<close>), four-byte objects as bytes (\<open>le_word\<close>,
    \<open>le_bytes\<close>), word facts.
  \<^item> \<open>XEventType\<close>: \<^verbatim>\<open>getEventType\<close> of \<^verbatim>\<open>src/xevent_type.c\<close> and its lookup table.
  \<^item> \<open>SquareState\<close>: \<^verbatim>\<open>Square\<close>, \<^verbatim>\<open>saveSquareState\<close>, \<^verbatim>\<open>restoreSquareState\<close> of
    \<^verbatim>\<open>src/square_state.c\<close> over a file system that maps paths to contents, the file
    a save leaves when it fails (\<open>saveSquareState_files\<close>) and what the file may hold
    (\<open>file_ok\<close>).
  \<^item> \<open>XTypes\<close>: atoms, events (\<open>XEvent\<close>, one constructor per case of the loop),
    requests (\<open>XRequest\<close>), properties, the window tree, \<open>XView\<close>.
  \<^item> \<open>XServer\<close>: the property store (\<open>apply_request\<close>), the reply to a read of at most
    4096 bytes (\<open>XGetWindowProperty\<close>) and the server with selection owners and event
    queues (\<open>Server\<close>, \<open>serve\<close>, \<open>view\<close>), from the Xlib manual.
  \<^item> \<open>TypeNegotiator\<close>: \<^verbatim>\<open>doWeAcceptAtom\<close>, \<^verbatim>\<open>getSupportedType\<close>, the choice of the
    proposed type in the enter handler; specification \<open>negotiate\<close>.
  \<^item> \<open>PayloadTransfer\<close>: the buffer \<^verbatim>\<open>sendSelectionNotify\<close> writes and \<^verbatim>\<open>getCopiedData\<close>;
    specification \<open>unframe\<close>.
  \<^item> \<open>HitTest\<close>: \<^verbatim>\<open>isPointerInsideSquare\<close>, \<^verbatim>\<open>getWindowPointerIsOver\<close> with its
    specification \<open>under\<close>, \<^verbatim>\<open>hasCorrectXdndAwareProperty\<close>.
  \<^item> \<open>MessageCodec\<close>: the state records, the six builders \<^verbatim>\<open>sendXdnd...\<close> and
    \<^verbatim>\<open>sendSelectionNotify\<close>, the packing of the coordinates; the tagged union
    \<open>XdndMessage\<close> with \<open>encode\<close> and \<open>decode\<close> as specification.
  \<^item> \<open>StateMachine\<close>: the event loop, one definition per case of its \<^verbatim>\<open>switch\<close>,
    \<open>handleEvent\<close> for the \<^verbatim>\<open>switch\<close>, \<open>eventLoop\<close> for the loop.
  \<^item> \<open>XdndInvariants\<close>, \<open>HandlerInvariants\<close>: the invariants \<open>sm_inv\<close> and \<open>square_inv\<close>
    and their preservation by every handler, by \<open>handleEvent\<close> and by \<open>eventLoop\<close>.
  \<^item> \<open>SpawnWindow\<close>: setup and teardown of \<^verbatim>\<open>spawnWindow\<close>, \<^verbatim>\<open>main\<close>, the states a
    process can reach.
  \<^item> \<open>XdndProperties\<close>: the properties of the protocol and the findings, for one process
    against any environment.
  \<^item> \<open>XdndRefinement\<close>: the states and transitions of the specification's state machine
    (\<open>SpecState\<close>, \<open>spec_step\<close>), the abstraction \<open>abs_state\<close> from the flags of
    \<^verbatim>\<open>xdndState\<close>, and the event loop as an implementation of it.
  \<^item> \<open>PeerRequests\<close>: what a process guarantees to the server and to its peer: the
    shapes of the requests it issues (\<open>req_ok\<close>, \<open>conforms\<close>) and the file it leaves
    (\<open>file_ok_filesAfterEvent\<close>), given the shape of the events and properties it is
    handed (\<open>request_ok\<close>, \<open>data_ok\<close>).
  \<^item> \<open>XdndSystem\<close>: the two processes and the server as one system (\<open>launch\<close>,
    \<open>sys_handle\<close>, \<open>sys_step\<close>, \<open>sys_run\<close>) and its invariant \<open>sys_inv\<close>.
  \<^item> \<open>XdndScenario\<close>: complete runs of the system: one turn of a handler as a triple
    (\<open>handler\<close>), the state of an exchange (\<open>stage\<close>), the schedule of a drag and drop.
  \<^item> \<open>ClientMessagePrinter\<close>: \<^verbatim>\<open>printClientMessage\<close> as the text it prints, with
    \<^verbatim>\<open>printf("%d")\<close> as \<open>show_int\<close>.
  \<^item> \<open>PhilError\<close>: the three functions of \<^verbatim>\<open>src/phil_error.c\<close>.
  \<^item> \<open>ExitPaths\<close>: the errors a handler, a process and the system can end with
    (\<open>fails_in\<close>, \<open>program_ends\<close>).

  \<^bold>\<open>What is shown.\<close>
  \<^item> Invariants: every state one process reaches in any environment has a consistent
    state machine record and a square inside the window (C1). In the system of the two
    processes every reachable state has this for both, colours of the enumeration in
    the squares, a file that holds such a colour or is cut short by a failed save, and
    only events and properties of the program's shapes in the server (C2); the proof is by the guarantee of each handler under the
    assumption on what it is handed (\<open>conforms_handleEvent\<close>, \<open>server_ok_serve\<close>,
    \<open>sys_inv_step\<close>). An event either discards the whole record, only adds flags to it, or
    starts a fresh exchange (C9).
  \<^item> Progress: a drag and drop between the two idle processes completes, with both
    records zero again, the colour handed over and the property deleted (C3). The proof
    composes the triples of the eleven handler turns (\<open>step_...\<close>) along the schedule.
  \<^item> Rules of the protocol: one status per exchange however many positions arrive
    (C4); positions and drops of a stranger are ignored once a position is recorded
    (C5); rejection makes the source leave and never drop (C6); retargeting sends leave,
    enter, position in this order (C7); a drop without a position is ignored (C8); the
    first position is accepted from any window and answered to the recorded one (C13).
  \<^item> Data paths between the two sides: the colour the source saves is the colour the
    target shows (C10, through the property store and the file); the proposed type is
    the specification's \<open>negotiate\<close> (C11); the coordinates the target records are those
    of the source's motion event (C12); decoding inverts encoding (C23), and the
    builders send the encodings (\<open>builders_encode\<close>); a negative y overwrites x (C24);
    save and restore of the colour (C25).
  \<^item> Refinement: each event is a stutter or one transition of the specification's state
    machine, the move from target to source by a motion event apart (C14), and the
    states a run of the loop passes through form a path in it, each followed by itself
    or by a state one transition away (C15).
  \<^item> Where the code leaves the protocol or is unsafe: a second drop before the first
    transfer has finished takes the target into undefined behaviour, in a run of the
    two processes alone (C16); the drop's time stamp is always 0 (C17); finished is sent
    without a drop (C18); leave and finished are accepted from any sender (C19, C20); a
    failed type negotiation still leads to an accepting status (C21); a selection
    notification without a property is undefined behaviour (C22); the colour read from
    the file is not validated (C26).
  \<^item> Components against their specifications: the hit test returns a deepest window
    under the pointer, the end of a path of windows that contain it (C27), descends
    into the top-most child under the pointer (C28) and returns a window of the tree
    (C29); the string work of
    \<^verbatim>\<open>getCopiedData\<close> is \<open>unframe\<close> when the scheme is a prefix or absent (C30) and is
    \<open>unframe\<close> with seven bytes missing whenever the scheme is in the middle (C31);
    \<^verbatim>\<open>getSupportedType\<close> reads beyond a type list of format 8 (C32); the numbers
    \<^verbatim>\<open>printClientMessage\<close> prints for format 32 read back as the slots (C33).
  \<^item> The ends of a process: in every reachable state of the system a process that has
    not closed its window has ended through \<^verbatim>\<open>philError\<close> with a format of the program,
    which then writes one line and exits with status 1, in one of three undefined
    reads, or through the error handler of Xlib (C34).
  \<^item> The process as a whole: a finished run has issued the setup requests first and the
    teardown requests last (C35); the window it sets up is recognised as XDND-aware with
    version 5 (C36); the parent's window lies at \<open>pid * 200\<close> (C37); without failing
    calls every event is handled, two kinds of property reads apart (C40).
  \<^item> Further departures from the protocol: a release before the status leaves the
    exchange open (C38); a target that drags its square becomes a source without
    telling its peer (C39).

  \<^bold>\<open>Assumptions and bounds.\<close>
  \<^item> Window ids, atoms, time stamps and the five slots of a client message are 32-bit
    words, which is what the X protocol transmits. \<^verbatim>\<open>long\<close>, \<^verbatim>\<open>Atom\<close> and \<^verbatim>\<open>Window\<close> of the
    C code are read at this width, so an item of a format-32 property is four bytes of
    the client buffer in little-endian order (the code itself assumes little-endian,
    line 109). On platforms with a 64-bit \<^verbatim>\<open>long\<close> Xlib widens each item; the statements
    about \<^verbatim>\<open>getSupportedType\<close> then hold for the widened items, and the call of
    \<^verbatim>\<open>XChangeProperty\<close> in line 517 reads beyond \<^verbatim>\<open>xdndVersion\<close>, which the model does
    not show.
  \<^item> \<^verbatim>\<open>int\<close> values of the square and of pointer coordinates are \<open>int\<close>: the square
    stays within 0..150 by the clamping, and coordinates are 16-bit quantities of the X
    protocol, so no \<^verbatim>\<open>int\<close> computation of the code overflows. The one exception is
    \<^verbatim>\<open>p_rootX << 16 | p_rootY\<close>, which is modelled on 32-bit words (\<open>pack_xy\<close>); the
    round trip is shown for x in sixteen signed and y in sixteen unsigned bits, and
    what happens for a negative y is C24.
  \<^item> A call of Xlib or libc whose result the code checks can fail: \<open>fault v\<close> names the
    calls that fail while an event is handled. Calls whose result the code ignores
    (\<^verbatim>\<open>XChangeProperty\<close>, \<^verbatim>\<open>XSetSelectionOwner\<close>, \<^verbatim>\<open>XConvertSelection\<close>, drawing) are
    logged and cannot fail. \<^verbatim>\<open>XQueryTree\<close> succeeds on every window of the tree and
    \<^verbatim>\<open>XQueryPointer\<close> returns the pointer of the view. \<^verbatim>\<open>XGetAtomName\<close> fails only on
    the type of a message that is none of the program's.
  \<^item> An error value carries no state. In the system the requests of a turn that ends
    the process do not reach the server: Xlib sends its output buffer with the next
    call that waits for the server, every such call of a handler comes before the
    first request of the turn that can be followed by a failure, and \<^verbatim>\<open>exit\<close> sends
    nothing. The files are written at once: the system keeps the files the failing
    handler leaves (\<open>filesAfterEvent\<close>). \<^verbatim>\<open>fopen\<close> with \<^verbatim>\<open>"wb"\<close> has truncated the file
    before \<^verbatim>\<open>fwrite\<close> or \<^verbatim>\<open>fclose\<close> can fail; a failure of either is taken to leave
    the file empty, and \<open>file_ok\<close> admits every file shorter than four bytes.
  \<^item> A read of a property returns at most 4096 bytes (\<^verbatim>\<open>long_length\<close> 1024 in lines 106,
    359 and 388). The position of the window is the \<^verbatim>\<open>int\<close> the code passes; Xlib sends
    its low sixteen bits. The index \<^verbatim>\<open>strlen(tempPtr)-2\<close> of line 411 is followed as flat
    address arithmetic and is undefined in the model only when the read leaves the
    buffer. The two calls of \<^verbatim>\<open>malloc\<close> in \<^verbatim>\<open>getCopiedData\<close> share one fault, as they end
    the process with the same message.
  \<^item> One turn of the loop is one step of the system: the server sees the requests of a
    turn together, in program order, and a property a handler reads is the one the
    server holds when the turn begins. The window tree, the geometry and the pointer
    are given with each turn (\<open>XView\<close>) and are not state of the server. The time stamps
    of selection requests are taken as current, and the server knows no client but the
    two processes, the user and the window manager; in C2 the events of the latter two
    are any events but selection events and XDND messages.
  \<^item> The loop is run over a finite list of events, the system over a finite schedule;
    \<open>eventLoop\<close> and \<open>sys_run\<close> are total by recursion over the list, and a turn of a
    process with an empty queue changes nothing, which stands for \<^verbatim>\<open>XNextEvent\<close>
    blocking. No fuel is used anywhere; the other recursions are over the window tree,
    over buffers and over the digits of a number.

  \<^bold>\<open>Not modelled.\<close> The lines the program prints about its own progress (\<^verbatim>\<open>printf\<close> in
  the handlers), which depend on no state beyond the branch taken; the screen
  dimensions, which are only printed; drawing, which is logged as a request and has
  no effect in the server; the change of the window tree and of the pointer over time,
  which each turn is given; clients of the server other than the two processes.
\<close>

end
